theory Spec2Isabelle
  imports Main "HOL-Library.Word"
begin

section \<open>The standalone embedder \<^verbatim>\<open>runtime/bin/main.cc\<close>\<close>

text \<open>
  A shallow embedding of the command-line driver of the virtual machine: option parsing,
  the environment table, the snapshot files, one bootstrap of the main isolate, the
  restart loop of \<^verbatim>\<open>main\<close> and the decompressor of the bundled assets.

  The engine (every \<^verbatim>\<open>Dart_*\<close> function), the platform layer (\<^verbatim>\<open>File\<close>,
  \<^verbatim>\<open>Platform\<close>, \<^verbatim>\<open>DartUtils\<close>, \<^verbatim>\<open>Extensions\<close>, \<^verbatim>\<open>VmService\<close>) and zlib are not part
  of the file. What they answer is a parameter of the model: a record that holds the
  answer of each call site, or a function.
\<close>

subsection \<open>Build configuration\<close>

text \<open>The preprocessor symbols the file tests. \<open>DEBUG\<close> switches \<^verbatim>\<open>ASSERT\<close> on.\<close>

record build_config =
  DART_PRECOMPILER :: bool
  DART_NO_SNAPSHOT :: bool
  DART_PRODUCT_BINARY :: bool
  PRODUCT :: bool
  DEBUG :: bool

definition is_noopt :: "build_config \<Rightarrow> bool" where
  "is_noopt b = (DART_PRECOMPILER b \<and> \<not> DART_NO_SNAPSHOT b)"

text \<open>Build configurations for the examples, named after the binaries that the messages
  of the file mention.\<close>

definition dart :: build_config where
  "dart = \<lparr>DART_PRECOMPILER = False, DART_NO_SNAPSHOT = False, DART_PRODUCT_BINARY = False,
           PRODUCT = False, DEBUG = False\<rparr>"

definition dart_bootstrap :: build_config where
  "dart_bootstrap = \<lparr>DART_PRECOMPILER = True, DART_NO_SNAPSHOT = True,
                     DART_PRODUCT_BINARY = False, PRODUCT = False, DEBUG = False\<rparr>"

definition dart_product :: build_config where
  "dart_product = \<lparr>DART_PRECOMPILER = False, DART_NO_SNAPSHOT = True,
                   DART_PRODUCT_BINARY = True, PRODUCT = True, DEBUG = False\<rparr>"

type_synonym uint8_t = "8 word"

subsection \<open>Static variables\<close>

text \<open>
  A run that leaves defined behaviour is marked, not stopped: \<open>fault\<close> holds the first
  failed assertion (a \<open>DEBUG\<close> build aborts there) or the first undefined operation.
\<close>

datatype fault = Assertion_Failed string | Undefined_Behaviour string

text \<open>
  What the process does to the engine and to the file system, in order. A call that the
  model does not tell apart from its neighbours is an \<open>Engine_Call\<close> with its name.
\<close>

datatype event =
    Dart_CreateIsolate string
  | Dart_EnterIsolate
  | Dart_ExitIsolate
  | Dart_EnterScope
  | Dart_ExitScope
  | Dart_ShutdownIsolate
  | Dart_IsolateMakeRunnable
  | Dart_RunLoop
  | Dart_Cleanup
  | Engine_Call string
  | File_Open string
  | File_Write string "uint8_t list"
  | File_Close string

text \<open>
  The file's static variables, the two snapshot buffers it imports, what it has printed
  on standard error, and the locals of \<^verbatim>\<open>main\<close> that \<^verbatim>\<open>ParseArguments\<close> fills through
  pointers (\<open>vm_options\<close>, \<open>script_name\<close>, \<open>dart_options\<close>, \<open>print_flags_seen\<close>,
  \<open>verbose_debug_seen\<close>), and the \<open>trace\<close> of events. A \<^verbatim>\<open>const char*\<close> that may be \<^verbatim>\<open>NULL\<close> is a \<open>string option\<close>.
  The environment is a \<^verbatim>\<open>dart::HashMap\<close> keyed by C strings (\<^verbatim>\<open>SameStringValue\<close>): a
  partial map, \<open>None\<close> while the table is not allocated.
\<close>

record state =
  generate_script_snapshot :: bool
  generate_full_snapshot_after_run :: bool
  run_full_snapshot :: bool
  snapshot_filename :: "string option"
  commandline_package_root :: "string option"
  commandline_packages_file :: "string option"
  compile_all :: bool
  gen_precompiled_snapshot :: bool
  run_precompiled_snapshot :: bool
  precompiled_snapshot_directory :: "string option"
  trace_loading :: bool
  vm_service_server_ip :: string
  vm_service_server_port :: int
  do_vm_shutdown :: bool
  environment :: "(string \<rightharpoonup> string) option"
  version_option :: bool
  help_option :: bool
  verbose_option :: bool
  vm_isolate_snapshot_buffer :: "uint8_t list option"
  isolate_snapshot_buffer :: "uint8_t list option"
  vm_options :: "string list"
  script_name :: "string option"
  dart_options :: "string list"
  print_flags_seen :: bool
  verbose_debug_seen :: bool
  stderr_log :: "string list"
  fault :: "fault option"
  trace :: "event list"

definition DEFAULT_VM_SERVICE_SERVER_IP :: string where
  "DEFAULT_VM_SERVICE_SERVER_IP = ''127.0.0.1''"

definition DEFAULT_VM_SERVICE_SERVER_PORT :: int where
  "DEFAULT_VM_SERVICE_SERVER_PORT = 8181"

definition kApiErrorExitCode :: int where "kApiErrorExitCode = 253"
definition kCompilationErrorExitCode :: int where "kCompilationErrorExitCode = 254"
definition kErrorExitCode :: int where "kErrorExitCode = 255"
definition kRestartRequestExitCode :: int where "kRestartRequestExitCode = 1000"

definition kPrecompiledVmIsolateName :: string where
  "kPrecompiledVmIsolateName = ''precompiled.vmisolate''"
definition kPrecompiledIsolateName :: string where
  "kPrecompiledIsolateName = ''precompiled.isolate''"
definition kPrecompiledInstructionsName :: string where
  "kPrecompiledInstructionsName = ''precompiled.S''"
definition kVMIsolateSuffix :: string where "kVMIsolateSuffix = ''vmisolate''"
definition kIsolateSuffix :: string where "kIsolateSuffix = ''isolate''"

text \<open>
  The initialisers of the static variables, and the locals of \<^verbatim>\<open>main\<close> as they are
  declared. The two snapshot buffers are link-time data.
\<close>

definition initial_state :: "uint8_t list option \<Rightarrow> uint8_t list option \<Rightarrow> state" where
  "initial_state vm_buf iso_buf =
     \<lparr> generate_script_snapshot = False,
       generate_full_snapshot_after_run = False,
       run_full_snapshot = False,
       snapshot_filename = None,
       commandline_package_root = None,
       commandline_packages_file = None,
       compile_all = False,
       gen_precompiled_snapshot = False,
       run_precompiled_snapshot = False,
       precompiled_snapshot_directory = None,
       trace_loading = False,
       vm_service_server_ip = DEFAULT_VM_SERVICE_SERVER_IP,
       vm_service_server_port = - 1,
       do_vm_shutdown = True,
       environment = None,
       version_option = False,
       help_option = False,
       verbose_option = False,
       vm_isolate_snapshot_buffer = vm_buf,
       isolate_snapshot_buffer = iso_buf,
       vm_options = [],
       script_name = None,
       dart_options = [],
       print_flags_seen = False,
       verbose_debug_seen = False,
       stderr_log = [],
       fault = None,
       trace = [] \<rparr>"

definition PrintErr :: "string \<Rightarrow> state \<Rightarrow> state" where
  "PrintErr msg s = s\<lparr>stderr_log := stderr_log s @ [msg]\<rparr>"

definition AddArgument :: "string \<Rightarrow> state \<Rightarrow> state" where
  "AddArgument a s = s\<lparr>vm_options := vm_options s @ [a]\<rparr>"

definition set_fault :: "fault \<Rightarrow> state \<Rightarrow> state" where
  "set_fault f s = (case fault s of None \<Rightarrow> s\<lparr>fault := Some f\<rparr> | Some _ \<Rightarrow> s)"

subsection \<open>C strings\<close>

text \<open>\<^verbatim>\<open>strncmp(s, p, strlen(p)) == 0\<close>: \<open>p\<close> is a prefix of \<open>s\<close>.\<close>

fun starts_with :: "string \<Rightarrow> string \<Rightarrow> bool" where
  "starts_with [] s = True"
| "starts_with (p # ps) [] = False"
| "starts_with (p # ps) (c # cs) = (p = c \<and> starts_with ps cs)"

text \<open>The first character of a C string; the terminator when the string is empty.\<close>

definition first_char :: "string \<Rightarrow> char" where
  "first_char s = (case s of [] \<Rightarrow> CHR 0x00 | c # _ \<Rightarrow> c)"

text \<open>What a \<^verbatim>\<open>char*\<close> reader sees of a byte array: the bytes before the first zero.\<close>

definition c_str :: "string \<Rightarrow> string" where
  "c_str bs = takeWhile (\<lambda>c. c \<noteq> CHR 0x00) bs"

definition IsValidFlag :: "string \<Rightarrow> string \<Rightarrow> nat \<Rightarrow> bool" where
  "IsValidFlag name prefix prefix_length =
     (length name > prefix_length \<and> starts_with (take prefix_length prefix) name)"

subsection \<open>\<^verbatim>\<open>atoi\<close> and \<^verbatim>\<open>sscanf\<close>\<close>

definition isspace :: "char \<Rightarrow> bool" where
  "isspace c = (c = CHR '' '' \<or> c = CHR 0x09 \<or> c = CHR 0x0A \<or> c = CHR 0x0B \<or>
                c = CHR 0x0C \<or> c = CHR 0x0D)"

definition isdigit :: "char \<Rightarrow> bool" where
  "isdigit c = (48 \<le> (of_char c :: nat) \<and> (of_char c :: nat) \<le> 57)"

definition digit_value :: "char \<Rightarrow> int" where
  "digit_value c = int (of_char c) - 48"

fun decimal :: "string \<Rightarrow> int \<Rightarrow> int" where
  "decimal [] acc = acc"
| "decimal (c # cs) acc = decimal cs (10 * acc + digit_value c)"

definition INT_MAX :: int where "INT_MAX = 2147483647"
definition INT_MIN :: int where "INT_MIN = - 2147483648"

text \<open>
  The integer at the front of a string, as \<^verbatim>\<open>strtol\<close> in base 10 and the conversion
  \<^verbatim>\<open>%d\<close> read it: white space, an optional sign, digits. The value and the rest of the
  string; \<open>None\<close> when no digit is there.
\<close>

definition scan_int :: "string \<Rightarrow> (int \<times> string) option" where
  "scan_int s =
     (let s1 = dropWhile isspace s;
          neg = (first_char s1 = CHR ''-'');
          s2 = (if first_char s1 = CHR ''-'' \<or> first_char s1 = CHR ''+'' then tl s1 else s1);
          ds = takeWhile isdigit s2
      in if ds = [] then None
         else Some ((if neg then - decimal ds 0 else decimal ds 0), dropWhile isdigit s2))"

text \<open>\<^verbatim>\<open>atoi\<close>: 0 when no number is there; \<open>None\<close> when the value is not an \<^verbatim>\<open>int\<close>
  (the behaviour is undefined).\<close>

definition atoi :: "string \<Rightarrow> int option" where
  "atoi s =
     (case scan_int s of
        None \<Rightarrow> Some 0
      | Some (v, _) \<Rightarrow> if INT_MIN \<le> v \<and> v \<le> INT_MAX then Some v else None)"

text \<open>
  \<^verbatim>\<open>%d\<close> conversions separated by the literal characters \<open>seps\<close>. \<open>k\<close> counts the
  conversions stored so far. The result is the count and, when the whole format was
  matched, the rest of the input; the outer \<open>None\<close> is a value that is not an \<^verbatim>\<open>int\<close>.
\<close>

fun scan_ints :: "char list \<Rightarrow> string \<Rightarrow> int \<Rightarrow> (int \<times> string option) option" where
  "scan_ints seps s k =
     (case scan_int s of
        None \<Rightarrow> Some (k, None)
      | Some (v, r) \<Rightarrow>
          if \<not> (INT_MIN \<le> v \<and> v \<le> INT_MAX) then None
          else (case seps of
                  [] \<Rightarrow> Some (k + 1, Some r)
                | c # cs \<Rightarrow>
                    (case r of
                       [] \<Rightarrow> Some (k + 1, None)
                     | x # r' \<Rightarrow> if x = c then scan_ints cs r' (k + 1) else Some (k + 1, None))))"

declare scan_ints.simps [simp del]

text \<open>
  \<^verbatim>\<open>sscanf(s, "%d/%d.%d.%d.%d%n", ...)\<close>: the value returned (\<^verbatim>\<open>EOF\<close> is \<open>-1\<close>: the
  input ended before the first conversion) and what \<^verbatim>\<open>%n\<close> stored, if it was reached.
\<close>

definition sscanf_port_ip :: "string \<Rightarrow> (int \<times> nat option) option" where
  "sscanf_port_ip s =
     (if dropWhile isspace s = [] then Some (- 1, None)
      else (case scan_ints [CHR ''/'', CHR ''.'', CHR ''.'', CHR ''.''] s 0 of
              None \<Rightarrow> None
            | Some (k, None) \<Rightarrow> Some (k, None)
            | Some (k, Some r) \<Rightarrow> Some (k, Some (length s - length r))))"

text \<open>\<^verbatim>\<open>strstr(s, "/")\<close>: the string after the first slash, \<open>None\<close> for \<^verbatim>\<open>NULL\<close>.\<close>

definition after_slash :: "string \<Rightarrow> string option" where
  "after_slash s =
     (case dropWhile (\<lambda>c. c \<noteq> CHR ''/'') s of [] \<Rightarrow> None | _ # r \<Rightarrow> Some r)"

subsection \<open>Option handlers\<close>

datatype extracted = Extracted int string | Not_Extracted | Extract_Undefined string

definition ExtractPortAndIP :: "string \<Rightarrow> int \<Rightarrow> string \<Rightarrow> extracted" where
  "ExtractPortAndIP option_value default_port default_ip =
     (if first_char option_value = CHR 0x00 then Extracted default_port default_ip
      else if first_char option_value \<noteq> CHR ''='' \<and> first_char option_value \<noteq> CHR '':''
      then Not_Extracted
      else (case atoi (tl option_value) of
              None \<Rightarrow> Extract_Undefined ''atoi: value out of range''
            | Some port \<Rightarrow>
                (case after_slash option_value of
                   None \<Rightarrow> Extracted port default_ip
                 | Some ip \<Rightarrow>
                     (case sscanf_port_ip (tl option_value) of
                        None \<Rightarrow> Extract_Undefined ''sscanf: value out of range''
                      | Some (r, n) \<Rightarrow>
                          if r \<noteq> 0 then
                            (case n of
                               None \<Rightarrow> Extract_Undefined ''n is read uninitialised''
                             | Some n \<Rightarrow>
                                 if 1 + n = length option_value then Extracted port ip
                                 else Not_Extracted)
                          else Not_Extracted))))"

type_synonym handler = "string \<Rightarrow> state \<Rightarrow> bool \<times> state"

definition ProcessVersionOption :: handler where
  "ProcessVersionOption arg s =
     (if first_char arg \<noteq> CHR 0x00 then (False, s) else (True, s\<lparr>version_option := True\<rparr>))"

definition ProcessHelpOption :: handler where
  "ProcessHelpOption arg s =
     (if first_char arg \<noteq> CHR 0x00 then (False, s) else (True, s\<lparr>help_option := True\<rparr>))"

definition ProcessVerboseOption :: handler where
  "ProcessVerboseOption arg s =
     (if first_char arg \<noteq> CHR 0x00 then (False, s) else (True, s\<lparr>verbose_option := True\<rparr>))"

definition ProcessPackageRootOption :: handler where
  "ProcessPackageRootOption arg s =
     (if first_char arg = CHR 0x00 \<or> first_char arg = CHR ''-'' then (False, s)
      else (True, s\<lparr>commandline_package_root := Some arg\<rparr>))"

definition ProcessPackagesOption :: handler where
  "ProcessPackagesOption arg s =
     (if first_char arg = CHR 0x00 \<or> first_char arg = CHR ''-'' then (False, s)
      else (True, s\<lparr>commandline_packages_file := Some arg\<rparr>))"

text \<open>\<^verbatim>\<open>strchr(arg, '=')\<close>: the name before the first equals sign and the value after it.\<close>

definition split_equals :: "string \<Rightarrow> (string \<times> string) option" where
  "split_equals arg =
     (case dropWhile (\<lambda>c. c \<noteq> CHR ''='') arg of
        [] \<Rightarrow> None
      | _ # v \<Rightarrow> Some (takeWhile (\<lambda>c. c \<noteq> CHR ''='') arg, v))"

text \<open>\<^verbatim>\<open>if (environment == NULL) environment = new HashMap(...)\<close>.\<close>

definition allocate_environment :: "state \<Rightarrow> state" where
  "allocate_environment s =
     (if environment s = None then s\<lparr>environment := Some Map.empty\<rparr> else s)"

definition ProcessEnvironmentOption :: handler where
  "ProcessEnvironmentOption arg s =
     (if first_char arg = CHR 0x00
      then (True, PrintErr ''No arguments given to -D option\<newline>'' s)
      else
        let s1 = allocate_environment s in
        (case split_equals arg of
           None \<Rightarrow> (False, PrintErr ''No value given to -D option\<newline>'' s1)
         | Some (name, val) \<Rightarrow>
             if length name = 0 then (False, PrintErr ''No name given to -D option\<newline>'' s1)
             else (True, s1\<lparr>environment := Some ((the (environment s1))(name \<mapsto> val))\<rparr>)))"

definition ProcessCompileAllOption :: handler where
  "ProcessCompileAllOption arg s =
     (if first_char arg \<noteq> CHR 0x00 then (False, s) else (True, s\<lparr>compile_all := True\<rparr>))"

definition ProcessGenPrecompiledSnapshotOption :: "build_config \<Rightarrow> handler" where
  "ProcessGenPrecompiledSnapshotOption b arg s =
     (if \<not> DART_PRECOMPILER b
      then (False, PrintErr ''Precompiled snapshots must be generated with dart_bootstrap.\<newline>'' s)
      else
        (True,
         AddArgument ''--precompilation''
           (s\<lparr>precompiled_snapshot_directory :=
                 Some (if first_char arg = CHR ''='' \<or> first_char arg = CHR '':''
                       then tl arg else arg),
               gen_precompiled_snapshot := True\<rparr>)))"

definition ProcessRunPrecompiledSnapshotOption :: handler where
  "ProcessRunPrecompiledSnapshotOption arg s =
     (True,
      AddArgument ''--precompilation''
        (s\<lparr>precompiled_snapshot_directory :=
              Some (if first_char arg = CHR ''='' \<or> first_char arg = CHR '':''
                    then tl arg else arg),
            run_precompiled_snapshot := True\<rparr>))"

text \<open>The \<^verbatim>\<open>bool*\<close> that \<^verbatim>\<open>ProcessSnapshotOptionHelper\<close> writes through.\<close>

datatype snapshot_option = Generate_Script | Generate_Full_After_Run | Run_Full

definition set_snapshot_option :: "snapshot_option \<Rightarrow> bool \<Rightarrow> state \<Rightarrow> state" where
  "set_snapshot_option opt v s =
     (case opt of
        Generate_Script \<Rightarrow> s\<lparr>generate_script_snapshot := v\<rparr>
      | Generate_Full_After_Run \<Rightarrow> s\<lparr>generate_full_snapshot_after_run := v\<rparr>
      | Run_Full \<Rightarrow> s\<lparr>run_full_snapshot := v\<rparr>)"

definition ProcessSnapshotOptionHelper ::
  "build_config \<Rightarrow> string \<Rightarrow> snapshot_option \<Rightarrow> state \<Rightarrow> bool \<times> state" where
  "ProcessSnapshotOptionHelper b filename opt s =
     (let s0 = (if DEBUG b \<and> length filename = 0
                then set_fault (Assertion_Failed ''(filename != NULL) && (strlen(filename) != 0)'') s
                else s);
          s1 = set_snapshot_option opt True (s0\<lparr>snapshot_filename := Some filename\<rparr>)
      in if generate_script_snapshot s1 \<and> generate_full_snapshot_after_run s1
         then (False,
               set_snapshot_option opt False
                 (PrintErr
                    ''--snapshot and --snapshot-after-run options cannot be specified at the same time\<newline>''
                    s1))
         else (True, s1))"

definition ProcessScriptSnapshotOption :: "build_config \<Rightarrow> handler" where
  "ProcessScriptSnapshotOption b filename s =
     (if length filename = 0 then (False, s)
      else if isolate_snapshot_buffer s = None
      then (False,
            PrintErr ''Script snapshots cannot be generated in this version of Dart\<newline>'' s)
      else ProcessSnapshotOptionHelper b filename Generate_Script s)"

definition ProcessFullSnapshotAfterRunOption :: "build_config \<Rightarrow> handler" where
  "ProcessFullSnapshotAfterRunOption b filename s =
     (if length filename = 0 then (False, s)
      else if isolate_snapshot_buffer s \<noteq> None
      then (False,
            PrintErr ''Full Application snapshots must be generated with dart_bootstrap\<newline>'' s)
      else ProcessSnapshotOptionHelper b filename Generate_Full_After_Run s)"

definition ProcessRunFullSnapshotOption :: "build_config \<Rightarrow> handler" where
  "ProcessRunFullSnapshotOption b filename s =
     (if \<not> DART_PRODUCT_BINARY b
      then (False,
            PrintErr ''Full Application snapshots can only be be run with dart_product\<newline>'' s)
      else ProcessSnapshotOptionHelper b filename Run_Full s)"

definition extract_into_state :: "string \<Rightarrow> string \<Rightarrow> state \<Rightarrow> bool \<times> state" where
  "extract_into_state option_value msg s =
     (case ExtractPortAndIP option_value DEFAULT_VM_SERVICE_SERVER_PORT
             DEFAULT_VM_SERVICE_SERVER_IP of
        Extracted port ip \<Rightarrow>
          (True, s\<lparr>vm_service_server_ip := ip, vm_service_server_port := port\<rparr>)
      | Not_Extracted \<Rightarrow> (False, PrintErr msg s)
      | Extract_Undefined why \<Rightarrow> (False, set_fault (Undefined_Behaviour why) s))"

definition ProcessEnableVmServiceOption :: handler where
  "ProcessEnableVmServiceOption option_value s =
     extract_into_state option_value
       (''unrecognized --enable-vm-service option syntax. '' @
        ''Use --enable-vm-service[:<port number>[/<IPv4 address>]]\<newline>'') s"

definition ProcessObserveOption :: handler where
  "ProcessObserveOption option_value s =
     (case extract_into_state option_value
             (''unrecognized --observe option syntax. '' @
              ''Use --observe[:<port number>[/<IPv4 address>]]\<newline>'') s of
        (False, s1) \<Rightarrow> (False, s1)
      | (True, s1) \<Rightarrow>
          (True,
           AddArgument ''--warn-on-pause-with-no-debugger''
             (AddArgument ''--pause-isolates-on-unhandled-exceptions''
                (AddArgument ''--pause-isolates-on-exit'' s1))))"

definition ProcessTraceLoadingOption :: handler where
  "ProcessTraceLoadingOption arg s =
     (if first_char arg \<noteq> CHR 0x00 then (False, s) else (True, s\<lparr>trace_loading := True\<rparr>))"

definition ProcessShutdownOption :: handler where
  "ProcessShutdownOption arg s =
     (if first_char arg = CHR 0x00
      then (True, AddArgument ''--shutdown'' (s\<lparr>do_vm_shutdown := True\<rparr>))
      else if first_char arg \<noteq> CHR ''='' \<and> first_char arg \<noteq> CHR '':'' then (False, s)
      else if tl arg = ''true''
      then (True, AddArgument ''--shutdown'' (s\<lparr>do_vm_shutdown := True\<rparr>))
      else if tl arg = ''false''
      then (True, AddArgument ''--no-shutdown'' (s\<lparr>do_vm_shutdown := False\<rparr>))
      else (False, s))"

text \<open>The table \<^verbatim>\<open>main_options\<close>, in its order.\<close>

definition main_options :: "build_config \<Rightarrow> (string \<times> handler) list" where
  "main_options b =
     [(''-D'', ProcessEnvironmentOption),
      (''-h'', ProcessHelpOption),
      (''--help'', ProcessHelpOption),
      (''--packages='', ProcessPackagesOption),
      (''--package-root='', ProcessPackageRootOption),
      (''-v'', ProcessVerboseOption),
      (''--verbose'', ProcessVerboseOption),
      (''--version'', ProcessVersionOption),
      (''--compile_all'', ProcessCompileAllOption),
      (''--enable-vm-service'', ProcessEnableVmServiceOption),
      (''--gen-precompiled-snapshot'', ProcessGenPrecompiledSnapshotOption b),
      (''--observe'', ProcessObserveOption),
      (''--run-precompiled-snapshot'', ProcessRunPrecompiledSnapshotOption),
      (''--shutdown'', ProcessShutdownOption),
      (''--snapshot='', ProcessScriptSnapshotOption b),
      (''--full-snapshot-after-run='', ProcessFullSnapshotAfterRunOption b),
      (''--run-full-snapshot='', ProcessRunFullSnapshotOption b),
      (''--trace-loading'', ProcessTraceLoadingOption)]"

text \<open>
  The loop of \<^verbatim>\<open>ProcessMainOptions\<close> over the table: the first entry whose name is a
  prefix of the option and whose handler accepts the rest wins. A handler that refuses
  keeps what it has already written.
\<close>

fun process_table :: "(string \<times> handler) list \<Rightarrow> string \<Rightarrow> state \<Rightarrow> bool \<times> state" where
  "process_table [] option s = (False, s)"
| "process_table ((name, process) # rest) option s =
     (if length option \<ge> length name \<and> starts_with name option
      then (let r = process (drop (length name) option) s
            in if fst r then (True, snd r) else process_table rest option (snd r))
      else process_table rest option s)"

definition ProcessMainOptions :: "build_config \<Rightarrow> string \<Rightarrow> state \<Rightarrow> bool \<times> state" where
  "ProcessMainOptions b option s = process_table (main_options b) option s"

subsection \<open>\<^verbatim>\<open>ParseArguments\<close>\<close>

text \<open>
  The first loop of \<^verbatim>\<open>ParseArguments\<close>, from index \<open>i\<close>: the index it stops at and the
  state. \<^verbatim>\<open>argv[argc]\<close> is \<^verbatim>\<open>NULL\<close>. An argument that no handler of the table accepts is
  \<^verbatim>\<open>-p\<close> (the package root, here or in the next argument), \<^verbatim>\<open>-c\<close>, a flag for the
  engine when it starts with \<^verbatim>\<open>--\<close> and is longer, or else the end of the flags.
\<close>

function parse_vm_options :: "build_config \<Rightarrow> string list \<Rightarrow> nat \<Rightarrow> state \<Rightarrow> nat \<times> state" where
  "parse_vm_options b argv i s =
     (if i < length argv then
        (let r = ProcessMainOptions b (argv ! i) s; s1 = snd r in
         if fst r then parse_vm_options b argv (i + 1) s1
         else if starts_with ''-p'' (argv ! i) then
           (let r2 = ProcessPackageRootOption (drop 2 (argv ! i)) s1 in
            if fst r2 then parse_vm_options b argv (i + 1) (snd r2)
            else if i + 1 < length argv \<and> fst (ProcessPackageRootOption (argv ! (i + 1)) (snd r2))
            then parse_vm_options b argv (i + 2)
                   (snd (ProcessPackageRootOption (argv ! (i + 1)) (snd r2)))
            else (i + 2,
                  PrintErr (''Invalid option specification : '' @ [CHR 0x27] @ argv ! i @
                            [CHR 0x27] @ ''\<newline>'')
                    (if i + 1 < length argv
                     then snd (ProcessPackageRootOption (argv ! (i + 1)) (snd r2))
                     else snd r2)))
         else if starts_with ''-c'' (argv ! i) then
           parse_vm_options b argv (i + 1) (AddArgument ''--checked'' s1)
         else if \<not> IsValidFlag (argv ! i) ''--'' 2 then (i, s1)
         else
           parse_vm_options b argv (i + 1)
             (AddArgument (argv ! i)
                (if starts_with ''--print-flags'' (argv ! i) \<or>
                    starts_with ''--print_flags'' (argv ! i)
                 then s1\<lparr>print_flags_seen := True\<rparr>
                 else if starts_with ''--verbose_debug'' (argv ! i) \<or>
                         starts_with ''--verbose-debug'' (argv ! i)
                 then s1\<lparr>verbose_debug_seen := True\<rparr>
                 else s1)))
      else (i, s))"
  by pat_completeness auto
termination
  by (relation "measure (\<lambda>(b, argv, i, s). length argv - i)") auto

declare parse_vm_options.simps [simp del]

text \<open>
  \<^verbatim>\<open>ParseArguments\<close>: \<open>-1\<close> when the arguments are wrong, \<open>0\<close> otherwise, and the state.
  The script name is the argument the first loop stopped at, the arguments after it go
  to the script, and the consistency checks come last.
\<close>

definition ParseArguments :: "build_config \<Rightarrow> string list \<Rightarrow> state \<Rightarrow> int \<times> state" where
  "ParseArguments b argv s =
     (let r = parse_vm_options b argv 1 s; i = fst r; s1 = snd r in
      if \<not> i < length argv then (- 1, s1)
      else
        let s2 = s1\<lparr>script_name := Some (argv ! i), dart_options := drop (i + 1) argv\<rparr> in
        if commandline_package_root s2 \<noteq> None \<and> commandline_packages_file s2 \<noteq> None
        then (- 1,
              PrintErr
                ''Specifying both a packages directory and a packages file is invalid.\<newline>'' s2)
        else if is_noopt b \<and> gen_precompiled_snapshot s2
        then (- 1,
              PrintErr ''Running dart_noopt with --gen_precompiled_snapshot is invalid.\<newline>'' s2)
        else if is_noopt b \<and> run_precompiled_snapshot s2
        then (- 1,
              PrintErr ''Running dart_noopt with --run_precompiled_snapshot is invalid.\<newline>'' s2)
        else if run_full_snapshot s2 \<and> run_precompiled_snapshot s2
        then (- 1,
              PrintErr
                ''Specifying --run_full_snapshot and --run_precompiled_snapshot is invalid.\<newline>''
                s2)
        else if (generate_full_snapshot_after_run s2 \<or> gen_precompiled_snapshot s2) \<and>
                (run_full_snapshot s2 \<or> run_precompiled_snapshot s2)
        then (- 1,
              PrintErr
                (''Specifying an option to generate a snapshot and'' @
                 '' run using a snapshot is invalid.\<newline>'') s2)
        else (0, s2))"

subsection \<open>\<^verbatim>\<open>EnvironmentCallback\<close>\<close>

text \<open>
  The handle the callback returns: \<^verbatim>\<open>Dart_Null()\<close>, what \<^verbatim>\<open>Dart_NewStringFromUTF8\<close>
  answers for a value, or no handle, when \<^verbatim>\<open>Dart_ThrowException\<close> has thrown.
\<close>

datatype lookup_result = Null_Handle | NewStringFromUTF8 string | Thrown string

text \<open>
  \<open>name\<close> is what \<^verbatim>\<open>Dart_StringToUTF8\<close> answers for the handle the engine passes: the
  text of an error, or the bytes. The table is searched for the C string
  \<^verbatim>\<open>name_chars\<close>, the bytes up to the first zero.
\<close>

definition EnvironmentCallback :: "string + string \<Rightarrow> state \<Rightarrow> lookup_result" where
  "EnvironmentCallback name s =
     (case name of
        Inl err \<Rightarrow> Thrown err
      | Inr utf8_array \<Rightarrow>
          (let name_chars = c_str utf8_array in
           case environment s of
             None \<Rightarrow> Null_Handle
           | Some table \<Rightarrow>
               (case table name_chars of
                  None \<Rightarrow> Null_Handle
                | Some val \<Rightarrow> NewStringFromUTF8 val)))"

subsection \<open>The engine and the platform\<close>

text \<open>
  A \<^verbatim>\<open>Dart_Handle\<close> is opaque: the file only asks the engine these questions about it.
\<close>

record dart_handle =
  Dart_IsError :: bool
  Dart_IsCompilationError :: bool
  Dart_IsApiError :: bool
  Dart_IsVMRestartRequest :: bool
  Dart_IsNull :: bool
  Dart_GetError :: string

text \<open>
  What the platform layer answers, and the constants the file imports. A file is named
  by its path. \<^verbatim>\<open>DartUtils::ReadFile\<close> answers a buffer (\<open>None\<close> for \<^verbatim>\<open>NULL\<close>) and a length;
  \<open>magic_number\<close> is what \<^verbatim>\<open>DartUtils::WriteMagicNumber\<close> writes; \<open>GlobalExitCode\<close> is what
  \<^verbatim>\<open>Process::GlobalExitCode()\<close> answers when \<^verbatim>\<open>main\<close> is done.
\<close>

record platform =
  File_Open_ok :: "string \<Rightarrow> bool"
  WriteFully_ok :: "string \<Rightarrow> uint8_t list \<Rightarrow> bool"
  magic_number :: "uint8_t list"
  OpenFile_ok :: "string \<Rightarrow> bool"
  ReadFile :: "string \<Rightarrow> uint8_t list option \<times> int"
  LoadExtensionLibrary_ok :: "string \<Rightarrow> bool"
  ResolveSymbol :: "string \<Rightarrow> string \<Rightarrow> uint8_t list option"
  kPrecompiledLibraryName :: string
  kPrecompiledInstructionsSymbolName :: string
  kPrecompiledDataSymbolName :: string
  DART_VM_SERVICE_ISOLATE_NAME :: string
  Platform_Initialize :: bool
  SetOriginalWorkingDirectory :: bool
  OSError_message :: string
  Dart_Initialize_error :: "string option"
  Dart_Cleanup_error :: "string option"
  GlobalExitCode :: int

text \<open>
  What the engine answers during one bootstrap of an isolate, one field for each call
  whose answer the file looks at.
\<close>

record engine_run =
  on_CreateIsolate :: "string option"
  on_SetLibraryTagHandler :: dart_handle
  on_IsServiceIsolate :: bool
  on_VmService_Setup :: bool
  on_VmService_GetErrorMessage :: string
  on_CompileAll :: dart_handle
  on_PrepareForScriptLoading :: dart_handle
  on_SetupServiceLoadPort :: dart_handle
  on_SetupPackageRoot :: dart_handle
  on_SetEnvironmentCallback :: dart_handle
  on_LoadScript :: dart_handle
  on_RunLoop_loading :: dart_handle
  on_load_async_id :: int
  on_SetupIOLibrary :: dart_handle
  on_IsolateMakeRunnable :: bool
  on_CreateScriptSnapshot :: "dart_handle \<times> uint8_t list"
  on_RootLibrary :: dart_handle
  on_LoadForGenPrecompiled :: bool
  on_Precompile :: dart_handle
  on_CreatePrecompiledSnapshot :: "dart_handle \<times> uint8_t list \<times> uint8_t list \<times> uint8_t list"
  on_getMainClosure :: dart_handle
  on_startMainIsolate :: dart_handle
  on_RunLoop_main :: dart_handle
  on_CreateSnapshot :: "dart_handle \<times> uint8_t list \<times> uint8_t list"

subsection \<open>Actions\<close>

text \<open>
  How a piece of the program ends: it returns, the process exits with a code
  (\<^verbatim>\<open>Platform::Exit\<close>, \<^verbatim>\<open>exit\<close>), an \<^verbatim>\<open>ASSERT\<close> fails in a \<open>DEBUG\<close> build, or the
  behaviour is undefined.
\<close>

datatype 'a outcome = Returns 'a | Exits int | Aborts string | Undefined string

type_synonym 'a action = "state \<Rightarrow> 'a outcome \<times> state"

definition andthen :: "'a action \<Rightarrow> ('a \<Rightarrow> 'b action) \<Rightarrow> 'b action" where
  "andthen m f s =
     (case m s of
        (Returns x, s1) \<Rightarrow> f x s1
      | (Exits n, s1) \<Rightarrow> (Exits n, s1)
      | (Aborts a, s1) \<Rightarrow> (Aborts a, s1)
      | (Undefined u, s1) \<Rightarrow> (Undefined u, s1))"

definition seq :: "unit action \<Rightarrow> 'a action \<Rightarrow> 'a action" where
  "seq m k = andthen m (\<lambda>_. k)"

definition return :: "'a \<Rightarrow> 'a action" where
  "return x s = (Returns x, s)"

definition emit :: "event list \<Rightarrow> unit action" where
  "emit es s = (Returns (), s\<lparr>trace := trace s @ es\<rparr>)"

definition print_err :: "string \<Rightarrow> unit action" where
  "print_err msg s = (Returns (), PrintErr msg s)"

definition Platform_Exit :: "int \<Rightarrow> 'a action" where
  "Platform_Exit code s = (Exits code, s)"

definition whenever :: "bool \<Rightarrow> unit action \<Rightarrow> unit action" where
  "whenever c m = (if c then m else return ())"

text \<open>An action that reads the static variables first.\<close>

definition with_state :: "(state \<Rightarrow> 'a action) \<Rightarrow> 'a action" where
  "with_state f s = f s s"

definition modify :: "(state \<Rightarrow> state) \<Rightarrow> unit action" where
  "modify f s = (Returns (), f s)"

definition abort :: "string \<Rightarrow> 'a action" where
  "abort a s = (Aborts a, s)"

definition undefined_behaviour :: "string \<Rightarrow> 'a action" where
  "undefined_behaviour u s = (Undefined u, s)"

text \<open>\<^verbatim>\<open>if (do_vm_shutdown) EventHandler::Stop();\<close>\<close>

definition stop_event_handler :: "unit action" where
  "stop_event_handler =
     with_state (\<lambda>s. whenever (do_vm_shutdown s) (emit [Engine_Call ''EventHandler::Stop'']))"

text \<open>\<^verbatim>\<open>Dart_Cleanup\<close> and the report of its error, as \<^verbatim>\<open>ErrorExit\<close>, \<^verbatim>\<open>RunMainIsolate\<close> and
  \<^verbatim>\<open>main\<close> each write it out.\<close>

definition cleanup :: "platform \<Rightarrow> unit action" where
  "cleanup p =
     seq (emit [Dart_Cleanup])
       (case Dart_Cleanup_error p of
          None \<Rightarrow> return ()
        | Some e \<Rightarrow> print_err (''VM cleanup failed: '' @ e @ ''\<newline>''))"

definition ErrorExit :: "platform \<Rightarrow> int \<Rightarrow> string \<Rightarrow> 'a action" where
  "ErrorExit p exit_code msg =
     seq (print_err msg)
    (seq (emit [Dart_ExitScope, Dart_ShutdownIsolate,
                Engine_Call ''Process::TerminateExitCodeHandler''])
    (seq (cleanup p)
    (seq stop_event_handler
      (Platform_Exit exit_code))))"

subsection \<open>Snapshot files\<close>

text \<open>The path \<^verbatim>\<open>"%s/%s"\<close> of a file in the snapshot directory, or the file name.\<close>

definition qualify :: "string option \<Rightarrow> string \<Rightarrow> string" where
  "qualify snapshot_directory filename =
     (case snapshot_directory of
        None \<Rightarrow> filename
      | Some d \<Rightarrow> if length d > 0 then d @ ''/'' @ filename else filename)"

definition WriteSnapshotFile ::
  "build_config \<Rightarrow> platform \<Rightarrow> string option \<Rightarrow> string \<Rightarrow> bool \<Rightarrow> uint8_t list \<Rightarrow> unit action" where
  "WriteSnapshotFile b p snapshot_directory filename write_magic_number buffer =
     (let qualified_filename = qualify snapshot_directory filename in
      if \<not> File_Open_ok p qualified_filename then
        (if DEBUG b then abort ''file != NULL''
         else undefined_behaviour ''file is NULL'')
      else
        seq (emit [File_Open qualified_filename])
       (seq (whenever write_magic_number (emit [File_Write qualified_filename (magic_number p)]))
         (if \<not> WriteFully_ok p qualified_filename buffer
          then ErrorExit p kErrorExitCode
                 (''Unable to open file '' @ qualified_filename @ '' for writing snapshot\<newline>'')
          else emit [File_Write qualified_filename buffer, File_Close qualified_filename])))"

text \<open>\<^verbatim>\<open>ReadSnapshotFile\<close> returns the buffer that \<^verbatim>\<open>DartUtils::ReadFile\<close> stored.\<close>

definition ReadSnapshotFile :: "platform \<Rightarrow> string option \<Rightarrow> string \<Rightarrow> (uint8_t list) action" where
  "ReadSnapshotFile p snapshot_directory filename =
     (let qualified_filename = qualify snapshot_directory filename in
      if \<not> OpenFile_ok p qualified_filename then
        seq (print_err (''Error: Unable to open file '' @ qualified_filename @
                        '' for reading snapshot\<newline>''))
          (Platform_Exit kErrorExitCode)
      else
        (case ReadFile p qualified_filename of
           (None, len) \<Rightarrow>
             seq (print_err (''Error: Unable to read snapshot file '' @ qualified_filename @
                             ''\<newline>''))
               (Platform_Exit kErrorExitCode)
         | (Some buffer, len) \<Rightarrow>
             if len = - 1 then
               seq (print_err (''Error: Unable to read snapshot file '' @ qualified_filename @
                               ''\<newline>''))
                 (Platform_Exit kErrorExitCode)
             else return buffer))"

definition LoadLibrarySymbol ::
  "platform \<Rightarrow> string option \<Rightarrow> string \<Rightarrow> string \<Rightarrow> (uint8_t list) action" where
  "LoadLibrarySymbol p snapshot_directory libname symname =
     (let qualified_libname = qualify snapshot_directory libname in
      if \<not> LoadExtensionLibrary_ok p qualified_libname then
        seq (print_err (''Error: Failed to load library '' @ [CHR 0x27] @ qualified_libname @
                        [CHR 0x27] @ ''\<newline>''))
          (Platform_Exit kErrorExitCode)
      else
        (case ResolveSymbol p qualified_libname symname of
           None \<Rightarrow>
             seq (print_err (''Error: Failed to load symbol '' @ [CHR 0x27] @ symname @
                             [CHR 0x27] @ ''\<newline>''))
               (Platform_Exit kErrorExitCode)
         | Some symbol \<Rightarrow> return symbol))"

definition GenerateScriptSnapshot :: "build_config \<Rightarrow> platform \<Rightarrow> engine_run \<Rightarrow> unit action" where
  "GenerateScriptSnapshot b p run =
     seq (emit [Engine_Call ''Dart_CreateScriptSnapshot''])
       (let result = fst (on_CreateScriptSnapshot run);
            buffer = snd (on_CreateScriptSnapshot run) in
        if Dart_IsError result then ErrorExit p kErrorExitCode (Dart_GetError result @ ''\<newline>'')
        else with_state (\<lambda>s.
               WriteSnapshotFile b p None (the (snapshot_filename s)) True buffer))"

text \<open>\<^verbatim>\<open>ComputeSnapshotFilenames\<close>: the format \<^verbatim>\<open>"%s.%s"\<close> with each suffix.\<close>

definition ComputeSnapshotFilenames :: "string \<Rightarrow> string \<times> string" where
  "ComputeSnapshotFilenames filename =
     (filename @ ''.'' @ kVMIsolateSuffix, filename @ ''.'' @ kIsolateSuffix)"

definition GenerateFullSnapshot :: "build_config \<Rightarrow> platform \<Rightarrow> engine_run \<Rightarrow> unit action" where
  "GenerateFullSnapshot b p run =
     seq (emit [Engine_Call ''Dart_CreateSnapshot''])
       (let result = fst (on_CreateSnapshot run);
            vm_isolate_buffer = fst (snd (on_CreateSnapshot run));
            isolate_buffer = snd (snd (on_CreateSnapshot run)) in
        if Dart_IsError result then ErrorExit p kErrorExitCode (Dart_GetError result @ ''\<newline>'')
        else with_state (\<lambda>s.
          (let names = ComputeSnapshotFilenames (the (snapshot_filename s)) in
           seq (WriteSnapshotFile b p None (fst names) False vm_isolate_buffer)
               (WriteSnapshotFile b p None (snd names) False isolate_buffer))))"

subsection \<open>Creating an isolate\<close>

text \<open>
  What \<^verbatim>\<open>CreateIsolateAndSetupHelper\<close> hands back: the isolate, or \<^verbatim>\<open>NULL\<close> with what it
  left in \<^verbatim>\<open>*error\<close> (\<open>None\<close> when it wrote nothing) and in \<^verbatim>\<open>*exit_code\<close> (both callers
  pass a zero).
\<close>

datatype created = Isolate | No_Isolate "string option" int

text \<open>The first \<^verbatim>\<open>CHECK_RESULT\<close>: an error handle ends the set-up, with the exit code of
  its kind; \<open>k\<close> is the code after the macro.\<close>

definition CHECK_RESULT_setup :: "dart_handle \<Rightarrow> created action \<Rightarrow> created action" where
  "CHECK_RESULT_setup result k =
     (if Dart_IsError result then
        seq (emit [Dart_ExitScope, Dart_ShutdownIsolate])
          (return
             (No_Isolate (Some (Dart_GetError result))
                (if Dart_IsCompilationError result then kCompilationErrorExitCode
                 else if Dart_IsApiError result then kApiErrorExitCode
                 else if Dart_IsVMRestartRequest result then kRestartRequestExitCode
                 else kErrorExitCode)))
      else k)"

definition make_runnable :: "engine_run \<Rightarrow> created action" where
  "make_runnable run =
     seq (emit [Dart_ExitScope, Dart_ExitIsolate, Dart_IsolateMakeRunnable])
       (if \<not> on_IsolateMakeRunnable run then
          seq (emit [Dart_EnterIsolate, Dart_ShutdownIsolate])
            (return (No_Isolate (Some ''Invalid isolate state - Unable to make it runnable'') 0))
        else return Isolate)"

definition setup_io_library :: "engine_run \<Rightarrow> created action" where
  "setup_io_library run =
     seq (emit [Engine_Call ''DartUtils::SetupIOLibrary''])
       (CHECK_RESULT_setup (on_SetupIOLibrary run) (make_runnable run))"

definition load_script_phase :: "engine_run \<Rightarrow> created action" where
  "load_script_phase run = with_state (\<lambda>s.
     (if \<not> run_precompiled_snapshot s \<and> \<not> run_full_snapshot s then
        seq (emit [Engine_Call ''DartUtils::LoadScript''])
       (CHECK_RESULT_setup (on_LoadScript run)
       (seq (emit [Dart_RunLoop])
       (CHECK_RESULT_setup (on_RunLoop_loading run)
       (seq (whenever (on_load_async_id run \<ge> 0) (emit [Engine_Call ''Dart_TimelineAsyncEnd'']))
       (setup_io_library run)))))
      else if run_full_snapshot s then setup_io_library run
      else make_runnable run))"

definition package_root_phase :: "engine_run \<Rightarrow> created action" where
  "package_root_phase run =
     seq (emit [Engine_Call ''DartUtils::SetupPackageRoot''])
    (CHECK_RESULT_setup (on_SetupPackageRoot run)
    (seq (emit [Engine_Call ''Dart_SetEnvironmentCallback''])
    (CHECK_RESULT_setup (on_SetEnvironmentCallback run)
    (load_script_phase run))))"

definition prepare_phase :: "engine_run \<Rightarrow> created action" where
  "prepare_phase run = with_state (\<lambda>s.
     (seq (emit [Engine_Call ''DartUtils::PrepareForScriptLoading''])
     (CHECK_RESULT_setup (on_PrepareForScriptLoading run)
     (if \<not> run_full_snapshot s then
        seq (emit [Engine_Call ''DartUtils::SetupServiceLoadPort''])
          (CHECK_RESULT_setup (on_SetupServiceLoadPort run) (package_root_phase run))
      else package_root_phase run))))"

text \<open>The branch for the service isolate, absent from a \<open>DART_PRODUCT_BINARY\<close> build.\<close>

definition service_isolate_phase :: "engine_run \<Rightarrow> created action" where
  "service_isolate_phase run = with_state (\<lambda>s.
     (seq (emit [Engine_Call ''VmService::Setup''])
       (if \<not> on_VmService_Setup run
        then return (No_Isolate (Some (on_VmService_GetErrorMessage run)) 0)
        else
          (let leave = seq (emit [Dart_ExitScope, Dart_ExitIsolate]) (return Isolate) in
           if compile_all s then
             seq (emit [Engine_Call ''Dart_CompileAll''])
               (CHECK_RESULT_setup (on_CompileAll run) leave)
           else leave))))"

definition CreateIsolateAndSetupHelper ::
  "build_config \<Rightarrow> platform \<Rightarrow> engine_run \<Rightarrow> string \<Rightarrow> string option \<Rightarrow> string option \<Rightarrow>
   created action" where
  "CreateIsolateAndSetupHelper b p run script_uri package_root packages_config = with_state (\<lambda>s.
     (if DART_PRODUCT_BINARY b \<and> script_uri = DART_VM_SERVICE_ISOLATE_NAME p
      then return (No_Isolate None 0)
      else if run_full_snapshot s \<and> script_uri = DART_VM_SERVICE_ISOLATE_NAME p
      then return (No_Isolate None 0)
      else
        seq (emit [Dart_CreateIsolate script_uri])
          (case on_CreateIsolate run of
             Some e \<Rightarrow> return (No_Isolate (Some e) 0)
           | None \<Rightarrow>
               seq (emit [Dart_EnterScope])
              (seq (whenever (isolate_snapshot_buffer s \<noteq> None)
                      (emit [Engine_Call ''Builtin::SetNativeResolver'',
                             Engine_Call ''Builtin::SetNativeResolver'']))
              (seq (emit [Engine_Call ''Dart_SetLibraryTagHandler''])
              (CHECK_RESULT_setup (on_SetLibraryTagHandler run)
                (if DART_PRODUCT_BINARY b then
                   (if DEBUG b \<and> on_IsServiceIsolate run
                    then abort ''!Dart_IsServiceIsolate(isolate)''
                    else prepare_phase run)
                 else if on_IsServiceIsolate run then service_isolate_phase run
                 else prepare_phase run)))))))"

text \<open>
  \<^verbatim>\<open>CreateIsolateAndSetup\<close>, the callback the engine creates isolates with: the isolate or
  \<^verbatim>\<open>NULL\<close> with the text left in \<^verbatim>\<open>*error\<close>.
\<close>

definition CreateIsolateAndSetup ::
  "build_config \<Rightarrow> platform \<Rightarrow> engine_run \<Rightarrow> string \<Rightarrow> string option \<Rightarrow> string option \<Rightarrow>
   created action" where
  "CreateIsolateAndSetup b p run script_uri package_root package_config =
     (if package_root \<noteq> None \<and> package_config \<noteq> None
      then return
             (No_Isolate
                (Some (''Invalid arguments - Cannot simultaneously specify '' @
                       ''package root and package map.'')) 0)
      else CreateIsolateAndSetupHelper b p run script_uri package_root package_config)"

subsection \<open>\<^verbatim>\<open>RunMainIsolate\<close>\<close>

text \<open>The second \<^verbatim>\<open>CHECK_RESULT\<close>: a restart request leaves the isolate and returns
  \<^verbatim>\<open>true\<close>, any other error handle ends the process.\<close>

definition CHECK_RESULT_run :: "platform \<Rightarrow> dart_handle \<Rightarrow> bool action \<Rightarrow> bool action" where
  "CHECK_RESULT_run p result k =
     (if Dart_IsError result then
        (if Dart_IsVMRestartRequest result
         then seq (emit [Dart_ExitScope, Dart_ShutdownIsolate]) (return True)
         else ErrorExit p
                (if Dart_IsCompilationError result then kCompilationErrorExitCode
                 else kErrorExitCode)
                (Dart_GetError result @ ''\<newline>''))
      else k)"

text \<open>The end of \<^verbatim>\<open>RunMainIsolate\<close>: no restart.\<close>

definition shutdown_isolate :: "bool action" where
  "shutdown_isolate = seq (emit [Dart_ExitScope, Dart_ShutdownIsolate]) (return False)"

text \<open>What follows the return of the message loop of the main isolate, with its result.\<close>

definition after_RunLoop ::
  "build_config \<Rightarrow> platform \<Rightarrow> engine_run \<Rightarrow> dart_handle \<Rightarrow> bool action" where
  "after_RunLoop b p run result = with_state (\<lambda>s.
     seq (if generate_full_snapshot_after_run s then
            (if \<not> Dart_IsCompilationError result \<and> \<not> Dart_IsVMRestartRequest result
             then GenerateFullSnapshot b p run
             else return ())
          else return ())
       (CHECK_RESULT_run p result shutdown_isolate))"

definition run_main_phase ::
  "build_config \<Rightarrow> platform \<Rightarrow> engine_run \<Rightarrow> string \<Rightarrow> bool action" where
  "run_main_phase b p run script =
     (if Dart_IsNull (on_RootLibrary run) then
        ErrorExit p kErrorExitCode
          (''Unable to find root library for '' @ [CHR 0x27] @ script @ [CHR 0x27] @
           ''\<newline>'')
      else
        seq (emit [Engine_Call ''Dart_Invoke _getMainClosure''])
       (CHECK_RESULT_run p (on_getMainClosure run)
       (seq (emit [Engine_Call ''CreateRuntimeOptions'',
                   Engine_Call ''Dart_LookupLibrary dart:isolate'',
                   Engine_Call ''Dart_Invoke _startMainIsolate''])
       (CHECK_RESULT_run p (on_startMainIsolate run)
       (seq (emit [Dart_RunLoop])
       (after_RunLoop b p run (on_RunLoop_main run)))))))"

definition precompiled_snapshot_phase ::
  "build_config \<Rightarrow> platform \<Rightarrow> engine_run \<Rightarrow> bool action" where
  "precompiled_snapshot_phase b p run =
     seq (emit [Engine_Call ''Dart_CreatePrecompiledSnapshot''])
       (let result = fst (on_CreatePrecompiledSnapshot run);
            vm_isolate_buffer = fst (snd (on_CreatePrecompiledSnapshot run));
            isolate_buffer = fst (snd (snd (on_CreatePrecompiledSnapshot run)));
            instructions_buffer = snd (snd (snd (on_CreatePrecompiledSnapshot run))) in
        CHECK_RESULT_run p result (with_state (\<lambda>s.
          (seq (WriteSnapshotFile b p (precompiled_snapshot_directory s)
                  kPrecompiledVmIsolateName False vm_isolate_buffer)
          (seq (WriteSnapshotFile b p (precompiled_snapshot_directory s)
                  kPrecompiledIsolateName False isolate_buffer)
          (seq (WriteSnapshotFile b p (precompiled_snapshot_directory s)
                  kPrecompiledInstructionsName False instructions_buffer)
            shutdown_isolate))))))"

definition precompile_phase ::
  "build_config \<Rightarrow> platform \<Rightarrow> engine_run \<Rightarrow> string \<Rightarrow> bool action" where
  "precompile_phase b p run script = with_state (\<lambda>s.
     (let rest = (if gen_precompiled_snapshot s then precompiled_snapshot_phase b p run
                  else run_main_phase b p run script) in
      if is_noopt b \<or> gen_precompiled_snapshot s then
        seq (emit [Engine_Call ''Dart_Precompile''])
          (CHECK_RESULT_run p (on_Precompile run) rest)
      else rest))"

definition compile_all_phase ::
  "build_config \<Rightarrow> platform \<Rightarrow> engine_run \<Rightarrow> string \<Rightarrow> bool action" where
  "compile_all_phase b p run script = with_state (\<lambda>s.
     (if compile_all s then
        seq (emit [Engine_Call ''Dart_CompileAll''])
          (CHECK_RESULT_run p (on_CompileAll run) (precompile_phase b p run script))
      else precompile_phase b p run script))"

definition root_library_phase ::
  "build_config \<Rightarrow> platform \<Rightarrow> engine_run \<Rightarrow> string \<Rightarrow> bool action" where
  "root_library_phase b p run script = with_state (\<lambda>s.
     seq (emit [Engine_Call ''Dart_RootLibrary'', Engine_Call ''Dart_LibraryImportLibrary''])
       (if \<not> DART_PRODUCT_BINARY b \<and> (is_noopt b \<or> gen_precompiled_snapshot s) then
          seq (emit [Engine_Call ''VmService::LoadForGenPrecompiled''])
            (if \<not> on_LoadForGenPrecompiled run then
               seq (print_err (''VM service loading failed: '' @
                               on_VmService_GetErrorMessage run @ ''\<newline>''))
                 (Platform_Exit kErrorExitCode)
             else compile_all_phase b p run script)
        else compile_all_phase b p run script))"

definition RunMainIsolate ::
  "build_config \<Rightarrow> platform \<Rightarrow> engine_run \<Rightarrow> string \<Rightarrow> bool action" where
  "RunMainIsolate b p run script = with_state (\<lambda>s.
     andthen
       (CreateIsolateAndSetupHelper b p run script
          (commandline_package_root s) (commandline_packages_file s))
       (\<lambda>isolate.
          case isolate of
            No_Isolate error exit_code \<Rightarrow>
              if exit_code = kRestartRequestExitCode then return True
              else
                (case error of
                   None \<Rightarrow> undefined_behaviour ''error is NULL''
                 | Some e \<Rightarrow>
                     seq (print_err (e @ ''\<newline>''))
                    (seq (emit [Engine_Call ''Process::TerminateExitCodeHandler''])
                    (seq (cleanup p)
                    (seq stop_event_handler
                      (Platform_Exit (if exit_code \<noteq> 0 then exit_code else kErrorExitCode))))))
          | Isolate \<Rightarrow>
              seq (emit [Dart_EnterIsolate, Dart_EnterScope])
                (with_state (\<lambda>s.
                   if generate_script_snapshot s
                   then seq (GenerateScriptSnapshot b p run) shutdown_isolate
                   else root_library_phase b p run script))))"

subsection \<open>\<^verbatim>\<open>main\<close>\<close>

text \<open>
  The loop \<^verbatim>\<open>while (RunMainIsolate(...))\<close>. The engine's answers are a list, one entry
  for each bootstrap. The result is how the loop ended (\<open>None\<close> when the engine still asks
  for a restart after the last entry), the number of calls of \<^verbatim>\<open>RunMainIsolate\<close>, and the
  state.
\<close>

fun restart_loop ::
  "build_config \<Rightarrow> platform \<Rightarrow> string \<Rightarrow> engine_run list \<Rightarrow> state \<Rightarrow>
   unit outcome option \<times> nat \<times> state" where
  "restart_loop b p script [] s = (None, 0, s)"
| "restart_loop b p script (run # runs) s =
     (case RunMainIsolate b p run script s of
        (Returns True, s1) \<Rightarrow>
          (let r = restart_loop b p script runs (PrintErr ''Restarting VM\<newline>'' s1)
           in (fst r, Suc (fst (snd r)), snd (snd r)))
      | (Returns False, s1) \<Rightarrow> (Some (Returns ()), 1, s1)
      | (Exits c, s1) \<Rightarrow> (Some (Exits c), 1, s1)
      | (Aborts a, s1) \<Rightarrow> (Some (Aborts a), 1, s1)
      | (Undefined u, s1) \<Rightarrow> (Some (Undefined u), 1, s1))"

text \<open>What \<^verbatim>\<open>main\<close> does when \<^verbatim>\<open>ParseArguments\<close> has failed.\<close>

definition parse_failed :: "unit action" where
  "parse_failed = with_state (\<lambda>s.
     (if help_option s then seq (emit [Engine_Call ''PrintUsage'']) (Platform_Exit 0)
      else if version_option s then seq (emit [Engine_Call ''PrintVersion'']) (Platform_Exit 0)
      else if print_flags_seen s then seq (emit [Engine_Call ''Dart_SetVMFlags'']) (Platform_Exit 0)
      else seq (emit [Engine_Call ''PrintUsage'']) (Platform_Exit kErrorExitCode)))"

definition read_snapshots :: "platform \<Rightarrow> unit action" where
  "read_snapshots p = with_state (\<lambda>s.
     (if run_precompiled_snapshot s then
        andthen (LoadLibrarySymbol p (precompiled_snapshot_directory s)
                   (kPrecompiledLibraryName p) (kPrecompiledInstructionsSymbolName p))
          (\<lambda>instructions_snapshot.
        andthen (LoadLibrarySymbol p (precompiled_snapshot_directory s)
                   (kPrecompiledLibraryName p) (kPrecompiledDataSymbolName p))
          (\<lambda>data_snapshot.
        andthen (ReadSnapshotFile p (precompiled_snapshot_directory s) kPrecompiledVmIsolateName)
          (\<lambda>vm_buffer.
        seq (modify (\<lambda>s1. s1\<lparr>vm_isolate_snapshot_buffer := Some vm_buffer\<rparr>))
       (andthen (ReadSnapshotFile p (precompiled_snapshot_directory s) kPrecompiledIsolateName)
          (\<lambda>buffer. modify (\<lambda>s2. s2\<lparr>isolate_snapshot_buffer := Some buffer\<rparr>))))))
      else if run_full_snapshot s then
        (let names = ComputeSnapshotFilenames (the (snapshot_filename s)) in
         andthen (ReadSnapshotFile p None (fst names))
           (\<lambda>vm_buffer.
         seq (modify (\<lambda>s1. s1\<lparr>vm_isolate_snapshot_buffer := Some vm_buffer\<rparr>))
        (andthen (ReadSnapshotFile p None (snd names))
           (\<lambda>buffer. modify (\<lambda>s2. s2\<lparr>isolate_snapshot_buffer := Some buffer\<rparr>)))))
      else return ()))"

text \<open>\<^verbatim>\<open>main\<close> from the return of \<^verbatim>\<open>ParseArguments\<close> to the loop.\<close>

definition startup :: "build_config \<Rightarrow> platform \<Rightarrow> unit action" where
  "startup b p =
     seq (emit [Engine_Call ''Thread::InitOnce''])
       (if \<not> SetOriginalWorkingDirectory p then
          seq (print_err (''Error determining current directory: '' @ OSError_message p @
                          ''\<newline>''))
            (Platform_Exit kErrorExitCode)
        else
          seq (with_state (\<lambda>s.
                 if \<not> PRODUCT b \<and>
                    (generate_script_snapshot s \<or> generate_full_snapshot_after_run s \<or>
                     run_full_snapshot s)
                 then modify (AddArgument ''--load_deferred_eagerly'') else return ()))
         (seq (with_state (\<lambda>s.
                 if is_noopt b then
                   (if DEBUG b \<and> \<not> (\<not> gen_precompiled_snapshot s \<and> \<not> run_precompiled_snapshot s)
                    then abort ''!gen_precompiled_snapshot && !run_precompiled_snapshot''
                    else modify (AddArgument ''--precompilation''))
                 else return ()))
         (seq (emit [Engine_Call ''Dart_SetVMFlags'', Engine_Call ''TimerUtils::InitOnce'',
                     Engine_Call ''EventHandler::Start''])
         (seq (read_snapshots p)
         (seq (emit [Engine_Call ''Dart_Initialize''])
           (case Dart_Initialize_error p of
              Some error \<Rightarrow>
                seq stop_event_handler
                  (seq (print_err (''VM initialization failed: '' @ error @ ''\<newline>''))
                     (Platform_Exit kErrorExitCode))
            | None \<Rightarrow>
                emit [Engine_Call ''Dart_RegisterIsolateServiceRequestCallback'',
                      Engine_Call ''Dart_SetServiceStreamCallbacks'']))))))"

text \<open>\<^verbatim>\<open>main\<close> after the loop: it ends the process with \<^verbatim>\<open>Process::GlobalExitCode()\<close>.\<close>

definition finish :: "platform \<Rightarrow> unit action" where
  "finish p =
     seq (emit [Engine_Call ''Process::TerminateExitCodeHandler''])
    (seq (cleanup p)
    (seq stop_event_handler
      (Platform_Exit (GlobalExitCode p))))"

text \<open>\<^verbatim>\<open>main\<close> before it calls \<^verbatim>\<open>ParseArguments\<close>.\<close>

definition main_prologue :: "platform \<Rightarrow> state \<Rightarrow> state" where
  "main_prologue p s0 =
     (let s1 = AddArgument ''--no_write_protect_code'' s0
      in if \<not> Platform_Initialize p then PrintErr ''Initialization failed\<newline>'' s1 else s1)"

text \<open>
  \<^verbatim>\<open>main\<close>: how the process ends (\<open>None\<close>: the loop has not ended when the list of the
  engine's answers is used up), the number of calls of \<^verbatim>\<open>RunMainIsolate\<close>, and the state.
\<close>

definition main ::
  "build_config \<Rightarrow> platform \<Rightarrow> string list \<Rightarrow> engine_run list \<Rightarrow> state \<Rightarrow>
   unit outcome option \<times> nat \<times> state" where
  "main b p argv runs s0 =
     (let parsed = ParseArguments b argv (main_prologue p s0);
          s3 = snd parsed
      in case fault s3 of
           Some (Assertion_Failed a) \<Rightarrow> (Some (Aborts a), 0, s3)
         | Some (Undefined_Behaviour u) \<Rightarrow> (Some (Undefined u), 0, s3)
         | None \<Rightarrow>
             if fst parsed < 0 then (Some (fst (parse_failed s3)), 0, snd (parse_failed s3))
             else
               (case startup b p s3 of
                  (Returns _, s4) \<Rightarrow>
                    (case restart_loop b p (the (script_name s4)) runs s4 of
                       (Some (Returns _), n, s5) \<Rightarrow> (Some (fst (finish p s5)), n, snd (finish p s5))
                     | (ending, n, s5) \<Rightarrow> (ending, n, s5))
                | (Exits c, s4) \<Rightarrow> (Some (Exits c), 0, s4)
                | (Aborts a, s4) \<Rightarrow> (Some (Aborts a), 0, s4)
                | (Undefined u, s4) \<Rightarrow> (Some (Undefined u), 0, s4)))"

subsection \<open>\<^verbatim>\<open>Decompress\<close>\<close>






subsection \<open>Auxiliary definitions for the properties\<close>

text \<open>A run of \<^verbatim>\<open>-D\<close> options, each \<open>name=value\<close>, through \<^verbatim>\<open>ProcessMainOptions\<close>.\<close>

definition define_options :: "build_config \<Rightarrow> (string \<times> string) list \<Rightarrow> state \<Rightarrow> state" where
  "define_options b ds s =
     fold (\<lambda>d s. snd (ProcessMainOptions b (''-D'' @ fst d @ ''='' @ snd d) s)) ds s"

text \<open>A decimal numeral: digits, and at least one.\<close>

definition digits :: "string \<Rightarrow> bool" where
  "digits p = (p \<noteq> [] \<and> (\<forall>c \<in> set p. isdigit c))"

text \<open>What no option handler undoes: a package root, a packages file; and no handler adds an event.\<close>

definition settled :: "state \<Rightarrow> state \<Rightarrow> bool" where
  "settled s s' =
     ((commandline_package_root s \<noteq> None \<longrightarrow> commandline_package_root s' \<noteq> None) \<and>
      (commandline_packages_file s \<noteq> None \<longrightarrow> commandline_packages_file s' \<noteq> None) \<and>
      trace s' = trace s)"


text \<open>Values for the examples: handles of each kind, a platform where every file
  operation succeeds, and a bootstrap where the engine reports no error.\<close>

definition ok_handle :: dart_handle where
  "ok_handle = \<lparr>Dart_IsError = False, Dart_IsCompilationError = False, Dart_IsApiError = False,
                 Dart_IsVMRestartRequest = False, Dart_IsNull = False, Dart_GetError = []\<rparr>"

definition restart_request :: dart_handle where
  "restart_request = ok_handle\<lparr>Dart_IsError := True, Dart_IsVMRestartRequest := True,
                                 Dart_GetError := ''restart''\<rparr>"

definition compilation_error :: dart_handle where
  "compilation_error = ok_handle\<lparr>Dart_IsError := True, Dart_IsCompilationError := True,
                                   Dart_GetError := ''syntax error''\<rparr>"

definition unhandled_exception :: dart_handle where
  "unhandled_exception = ok_handle\<lparr>Dart_IsError := True, Dart_GetError := ''Unhandled exception''\<rparr>"

definition example_platform :: platform where
  "example_platform =
     \<lparr>File_Open_ok = (\<lambda>_. True),
      WriteFully_ok = (\<lambda>_ _. True),
      magic_number = [0xf5, 0xf5, 0xdc, 0xdc],
      OpenFile_ok = (\<lambda>_. True),
      ReadFile = (\<lambda>_. (Some [1, 2, 3], 3)),
      LoadExtensionLibrary_ok = (\<lambda>_. True),
      ResolveSymbol = (\<lambda>_ _. Some [4, 5]),
      kPrecompiledLibraryName = ''libprecompiled.so'',
      kPrecompiledInstructionsSymbolName = ''_kInstructionsSnapshot'',
      kPrecompiledDataSymbolName = ''_kDataSnapshot'',
      DART_VM_SERVICE_ISOLATE_NAME = ''vm-service'',
      Platform_Initialize = True,
      SetOriginalWorkingDirectory = True,
      OSError_message = [],
      Dart_Initialize_error = None,
      Dart_Cleanup_error = None,
      GlobalExitCode = 0\<rparr>"

definition normal_run :: engine_run where
  "normal_run =
     \<lparr>on_CreateIsolate = None,
      on_SetLibraryTagHandler = ok_handle,
      on_IsServiceIsolate = False,
      on_VmService_Setup = True,
      on_VmService_GetErrorMessage = [],
      on_CompileAll = ok_handle,
      on_PrepareForScriptLoading = ok_handle,
      on_SetupServiceLoadPort = ok_handle,
      on_SetupPackageRoot = ok_handle,
      on_SetEnvironmentCallback = ok_handle,
      on_LoadScript = ok_handle,
      on_RunLoop_loading = ok_handle,
      on_load_async_id = - 1,
      on_SetupIOLibrary = ok_handle,
      on_IsolateMakeRunnable = True,
      on_CreateScriptSnapshot = (ok_handle, [10, 11, 12]),
      on_RootLibrary = ok_handle,
      on_LoadForGenPrecompiled = True,
      on_Precompile = ok_handle,
      on_CreatePrecompiledSnapshot = (ok_handle, [20, 21], [22, 23], [24, 25]),
      on_getMainClosure = ok_handle,
      on_startMainIsolate = ok_handle,
      on_RunLoop_main = ok_handle,
      on_CreateSnapshot = (ok_handle, [30, 31], [32, 33])\<rparr>"

text \<open>The state without what a bootstrap writes: the events and the messages.\<close>

definition config :: "state \<Rightarrow> state" where
  "config s = s\<lparr>trace := [], stderr_log := []\<rparr>"

text \<open>An action that keeps the configuration, and whose outcome depends on nothing else.\<close>

definition steady :: "'a action \<Rightarrow> bool" where
  "steady m = ((\<forall>s. config (snd (m s)) = config s) \<and>
               (\<forall>s s'. config s = config s' \<longrightarrow> fst (m s) = fst (m s')))"

text \<open>How many isolates a trace creates, and how many it shuts down.\<close>

definition creations :: "event list \<Rightarrow> nat" where
  "creations tr = length (filter (\<lambda>e. case e of Dart_CreateIsolate _ \<Rightarrow> True | _ \<Rightarrow> False) tr)"

definition shutdowns :: "event list \<Rightarrow> nat" where
  "shutdowns tr = length (filter (\<lambda>e. e = Dart_ShutdownIsolate) tr)"

text \<open>An action between the creation of an isolate and its end: when it returns, no
  isolate has been created or shut down; when it ends the process, the code is 255.\<close>

definition quiet :: "'a action \<Rightarrow> bool" where
  "quiet m = (\<forall>s.
     (\<forall>x. fst (m s) = Returns x \<longrightarrow>
        creations (trace (snd (m s))) = creations (trace s) \<and>
        shutdowns (trace (snd (m s))) = shutdowns (trace s)) \<and>
     (\<forall>c. fst (m s) = Exits c \<longrightarrow> c = 255))"

text \<open>An action that ends a bootstrap: when it returns, it has shut down one isolate and
  created none; when it ends the process, the code is 254 or 255.\<close>

definition ends :: "bool action \<Rightarrow> bool" where
  "ends m = (\<forall>s.
     (\<forall>x. fst (m s) = Returns x \<longrightarrow>
        creations (trace (snd (m s))) = creations (trace s) \<and>
        shutdowns (trace (snd (m s))) = Suc (shutdowns (trace s))) \<and>
     (\<forall>c. fst (m s) = Exits c \<longrightarrow> c = 254 \<or> c = 255))"

text \<open>The set-up of an isolate that exists: it never ends the process; it creates no
  isolate; it has shut the isolate down when it hands back the code of a restart request,
  and not when it hands back the isolate.\<close>

definition sets_up :: "created action \<Rightarrow> bool" where
  "sets_up m = (\<forall>s.
     (\<forall>x. fst (m s) = Returns x \<longrightarrow> creations (trace (snd (m s))) = creations (trace s)) \<and>
     (fst (m s) = Returns Isolate \<longrightarrow> shutdowns (trace (snd (m s))) = shutdowns (trace s)) \<and>
     (\<forall>e c. fst (m s) = Returns (No_Isolate e c) \<longrightarrow>
        (c = 0 \<or> c = 253 \<or> c = 254 \<or> c = 255 \<or> c = 1000) \<and>
        (c = 1000 \<longrightarrow> shutdowns (trace (snd (m s))) = Suc (shutdowns (trace s)))) \<and>
     (\<forall>c. fst (m s) \<noteq> Exits c))"

text \<open>The state of \<^verbatim>\<open>dart script.dart\<close>, with a linked snapshot, after
  \<^verbatim>\<open>ParseArguments\<close> and when the loop starts.\<close>

definition example_parsed :: state where
  "example_parsed =
     snd (ParseArguments dart [''dart'', ''script.dart'']
            (main_prologue example_platform (initial_state None (Some [1, 2, 3]))))"

definition example_started :: state where
  "example_started = snd (startup dart example_platform example_parsed)"

text \<open>What a file holds after a trace: \<^verbatim>\<open>File::Open\<close> with \<^verbatim>\<open>kWriteTruncate\<close> empties it,
  a write appends to it.\<close>

definition file_step :: "string \<Rightarrow> uint8_t list \<Rightarrow> event \<Rightarrow> uint8_t list" where
  "file_step f content e =
     (case e of
        File_Open g \<Rightarrow> if g = f then [] else content
      | File_Write g data \<Rightarrow> if g = f then content @ data else content
      | _ \<Rightarrow> content)"

text \<open>The contents of the file \<open>f\<close> after the events \<open>tr\<close>.\<close>

definition written :: "string \<Rightarrow> event list \<Rightarrow> uint8_t list" where
  "written f tr = foldl (file_step f) [] tr"

text \<open>The static variables after the parsing of three command lines that ask for a
  snapshot: a script snapshot, a full snapshot after the run, a precompiled snapshot.\<close>

definition script_snapshot_example :: state where
  "script_snapshot_example =
     snd (ParseArguments dart [''dart'', ''--snapshot=out.snapshot'', ''script.dart'']
            (initial_state None (Some [1, 2, 3])))"

definition full_snapshot_example :: state where
  "full_snapshot_example =
     snd (ParseArguments dart_bootstrap
            [''dart_bootstrap'', ''--full-snapshot-after-run=app'', ''script.dart'']
            (initial_state None None))"

definition precompiled_snapshot_example :: state where
  "precompiled_snapshot_example =
     snd (ParseArguments dart_bootstrap
            [''dart_bootstrap'', ''--gen-precompiled-snapshot=out'', ''script.dart'']
            (initial_state None None))"

text \<open>The events that touch a file, and how often a trace asks the engine for a full
  snapshot.\<close>

definition file_event :: "event \<Rightarrow> bool" where
  "file_event e = (case e of File_Open _ \<Rightarrow> True | File_Write _ _ \<Rightarrow> True | File_Close _ \<Rightarrow> True
                   | _ \<Rightarrow> False)"

definition file_events :: "event list \<Rightarrow> event list" where
  "file_events tr = filter file_event tr"

definition serialisations :: "event list \<Rightarrow> nat" where
  "serialisations tr = count_list tr (Engine_Call ''Dart_CreateSnapshot'')"

text \<open>An action that only appends events to the trace, each of them with the property \<open>P\<close>.\<close>

definition adds :: "(event \<Rightarrow> bool) \<Rightarrow> 'a action \<Rightarrow> bool" where
  "adds P m = (\<forall>s. \<exists>es. trace (snd (m s)) = trace s @ es \<and> list_all P es)"




section \<open>Properties\<close>

subsection \<open>The \<^verbatim>\<open>-D\<close> option and the environment\<close>

lemma dropWhile_until: "c \<notin> set n \<Longrightarrow> dropWhile (\<lambda>x. x \<noteq> c) (n @ c # v) = c # v"
  by (induction n) auto

lemma takeWhile_until: "c \<notin> set n \<Longrightarrow> takeWhile (\<lambda>x. x \<noteq> c) (n @ c # v) = n"
  by (induction n) auto

lemma dropWhile_absent: "c \<notin> set n \<Longrightarrow> dropWhile (\<lambda>x. x \<noteq> c) n = []"
  by (induction n) auto

lemma split_equals_None: "CHR ''='' \<notin> set n \<Longrightarrow> split_equals n = None"
  by (simp add: split_equals_def dropWhile_absent)

lemma split_equals_Some:
  "CHR ''='' \<notin> set n \<Longrightarrow> split_equals (n @ CHR ''='' # v) = Some (n, v)"
  by (simp add: split_equals_def dropWhile_until takeWhile_until)

lemma first_char_nonzero:
  "n \<noteq> [] \<Longrightarrow> CHR 0x00 \<notin> set n \<Longrightarrow> first_char (n @ r) \<noteq> CHR 0x00"
  by (cases n) (auto simp: first_char_def)


lemma define_accepts:
  assumes "n \<noteq> []" "CHR ''='' \<notin> set n" "CHR 0x00 \<notin> set n"
  shows "ProcessEnvironmentOption (n @ CHR ''='' # v) s =
           (True, (allocate_environment s)\<lparr>environment := Some ((the (environment (allocate_environment s)))(n \<mapsto> v))\<rparr>)"
  using assms
  by (auto simp: ProcessEnvironmentOption_def split_equals_Some first_char_nonzero Let_def allocate_environment_def split: option.splits)

lemma define_refuses_no_equals:
  assumes "n \<noteq> []" "CHR ''='' \<notin> set n" "CHR 0x00 \<notin> set n"
  shows "ProcessEnvironmentOption n s =
           (False, PrintErr ''No value given to -D option\<newline>'' (allocate_environment s))"
  using assms
  by (auto simp: ProcessEnvironmentOption_def split_equals_None first_char_nonzero [of n "[]", simplified] Let_def allocate_environment_def split: option.splits)

lemma define_refuses_no_name:
  shows "ProcessEnvironmentOption (CHR ''='' # v) s =
           (False, PrintErr ''No name given to -D option\<newline>'' (allocate_environment s))"
  by (auto simp: ProcessEnvironmentOption_def split_equals_def first_char_def Let_def allocate_environment_def split: option.splits)

lemma define_empty:
  "ProcessEnvironmentOption [] s = (True, PrintErr ''No arguments given to -D option\<newline>'' s)"
  by (simp add: ProcessEnvironmentOption_def first_char_def)

lemma main_options_D:
  "ProcessMainOptions b (CHR ''-'' # CHR ''D'' # arg) s =
     (if fst (ProcessEnvironmentOption arg s) then (True, snd (ProcessEnvironmentOption arg s))
      else (False, snd (ProcessEnvironmentOption arg s)))"
  by (simp add: ProcessMainOptions_def main_options_def Let_def)

lemma parse_stops_at_refused_define:
  assumes "i < length argv" "argv ! i = CHR ''-'' # CHR ''D'' # arg"
    "\<not> fst (ProcessEnvironmentOption arg s)"
  shows "parse_vm_options b argv i s = (i, snd (ProcessEnvironmentOption arg s))"
  using assms
  by (subst parse_vm_options.simps) (simp add: main_options_D Let_def IsValidFlag_def)


lemma lookup_allocate [simp]:
  "EnvironmentCallback k (allocate_environment s) = EnvironmentCallback k s"
  by (auto simp: EnvironmentCallback_def allocate_environment_def split: sum.splits option.splits)

lemma lookup_PrintErr [simp]:
  "EnvironmentCallback k (PrintErr m s) = EnvironmentCallback k s"
  by (simp add: EnvironmentCallback_def PrintErr_def split: sum.splits)

lemma parse_continues_after_empty_define:
  assumes "i < length argv" "argv ! i = ''-D''"
  shows "parse_vm_options b argv i s =
         parse_vm_options b argv (i + 1) (PrintErr ''No arguments given to -D option\<newline>'' s)"
  using assms
  by (subst parse_vm_options.simps) (simp add: main_options_D define_empty Let_def)

lemma consistent_initial:
  "environment (initial_state vb ib) = None"
  by (simp add: initial_state_def)

text \<open>
  C10, as the code has it. A bare \<^verbatim>\<open>-D\<close> is accepted: its handler prints a message,
  defines nothing, and the loop goes on with the next argument. \<^verbatim>\<open>-D<name>\<close> with no equals
  sign and \<^verbatim>\<open>-D=<value>\<close> are refused by the handler, which prints a message and defines
  nothing (it allocates the table, and every lookup answers what it answered before).
  \<^verbatim>\<open>ParseArguments\<close> does not fail on them: no other entry of the table matches, the
  argument is not \<^verbatim>\<open>-p\<close>, \<^verbatim>\<open>-c\<close> or a \<^verbatim>\<open>--\<close> flag, so the flags end there and the argument
  is taken for the script name; from the initial state the result is 0.
\<close>

theorem C10_define_edge_cases:
  assumes "name \<noteq> []" "CHR ''='' \<notin> set name" "CHR 0x00 \<notin> set name"
  shows "ProcessMainOptions b ''-D'' s =
           (True, PrintErr ''No arguments given to -D option\<newline>'' s)
       \<and> ProcessMainOptions b (''-D'' @ name) s =
           (False, PrintErr ''No value given to -D option\<newline>'' (allocate_environment s))
       \<and> ProcessMainOptions b (''-D='' @ v) s =
           (False, PrintErr ''No name given to -D option\<newline>'' (allocate_environment s))
       \<and> (\<forall>k. EnvironmentCallback k (allocate_environment s) = EnvironmentCallback k s)
       \<and> parse_vm_options b (exe # ''-D'' # rest) 1 s =
           parse_vm_options b (exe # ''-D'' # rest) 2
             (PrintErr ''No arguments given to -D option\<newline>'' s)
       \<and> ParseArguments b (exe # (''-D'' @ name) # rest) (initial_state vb ib) =
           (0, (PrintErr ''No value given to -D option\<newline>''
                  (allocate_environment (initial_state vb ib)))
                \<lparr>script_name := Some (''-D'' @ name), dart_options := rest\<rparr>)
       \<and> ParseArguments b (exe # (''-D='' @ v) # rest) (initial_state vb ib) =
           (0, (PrintErr ''No name given to -D option\<newline>''
                  (allocate_environment (initial_state vb ib)))
                \<lparr>script_name := Some (''-D='' @ v), dart_options := rest\<rparr>)"
proof -
  have a: "ProcessMainOptions b ''-D'' s =
           (True, PrintErr ''No arguments given to -D option\<newline>'' s)"
    by (simp add: main_options_D define_empty)
  have b: "ProcessMainOptions b (''-D'' @ name) s =
           (False, PrintErr ''No value given to -D option\<newline>'' (allocate_environment s))" for s
    using assms by (simp add: main_options_D define_refuses_no_equals)
  have c: "ProcessMainOptions b (''-D='' @ v) s =
           (False, PrintErr ''No name given to -D option\<newline>'' (allocate_environment s))" for s
    by (simp add: main_options_D define_refuses_no_name)
  have d: "parse_vm_options b (exe # ''-D'' # rest) 1 s =
           parse_vm_options b (exe # ''-D'' # rest) 2
             (PrintErr ''No arguments given to -D option\<newline>'' s)"
    using parse_continues_after_empty_define [of 1 "exe # ''-D'' # rest" b s]
    by (simp add: numeral_2_eq_2)
  have e: "parse_vm_options b (exe # (''-D'' @ name) # rest) 1 s0 =
           (1, PrintErr ''No value given to -D option\<newline>'' (allocate_environment s0))" for s0
    using parse_stops_at_refused_define [of 1 "exe # (''-D'' @ name) # rest" name s0 b] assms
    by (simp add: define_refuses_no_equals)
  have f: "parse_vm_options b (exe # (''-D='' @ v) # rest) 1 s0 =
           (1, PrintErr ''No name given to -D option\<newline>'' (allocate_environment s0))" for s0
    using parse_stops_at_refused_define [of 1 "exe # (''-D='' @ v) # rest" "CHR ''='' # v" s0 b]
    by (simp add: define_refuses_no_name)
  have g: "ParseArguments b (exe # (''-D'' @ name) # rest) (initial_state vb ib) =
           (0, (PrintErr ''No value given to -D option\<newline>''
                  (allocate_environment (initial_state vb ib)))
                \<lparr>script_name := Some (''-D'' @ name), dart_options := rest\<rparr>)"
    unfolding ParseArguments_def e
    by (simp add: Let_def PrintErr_def allocate_environment_def initial_state_def)
  have h: "ParseArguments b (exe # (''-D='' @ v) # rest) (initial_state vb ib) =
           (0, (PrintErr ''No name given to -D option\<newline>''
                  (allocate_environment (initial_state vb ib)))
                \<lparr>script_name := Some (''-D='' @ v), dart_options := rest\<rparr>)"
    unfolding ParseArguments_def f
    by (simp add: Let_def PrintErr_def allocate_environment_def initial_state_def)
  show ?thesis using a b c d g h by simp
qed


theorem C10_define_edge_cases_witness:
  "ProcessMainOptions dart ''-Dfoo'' (initial_state None None) =
     (False, PrintErr ''No value given to -D option\<newline>''
               (allocate_environment (initial_state None None)))
   \<and> fst (ParseArguments dart [''dart'', ''-Dfoo'', ''script.dart''] (initial_state None None)) = 0
   \<and> script_name (snd (ParseArguments dart [''dart'', ''-D=bar'', ''script.dart'']
                            (initial_state None None))) = Some ''-D=bar''"
  using C10_define_edge_cases [of "''foo''" dart "initial_state None None" "''bar''"
      "''dart''" "[''script.dart'']" None None]
  by simp

text \<open>
  C10 as stated fails: \<^verbatim>\<open>dart -Dfoo script.dart\<close> is parsed with success, \<^verbatim>\<open>-Dfoo\<close> is the
  script and \<^verbatim>\<open>script.dart\<close> its argument.
\<close>

theorem C10_counterexample:
  "fst (ParseArguments dart [''dart'', ''-Dfoo'', ''script.dart''] (initial_state None None)) = 0
   \<and> script_name (snd (ParseArguments dart [''dart'', ''-Dfoo'', ''script.dart'']
                            (initial_state None None))) = Some ''-Dfoo''
   \<and> dart_options (snd (ParseArguments dart [''dart'', ''-Dfoo'', ''script.dart'']
                            (initial_state None None))) = [''script.dart'']"
  by code_simp

lemma c_str_id: "CHR 0x00 \<notin> set n \<Longrightarrow> c_str n = n"
  by (induction n) (auto simp: c_str_def)

lemma define_as_flag:
  assumes "n \<noteq> []" "CHR ''='' \<notin> set n" "CHR 0x00 \<notin> set n"
  shows "ProcessMainOptions b (''-D'' @ n @ ''='' @ v) s =
           (True, (allocate_environment s)
                    \<lparr>environment := Some ((the (environment (allocate_environment s)))(n \<mapsto> v))\<rparr>)"
  using assms by (simp add: main_options_D define_accepts)

lemma lookup_after_define:
  assumes "n \<noteq> []" "CHR ''='' \<notin> set n" "CHR 0x00 \<notin> set n"
  shows "EnvironmentCallback (Inr k) (snd (ProcessMainOptions b (''-D'' @ n @ ''='' @ v) s)) =
           (if c_str k = n then NewStringFromUTF8 v else EnvironmentCallback (Inr k) s)"
  using define_as_flag [OF assms, of b v s]
  by (auto simp: EnvironmentCallback_def allocate_environment_def Let_def
           split: option.splits)

lemma lookup_after_defines:
  assumes "\<forall>d \<in> set ds. fst d \<noteq> [] \<and> CHR ''='' \<notin> set (fst d) \<and> CHR 0x00 \<notin> set (fst d)"
  shows "EnvironmentCallback (Inr k) (define_options b ds s) =
           (case map_of (rev ds) (c_str k) of
              None \<Rightarrow> EnvironmentCallback (Inr k) s
            | Some v \<Rightarrow> NewStringFromUTF8 v)"
  using assms
proof (induction ds arbitrary: s)
  case Nil
  then show ?case by (simp add: define_options_def)
next
  case (Cons d ds)
  have step: "define_options b (d # ds) s =
              define_options b ds (snd (ProcessMainOptions b (''-D'' @ fst d @ ''='' @ snd d) s))"
    by (simp add: define_options_def)
  have d: "fst d \<noteq> []" "CHR ''='' \<notin> set (fst d)" "CHR 0x00 \<notin> set (fst d)"
    using Cons.prems by auto
  have rest: "\<forall>d \<in> set ds. fst d \<noteq> [] \<and> CHR ''='' \<notin> set (fst d) \<and> CHR 0x00 \<notin> set (fst d)"
    using Cons.prems by auto
  show ?case
    unfolding step Cons.IH [OF rest] lookup_after_define [OF d]
    by (cases d) (auto simp: map_add_def split: option.splits)
qed

lemma lookup_unallocated: "environment s = None \<Longrightarrow> EnvironmentCallback (Inr k) s = Null_Handle"
  by (simp add: EnvironmentCallback_def)

text \<open>
  C8, as the code has it. While the table is not allocated, the callback answers
  \<^verbatim>\<open>Dart_Null()\<close> for every name. The callback gets the name as an array of bytes with a
  length, and searches the table for the C string in it: the bytes before the first zero
  byte, which is the whole name when it holds none. After a run of accepted \<^verbatim>\<open>-D\<close> options
  it answers the value of the last option that defines this C string, and
  \<^verbatim>\<open>Dart_Null()\<close> when no option defines it.
\<close>

theorem C8_environment_lookup:
  assumes "environment s = None"
    and "\<forall>d \<in> set ds. fst d \<noteq> [] \<and> CHR ''='' \<notin> set (fst d) \<and> CHR 0x00 \<notin> set (fst d)"
  shows "(\<forall>k. EnvironmentCallback (Inr k) s = Null_Handle)
       \<and> (\<forall>name. EnvironmentCallback (Inr name) (define_options b ds s) =
             (case map_of (rev ds) (c_str name) of
                None \<Rightarrow> Null_Handle
              | Some v \<Rightarrow> NewStringFromUTF8 v))
       \<and> (\<forall>name. CHR 0x00 \<notin> set name \<longrightarrow> c_str name = name)"
  using assms
  by (simp add: lookup_after_defines lookup_unallocated c_str_id split: option.splits)

theorem C8_environment_lookup_witness:
  "EnvironmentCallback (Inr ''foo'')
     (define_options dart [(''foo'', ''bar''), (''x'', ''1''), (''foo'', ''baz'')]
        (initial_state None None)) = NewStringFromUTF8 ''baz''
   \<and> EnvironmentCallback (Inr ''missing'')
     (define_options dart [(''foo'', ''bar''), (''x'', ''1''), (''foo'', ''baz'')]
        (initial_state None None)) = Null_Handle
   \<and> EnvironmentCallback (Inr (''x'' @ [CHR 0x00] @ ''y''))
     (define_options dart [(''foo'', ''bar''), (''x'', ''1''), (''foo'', ''baz'')]
        (initial_state None None)) = NewStringFromUTF8 ''1''
   \<and> EnvironmentCallback (Inr ''missing'') (initial_state None None) = Null_Handle"
  using C8_environment_lookup [of "initial_state None None"
      "[(''foo'', ''bar''), (''x'', ''1''), (''foo'', ''baz'')]" dart]
  by (simp add: initial_state_def c_str_def)

text \<open>
  C8 as stated fails for a name with a zero byte: after \<^verbatim>\<open>-Dfoo=bar\<close> the name made of
  \<^verbatim>\<open>foo\<close>, a zero byte and \<^verbatim>\<open>bar\<close> has never been defined and is no key of the table, and
  the callback answers the value of \<^verbatim>\<open>foo\<close>.
\<close>

theorem C8_counterexample:
  "EnvironmentCallback (Inr (''foo'' @ [CHR 0x00] @ ''bar''))
     (snd (ParseArguments dart [''dart'', ''-Dfoo=bar'', ''script.dart''] (initial_state None None)))
     = NewStringFromUTF8 ''bar''
   \<and> the (environment
          (snd (ParseArguments dart [''dart'', ''-Dfoo=bar'', ''script.dart'']
                  (initial_state None None))))
       (''foo'' @ [CHR 0x00] @ ''bar'') = None"
  by code_simp

text \<open>The scenario of the specification, through \<^verbatim>\<open>ParseArguments\<close>.\<close>

lemma environment_scenario:
  "EnvironmentCallback (Inr ''foo'')
     (snd (ParseArguments dart [''dart'', ''-Dfoo=bar'', ''script.dart''] (initial_state None None)))
     = NewStringFromUTF8 ''bar''
   \<and> EnvironmentCallback (Inr ''missing'')
     (snd (ParseArguments dart [''dart'', ''-Dfoo=bar'', ''script.dart''] (initial_state None None)))
     = Null_Handle"
  by code_simp

subsection \<open>The value of \<^verbatim>\<open>--enable-vm-service\<close>\<close>

lemma isdigit_not_space: "isdigit c \<Longrightarrow> \<not> isspace c"
  by (auto simp: isdigit_def isspace_def)

lemma isdigit_not_sign: "isdigit c \<Longrightarrow> c \<noteq> CHR ''-'' \<and> c \<noteq> CHR ''+'' \<and> c \<noteq> CHR ''/'' \<and> c \<noteq> CHR ''.'' \<and> c \<noteq> CHR 0x00"
  by (auto simp: isdigit_def)

lemma not_digit_seps: "\<not> isdigit CHR ''/''" "\<not> isdigit CHR ''.''"
  by (auto simp: isdigit_def)

lemma takeWhile_digits:
  "\<forall>c \<in> set p. isdigit c \<Longrightarrow> r = [] \<or> \<not> isdigit (hd r) \<Longrightarrow> takeWhile isdigit (p @ r) = p"
  by (cases r) (auto simp: takeWhile_append)

lemma dropWhile_digits:
  "\<forall>c \<in> set p. isdigit c \<Longrightarrow> r = [] \<or> \<not> isdigit (hd r) \<Longrightarrow> dropWhile isdigit (p @ r) = r"
  by (cases r) (auto simp: dropWhile_append)

lemma scan_int_digits:
  assumes "digits p" "r = [] \<or> \<not> isdigit (hd r)"
  shows "scan_int (p @ r) = Some (decimal p 0, r)"
proof -
  obtain c cs where p: "p = c # cs" using assms(1) by (cases p) (auto simp: digits_def)
  have c: "isdigit c" using assms(1) p by (simp add: digits_def)
  have all: "\<forall>c \<in> set p. isdigit c" using assms(1) by (simp add: digits_def)
  have sp: "dropWhile isspace (p @ r) = p @ r"
    using c p by (simp add: isdigit_not_space)
  have fc: "first_char (p @ r) = c" using p by (simp add: first_char_def)
  have tw: "takeWhile isdigit (p @ r) = p" by (rule takeWhile_digits [OF all assms(2)])
  have dw: "dropWhile isdigit (p @ r) = r" by (rule dropWhile_digits [OF all assms(2)])
  have ne: "p \<noteq> []" using p by simp
  show ?thesis
    using isdigit_not_sign [OF c]
    by (simp add: scan_int_def Let_def sp fc tw dw ne)
qed

lemma decimal_nonneg_aux: "\<forall>c \<in> set p. isdigit c \<Longrightarrow> 0 \<le> acc \<Longrightarrow> 0 \<le> decimal p acc"
proof (induction p arbitrary: acc)
  case Nil
  then show ?case by simp
next
  case (Cons c p)
  have "0 \<le> digit_value c" using Cons.prems(1) by (simp add: isdigit_def digit_value_def)
  then have "0 \<le> 10 * acc + digit_value c" using Cons.prems(2) by simp
  then show ?case using Cons by simp
qed

lemma decimal_nonneg: "digits p \<Longrightarrow> 0 \<le> decimal p 0"
  by (simp add: decimal_nonneg_aux digits_def)

lemma atoi_digits:
  assumes "digits p" "r = [] \<or> \<not> isdigit (hd r)" "decimal p 0 \<le> INT_MAX"
  shows "atoi (p @ r) = Some (decimal p 0)"
  using assms decimal_nonneg [OF assms(1)]
  by (simp add: atoi_def scan_int_digits INT_MIN_def)

lemma after_slash_digits:
  assumes "digits p"
  shows "after_slash (c # p @ CHR ''/'' # ip) = (if c = CHR ''/'' then Some (p @ CHR ''/'' # ip) else Some ip)"
    and "c \<noteq> CHR ''/'' \<Longrightarrow> after_slash (c # p) = None"
proof -
  have "CHR ''/'' \<notin> set p" using assms isdigit_not_sign by (auto simp: digits_def)
  then show "after_slash (c # p @ CHR ''/'' # ip) = (if c = CHR ''/'' then Some (p @ CHR ''/'' # ip) else Some ip)"
    "c \<noteq> CHR ''/'' \<Longrightarrow> after_slash (c # p) = None"
    by (simp_all add: after_slash_def dropWhile_until dropWhile_absent)
qed


lemma scan_ints_step:
  assumes "digits p" "decimal p 0 \<le> INT_MAX" "\<not> isdigit c"
  shows "scan_ints (c # cs) (p @ c # rest) k = scan_ints cs rest (k + 1)"
  using assms decimal_nonneg [OF assms(1)]
  by (subst scan_ints.simps) (simp add: scan_int_digits INT_MIN_def)

lemma scan_ints_last:
  assumes "digits p" "decimal p 0 \<le> INT_MAX"
  shows "scan_ints [] p k = Some (k + 1, Some [])"
  using assms decimal_nonneg [OF assms(1)] scan_int_digits [OF assms(1), of "[]"]
  by (subst scan_ints.simps) (simp add: INT_MIN_def)

lemma sscanf_port_ip_address:
  assumes "digits p" "decimal p 0 \<le> INT_MAX" "digits a" "decimal a 0 \<le> INT_MAX"
    "digits b" "decimal b 0 \<le> INT_MAX" "digits c" "decimal c 0 \<le> INT_MAX"
    "digits d" "decimal d 0 \<le> INT_MAX"
  shows "sscanf_port_ip (p @ CHR ''/'' # a @ CHR ''.'' # b @ CHR ''.'' # c @ CHR ''.'' # d) =
           Some (5, Some (length (p @ CHR ''/'' # a @ CHR ''.'' # b @ CHR ''.'' # c @ CHR ''.'' # d)))"
proof -
  obtain x xs where p: "p = x # xs" using assms(1) by (cases p) (auto simp: digits_def)
  have "isdigit x" using assms(1) p by (simp add: digits_def)
  then have sp: "dropWhile isspace (p @ r) \<noteq> []" for r
    using p by (simp add: isdigit_not_space)
  have nd: "\<not> isdigit CHR ''/''" "\<not> isdigit CHR ''.''" by (rule not_digit_seps)+
  have "scan_ints [CHR ''/'', CHR ''.'', CHR ''.'', CHR ''.'']
          (p @ CHR ''/'' # a @ CHR ''.'' # b @ CHR ''.'' # c @ CHR ''.'' # d) 0 =
        scan_ints [CHR ''.'', CHR ''.'', CHR ''.'']
          (a @ CHR ''.'' # b @ CHR ''.'' # c @ CHR ''.'' # d) 1"
    using scan_ints_step [OF assms(1,2) nd(1)] by simp
  also have "\<dots> = scan_ints [CHR ''.'', CHR ''.''] (b @ CHR ''.'' # c @ CHR ''.'' # d) 2"
    using scan_ints_step [OF assms(3,4) nd(2)] by simp
  also have "\<dots> = scan_ints [CHR ''.''] (c @ CHR ''.'' # d) 3"
    using scan_ints_step [OF assms(5,6) nd(2)] by simp
  also have "\<dots> = scan_ints [] d 4"
    using scan_ints_step [OF assms(7,8) nd(2)] by simp
  also have "\<dots> = Some (5, Some [])"
    using scan_ints_last [OF assms(9,10)] by simp
  finally show ?thesis
    by (simp add: sscanf_port_ip_def isspace_def)
qed


text \<open>
  C7. For the value of \<^verbatim>\<open>--enable-vm-service\<close>: the empty value gives port 8181 and
  address 127.0.0.1; \<^verbatim>\<open>:<port>/<a>.<b>.<c>.<d>\<close>, each part a decimal numeral that fits an
  \<^verbatim>\<open>int\<close>, gives that port and the text after the slash as the address; \<^verbatim>\<open>:<port>\<close> gives
  that port and the address 127.0.0.1; a value that is not empty and starts with neither
  \<^verbatim>\<open>:\<close> nor \<^verbatim>\<open>=\<close> is refused, and port and address stay as they were.
\<close>

theorem C7_vm_service_flag:
  assumes "digits p" "decimal p 0 \<le> INT_MAX" "digits a" "decimal a 0 \<le> INT_MAX"
    "digits b" "decimal b 0 \<le> INT_MAX" "digits c" "decimal c 0 \<le> INT_MAX"
    "digits d" "decimal d 0 \<le> INT_MAX"
    and "first_char v \<noteq> CHR 0x00" "first_char v \<noteq> CHR '':''" "first_char v \<noteq> CHR ''=''"
  shows "ProcessEnableVmServiceOption [] s =
           (True, s\<lparr>vm_service_server_ip := ''127.0.0.1'', vm_service_server_port := 8181\<rparr>)
       \<and> ProcessEnableVmServiceOption ('':'' @ p @ ''/'' @ a @ ''.'' @ b @ ''.'' @ c @ ''.'' @ d) s =
           (True, s\<lparr>vm_service_server_ip := a @ ''.'' @ b @ ''.'' @ c @ ''.'' @ d,
                     vm_service_server_port := decimal p 0\<rparr>)
       \<and> ProcessEnableVmServiceOption ('':'' @ p) s =
           (True, s\<lparr>vm_service_server_ip := ''127.0.0.1'', vm_service_server_port := decimal p 0\<rparr>)
       \<and> fst (ProcessEnableVmServiceOption v s) = False
       \<and> vm_service_server_port (snd (ProcessEnableVmServiceOption v s)) = vm_service_server_port s
       \<and> vm_service_server_ip (snd (ProcessEnableVmServiceOption v s)) = vm_service_server_ip s"
proof -
  have e0: "ExtractPortAndIP [] dp di = Extracted dp di" for dp di
    by (simp add: ExtractPortAndIP_def first_char_def)
  have e1: "ExtractPortAndIP (CHR '':'' # p @ CHR ''/'' # a @ CHR ''.'' # b @ CHR ''.'' # c @ CHR ''.'' # d) dp di =
              Extracted (decimal p 0) (a @ CHR ''.'' # b @ CHR ''.'' # c @ CHR ''.'' # d)" for dp di
    using atoi_digits [OF assms(1) _ assms(2), of "CHR ''/'' # a @ CHR ''.'' # b @ CHR ''.'' # c @ CHR ''.'' # d"]
      after_slash_digits(1) [OF assms(1), of "CHR '':''" "a @ CHR ''.'' # b @ CHR ''.'' # c @ CHR ''.'' # d"]
      sscanf_port_ip_address [OF assms(1-10)]
    by (simp add: ExtractPortAndIP_def first_char_def not_digit_seps)
  have e2: "ExtractPortAndIP (CHR '':'' # p) dp di = Extracted (decimal p 0) di" for dp di
    using atoi_digits [OF assms(1) _ assms(2), of "[]"] after_slash_digits(2) [OF assms(1), of "CHR '':''"]
    by (simp add: ExtractPortAndIP_def first_char_def)
  have e3: "ExtractPortAndIP v dp di = Not_Extracted" for dp di
    using assms(11-13) by (simp add: ExtractPortAndIP_def)
  show ?thesis
    using e0 e1 e2 e3
    by (simp add: ProcessEnableVmServiceOption_def extract_into_state_def PrintErr_def
        DEFAULT_VM_SERVICE_SERVER_IP_def DEFAULT_VM_SERVICE_SERVER_PORT_def)
qed

lemma digits_literal: "digits ''9999''" "digits ''0''" "decimal ''9999'' 0 = 9999" "decimal ''0'' 0 = 0"
  by (simp_all add: digits_def isdigit_def digit_value_def)

theorem C7_vm_service_flag_witness:
  "ProcessEnableVmServiceOption '':9999/0.0.0.0'' (initial_state None None) =
     (True, (initial_state None None)
              \<lparr>vm_service_server_ip := ''0.0.0.0'', vm_service_server_port := 9999\<rparr>)
   \<and> ProcessEnableVmServiceOption '':9999'' (initial_state None None) =
     (True, (initial_state None None)
              \<lparr>vm_service_server_ip := ''127.0.0.1'', vm_service_server_port := 9999\<rparr>)
   \<and> fst (ProcessEnableVmServiceOption ''x9999'' (initial_state None None)) = False"
  using C7_vm_service_flag [of "''9999''" "''0''" "''0''" "''0''" "''0''" "''x9999''" "initial_state None None"]
  by (simp add: digits_literal INT_MAX_def first_char_def digit_value_def)


text \<open>The two scenarios of the specification, through \<^verbatim>\<open>ParseArguments\<close>.\<close>

lemma vm_service_scenarios:
  "vm_service_server_port
     (snd (ParseArguments dart [''dart'', ''--enable-vm-service:9999/0.0.0.0'', ''script.dart'']
             (initial_state None None))) = 9999
   \<and> vm_service_server_ip
     (snd (ParseArguments dart [''dart'', ''--enable-vm-service:9999/0.0.0.0'', ''script.dart'']
             (initial_state None None))) = ''0.0.0.0''
   \<and> vm_service_server_port
     (snd (ParseArguments dart [''dart'', ''--enable-vm-service'', ''script.dart'']
             (initial_state None None))) = 8181
   \<and> vm_service_server_ip
     (snd (ParseArguments dart [''dart'', ''--enable-vm-service'', ''script.dart'']
             (initial_state None None))) = ''127.0.0.1''"
  by code_simp

subsection \<open>Consistency of the arguments\<close>

lemmas handler_defs =
  ProcessEnvironmentOption_def ProcessHelpOption_def ProcessPackagesOption_def
  ProcessPackageRootOption_def ProcessVerboseOption_def ProcessVersionOption_def
  ProcessCompileAllOption_def ProcessEnableVmServiceOption_def
  ProcessGenPrecompiledSnapshotOption_def ProcessObserveOption_def
  ProcessRunPrecompiledSnapshotOption_def ProcessShutdownOption_def
  ProcessScriptSnapshotOption_def ProcessFullSnapshotAfterRunOption_def
  ProcessRunFullSnapshotOption_def ProcessTraceLoadingOption_def
  ProcessSnapshotOptionHelper_def extract_into_state_def set_snapshot_option_def
  allocate_environment_def PrintErr_def AddArgument_def set_fault_def

lemma settled_refl [simp]: "settled s s"
  by (simp add: settled_def)

lemma settled_trans: "settled s s1 \<Longrightarrow> settled s1 s2 \<Longrightarrow> settled s s2"
  by (simp add: settled_def)

lemma handlers_settled:
  "(name, h) \<in> set (main_options b) \<Longrightarrow> settled s (snd (h arg s))"
  unfolding main_options_def settled_def
  by (auto simp: handler_defs Let_def split: option.splits extracted.splits snapshot_option.splits if_splits prod.splits)


lemma process_table_settled:
  "set table \<subseteq> set (main_options b) \<Longrightarrow> settled s (snd (process_table table option s))"
proof (induction table arbitrary: s)
  case Nil
  then show ?case by simp
next
  case (Cons e table)
  obtain name h where e: "e = (name, h)" by (cases e)
  have h: "settled s (snd (h arg s))" for arg s
    using Cons.prems e handlers_settled [of name h b] by simp
  have rest: "settled s1 (snd (process_table table option s1))" for s1
    using Cons by simp
  have both: "settled s (snd (process_table table option (snd (h arg s))))" for arg
    using settled_trans [OF h rest] .
  show ?case
    using h rest both by (simp add: e Let_def)
qed

lemma ProcessMainOptions_settled:
  "settled s s1 \<Longrightarrow> settled s (snd (ProcessMainOptions b option s1))"
  using settled_trans [OF _ process_table_settled [of "main_options b" b s1 option]]
  by (simp add: ProcessMainOptions_def)

lemma package_root_settled:
  "settled s s1 \<Longrightarrow> settled s (snd (ProcessPackageRootOption arg s1))"
  by (simp add: settled_def ProcessPackageRootOption_def)

lemma settled_updates [simp]:
  "settled s (AddArgument a s1) = settled s s1"
  "settled s (PrintErr m s1) = settled s s1"
  "settled s (s1\<lparr>print_flags_seen := x\<rparr>) = settled s s1"
  "settled s (s1\<lparr>verbose_debug_seen := x\<rparr>) = settled s s1"
  "settled s (s1\<lparr>script_name := n, dart_options := os\<rparr>) = settled s s1"
  by (simp_all add: settled_def AddArgument_def PrintErr_def)

lemma parse_vm_options_settled:
  "settled s0 s \<Longrightarrow> settled s0 (snd (parse_vm_options b argv i s))"
proof (induction "length argv - i" arbitrary: i s rule: less_induct)
  case less
  show ?case
  proof (cases "i < length argv")
    case False
    then show ?thesis
      using less.prems by (subst parse_vm_options.simps) simp
  next
    case True
    have step1: "settled s0 (snd (parse_vm_options b argv (Suc i) s1))" if "settled s0 s1" for s1
      using less.hyps [of "Suc i" s1] True that by simp
    have step2: "settled s0 (snd (parse_vm_options b argv (Suc (Suc i)) s1))" if "settled s0 s1" for s1
      using less.hyps [of "Suc (Suc i)" s1] True that by simp
    note m = ProcessMainOptions_settled [OF less.prems, of b "argv ! i"]
    show ?thesis
      by (subst parse_vm_options.simps)
         (simp add: Let_def True step1 step2 m package_root_settled)
  qed
qed


lemma ParseArguments_settled: "settled s (snd (ParseArguments b argv s))"
  using parse_vm_options_settled [OF settled_refl, of s b argv 1]
  by (simp add: ParseArguments_def Let_def)

lemma ParseArguments_both:
  assumes "commandline_package_root (snd (parse_vm_options b argv 1 s)) \<noteq> None"
    and "commandline_packages_file (snd (parse_vm_options b argv 1 s)) \<noteq> None"
  shows "fst (ParseArguments b argv s) = - 1"
  using assms by (simp add: ParseArguments_def Let_def)

lemma ParseArguments_both_after:
  assumes "commandline_package_root (snd (ParseArguments b argv s)) \<noteq> None"
    and "commandline_packages_file (snd (ParseArguments b argv s)) \<noteq> None"
  shows "fst (ParseArguments b argv s) = - 1"
  using assms by (simp add: ParseArguments_def Let_def PrintErr_def split: if_splits)

lemma package_root_flag:
  assumes "first_char R \<noteq> CHR 0x00" "first_char R \<noteq> CHR ''-''"
  shows "ProcessMainOptions b (''--package-root='' @ R) s =
           (True, s\<lparr>commandline_package_root := Some R\<rparr>)"
  using assms
  by (simp add: ProcessMainOptions_def main_options_def Let_def ProcessPackageRootOption_def)

lemma packages_flag:
  assumes "first_char P \<noteq> CHR 0x00" "first_char P \<noteq> CHR ''-''"
  shows "ProcessMainOptions b (''--packages='' @ P) s =
           (True, s\<lparr>commandline_packages_file := Some P\<rparr>)"
  using assms
  by (simp add: ProcessMainOptions_def main_options_def Let_def ProcessPackagesOption_def)

lemma parse_accepted:
  assumes "i < length argv" "ProcessMainOptions b (argv ! i) s = (True, s1)"
  shows "parse_vm_options b argv i s = parse_vm_options b argv (Suc i) s1"
  using assms by (subst parse_vm_options.simps) (simp add: Let_def)

lemma both_flags_fail:
  assumes "first_char R \<noteq> CHR 0x00" "first_char R \<noteq> CHR ''-''"
    and "first_char P \<noteq> CHR 0x00" "first_char P \<noteq> CHR ''-''"
  shows "fst (ParseArguments b (exe # (''--package-root='' @ R) # (''--packages='' @ P) # rest) s) = - 1"
    and "fst (ParseArguments b (exe # (''--packages='' @ P) # (''--package-root='' @ R) # rest) s) = - 1"
proof -
  let ?A = "''--package-root='' @ R" and ?B = "''--packages='' @ P"
  let ?s2 = "s\<lparr>commandline_package_root := Some R, commandline_packages_file := Some P\<rparr>"
  let ?s2' = "s\<lparr>commandline_packages_file := Some P, commandline_package_root := Some R\<rparr>"
  have 1: "parse_vm_options b (exe # ?A # ?B # rest) 1 s =
           parse_vm_options b (exe # ?A # ?B # rest) (Suc (Suc (Suc 0))) ?s2"
    using parse_accepted [of 1 "exe # ?A # ?B # rest" b s, OF _ _]
      parse_accepted [of 2 "exe # ?A # ?B # rest" b "s\<lparr>commandline_package_root := Some R\<rparr>"]
      package_root_flag [OF assms(1,2)] packages_flag [OF assms(3,4)]
    by (simp add: numeral_2_eq_2)
  have 2: "parse_vm_options b (exe # ?B # ?A # rest) 1 s =
           parse_vm_options b (exe # ?B # ?A # rest) (Suc (Suc (Suc 0))) ?s2'"
    using parse_accepted [of 1 "exe # ?B # ?A # rest" b s, OF _ _]
      parse_accepted [of 2 "exe # ?B # ?A # rest" b "s\<lparr>commandline_packages_file := Some P\<rparr>"]
      package_root_flag [OF assms(1,2)] packages_flag [OF assms(3,4)]
    by (simp add: numeral_2_eq_2)
  have k: "commandline_package_root (snd (parse_vm_options b argv i ?s2)) \<noteq> None"
    "commandline_packages_file (snd (parse_vm_options b argv i ?s2)) \<noteq> None"
    "commandline_package_root (snd (parse_vm_options b argv i ?s2')) \<noteq> None"
    "commandline_packages_file (snd (parse_vm_options b argv i ?s2')) \<noteq> None" for argv i
    using parse_vm_options_settled [OF settled_refl, of ?s2 b argv i]
      parse_vm_options_settled [OF settled_refl, of ?s2' b argv i]
    by (simp_all add: settled_def)
  show "fst (ParseArguments b (exe # ?A # ?B # rest) s) = - 1"
    by (rule ParseArguments_both; unfold 1; rule k)
  show "fst (ParseArguments b (exe # ?B # ?A # rest) s) = - 1"
    by (rule ParseArguments_both; unfold 2; rule k)
qed

text \<open>
  C3. Whenever the options leave both a package root and a packages file,
  \<^verbatim>\<open>ParseArguments\<close> returns \<open>-1\<close>; so it does for \<^verbatim>\<open>--package-root=R\<close> and
  \<^verbatim>\<open>--packages=P\<close> at the front of the arguments, in either order, whatever follows
  (\<open>R\<close> and \<open>P\<close> are values the handlers accept: not empty, not starting with a dash).
  Parsing adds no event: no isolate exists yet. \<^verbatim>\<open>CreateIsolateAndSetup\<close> checks again: with
  both a package root and a package configuration it returns \<^verbatim>\<open>NULL\<close> with an error text
  and leaves the state as it was, so \<^verbatim>\<open>Dart_CreateIsolate\<close> is not called.
\<close>

theorem C3_package_root_and_packages:
  assumes "first_char R \<noteq> CHR 0x00" "first_char R \<noteq> CHR ''-''"
    and "first_char P \<noteq> CHR 0x00" "first_char P \<noteq> CHR ''-''"
  shows "(commandline_package_root (snd (ParseArguments b argv s)) \<noteq> None \<and>
          commandline_packages_file (snd (ParseArguments b argv s)) \<noteq> None \<longrightarrow>
            fst (ParseArguments b argv s) = - 1)
       \<and> fst (ParseArguments b
                (exe # (''--package-root='' @ R) # (''--packages='' @ P) # rest) s) = - 1
       \<and> fst (ParseArguments b
                (exe # (''--packages='' @ P) # (''--package-root='' @ R) # rest) s) = - 1
       \<and> trace (snd (ParseArguments b argv s)) = trace s
       \<and> CreateIsolateAndSetup b p run script_uri (Some R) (Some P) s =
           (Returns (No_Isolate
              (Some ''Invalid arguments - Cannot simultaneously specify package root and package map.'')
              0), s)"
  using both_flags_fail [OF assms] ParseArguments_both_after [of b argv s]
    ParseArguments_settled [of s b argv]
  by (simp add: settled_def CreateIsolateAndSetup_def return_def)

theorem C3_package_root_and_packages_witness:
  "fst (ParseArguments dart [''dart'', ''--package-root=pkgs'', ''--packages=.packages'', ''script.dart'']
          (initial_state None None)) = - 1
   \<and> fst (ParseArguments dart [''dart'', ''--packages=.packages'', ''--package-root=pkgs'', ''script.dart'']
          (initial_state None None)) = - 1
   \<and> CreateIsolateAndSetup dart example_platform normal_run ''vm-service''
         (Some ''pkgs'') (Some ''.packages'') (initial_state None None) =
       (Returns (No_Isolate
          (Some ''Invalid arguments - Cannot simultaneously specify package root and package map.'')
          0), initial_state None None)"
  using C3_package_root_and_packages [of "''pkgs''" "''.packages''" dart "[]" "initial_state None None"
      "''dart''" "[''script.dart'']" example_platform normal_run "''vm-service''"]
  by (simp add: first_char_def initial_state_def)


text \<open>
  C2, as the code has it. If the options leave a flag that generates a snapshot
  (\<^verbatim>\<open>--full-snapshot-after-run\<close>, \<^verbatim>\<open>--gen-precompiled-snapshot\<close>) together with a flag that
  runs from one (\<^verbatim>\<open>--run-full-snapshot\<close>, \<^verbatim>\<open>--run-precompiled-snapshot\<close>), or both of the
  latter, \<^verbatim>\<open>ParseArguments\<close> returns \<open>-1\<close>, and it has added no event: no isolate exists
  yet. Nothing is said about how many mode flags a successful parse leaves.
\<close>

theorem C2_exclusive_run_modes:
  "(((generate_full_snapshot_after_run (snd (ParseArguments b argv s)) \<or>
      gen_precompiled_snapshot (snd (ParseArguments b argv s))) \<and>
     (run_full_snapshot (snd (ParseArguments b argv s)) \<or>
      run_precompiled_snapshot (snd (ParseArguments b argv s)))) \<or>
    (run_full_snapshot (snd (ParseArguments b argv s)) \<and>
     run_precompiled_snapshot (snd (ParseArguments b argv s)))
      \<longrightarrow> fst (ParseArguments b argv s) = - 1)
   \<and> trace (snd (ParseArguments b argv s)) = trace s"
proof -
  have "trace (snd (ParseArguments b argv s)) = trace s"
    using ParseArguments_settled [of s b argv] by (simp add: settled_def)
  moreover have "((generate_full_snapshot_after_run (snd (ParseArguments b argv s)) \<or>
      gen_precompiled_snapshot (snd (ParseArguments b argv s))) \<and>
     (run_full_snapshot (snd (ParseArguments b argv s)) \<or>
      run_precompiled_snapshot (snd (ParseArguments b argv s)))) \<or>
    (run_full_snapshot (snd (ParseArguments b argv s)) \<and>
     run_precompiled_snapshot (snd (ParseArguments b argv s)))
      \<longrightarrow> fst (ParseArguments b argv s) = - 1"
    by (simp add: ParseArguments_def Let_def PrintErr_def split: if_splits)
  ultimately show ?thesis by simp
qed

text \<open>Both conflicts, on command lines that binaries with these options accept.\<close>

lemma conflicting_modes:
  "run_full_snapshot (snd (ParseArguments dart_product
      [''dart_product'', ''--run-full-snapshot=app'', ''--run-precompiled-snapshot'', ''script.dart'']
      (initial_state None None)))
   \<and> run_precompiled_snapshot (snd (ParseArguments dart_product
      [''dart_product'', ''--run-full-snapshot=app'', ''--run-precompiled-snapshot'', ''script.dart'']
      (initial_state None None)))
   \<and> gen_precompiled_snapshot (snd (ParseArguments dart_bootstrap
      [''dart_bootstrap'', ''--gen-precompiled-snapshot'', ''--run-precompiled-snapshot'', ''script.dart'']
      (initial_state None None)))
   \<and> run_precompiled_snapshot (snd (ParseArguments dart_bootstrap
      [''dart_bootstrap'', ''--gen-precompiled-snapshot'', ''--run-precompiled-snapshot'', ''script.dart'']
      (initial_state None None)))"
  by code_simp

theorem C2_exclusive_run_modes_witness:
  "fst (ParseArguments dart_product
      [''dart_product'', ''--run-full-snapshot=app'', ''--run-precompiled-snapshot'', ''script.dart'']
      (initial_state None None)) = - 1
   \<and> fst (ParseArguments dart_bootstrap
      [''dart_bootstrap'', ''--gen-precompiled-snapshot'', ''--run-precompiled-snapshot'', ''script.dart'']
      (initial_state None None)) = - 1"
  using conflicting_modes
    C2_exclusive_run_modes [of dart_product
      "[''dart_product'', ''--run-full-snapshot=app'', ''--run-precompiled-snapshot'', ''script.dart'']"
      "initial_state None None"]
    C2_exclusive_run_modes [of dart_bootstrap
      "[''dart_bootstrap'', ''--gen-precompiled-snapshot'', ''--run-precompiled-snapshot'', ''script.dart'']"
      "initial_state None None"]
  by blast

text \<open>
  C2 as stated fails: a successful parse can leave two mode flags. \<^verbatim>\<open>dart\<close> with a linked
  snapshot accepts \<^verbatim>\<open>--snapshot=\<close> with \<^verbatim>\<open>--run-precompiled-snapshot\<close>, and
  \<^verbatim>\<open>dart_bootstrap\<close> accepts both generating flags.
\<close>

theorem C2_counterexample:
  "fst (ParseArguments dart
      [''dart'', ''--snapshot=out.snapshot'', ''--run-precompiled-snapshot'', ''script.dart'']
      (initial_state None (Some [1, 2, 3]))) = 0
   \<and> generate_script_snapshot (snd (ParseArguments dart
      [''dart'', ''--snapshot=out.snapshot'', ''--run-precompiled-snapshot'', ''script.dart'']
      (initial_state None (Some [1, 2, 3]))))
   \<and> run_precompiled_snapshot (snd (ParseArguments dart
      [''dart'', ''--snapshot=out.snapshot'', ''--run-precompiled-snapshot'', ''script.dart'']
      (initial_state None (Some [1, 2, 3]))))
   \<and> fst (ParseArguments dart_bootstrap
      [''dart_bootstrap'', ''--full-snapshot-after-run=app'', ''--gen-precompiled-snapshot'', ''script.dart'']
      (initial_state None None)) = 0
   \<and> generate_full_snapshot_after_run (snd (ParseArguments dart_bootstrap
      [''dart_bootstrap'', ''--full-snapshot-after-run=app'', ''--gen-precompiled-snapshot'', ''script.dart'']
      (initial_state None None)))
   \<and> gen_precompiled_snapshot (snd (ParseArguments dart_bootstrap
      [''dart_bootstrap'', ''--full-snapshot-after-run=app'', ''--gen-precompiled-snapshot'', ''script.dart'']
      (initial_state None None)))"
  by code_simp

subsection \<open>The restart loop\<close>

lemma config_fields:
  assumes "config s = config s'"
  shows "generate_script_snapshot s = generate_script_snapshot s'"
    "generate_full_snapshot_after_run s = generate_full_snapshot_after_run s'"
    "run_full_snapshot s = run_full_snapshot s'"
    "snapshot_filename s = snapshot_filename s'"
    "commandline_package_root s = commandline_package_root s'"
    "commandline_packages_file s = commandline_packages_file s'"
    "compile_all s = compile_all s'"
    "gen_precompiled_snapshot s = gen_precompiled_snapshot s'"
    "run_precompiled_snapshot s = run_precompiled_snapshot s'"
    "precompiled_snapshot_directory s = precompiled_snapshot_directory s'"
    "do_vm_shutdown s = do_vm_shutdown s'"
    "isolate_snapshot_buffer s = isolate_snapshot_buffer s'"
proof -
  have "f (config s) = f (config s')" for f :: "state \<Rightarrow> 'b" using assms by simp
  note e = this
  show "generate_script_snapshot s = generate_script_snapshot s'"
    "generate_full_snapshot_after_run s = generate_full_snapshot_after_run s'"
    "run_full_snapshot s = run_full_snapshot s'"
    "snapshot_filename s = snapshot_filename s'"
    "commandline_package_root s = commandline_package_root s'"
    "commandline_packages_file s = commandline_packages_file s'"
    "compile_all s = compile_all s'"
    "gen_precompiled_snapshot s = gen_precompiled_snapshot s'"
    "run_precompiled_snapshot s = run_precompiled_snapshot s'"
    "precompiled_snapshot_directory s = precompiled_snapshot_directory s'"
    "do_vm_shutdown s = do_vm_shutdown s'"
    "isolate_snapshot_buffer s = isolate_snapshot_buffer s'"
    using e [of generate_script_snapshot] e [of generate_full_snapshot_after_run]
      e [of run_full_snapshot] e [of snapshot_filename] e [of commandline_package_root]
      e [of commandline_packages_file] e [of compile_all] e [of gen_precompiled_snapshot]
      e [of run_precompiled_snapshot] e [of precompiled_snapshot_directory]
      e [of do_vm_shutdown] e [of isolate_snapshot_buffer]
    by (simp_all add: config_def)
qed

lemma config_eqD:
  "config s = config s' \<Longrightarrow>
     generate_script_snapshot s = generate_script_snapshot s' \<and>
     generate_full_snapshot_after_run s = generate_full_snapshot_after_run s' \<and>
     run_full_snapshot s = run_full_snapshot s' \<and>
     snapshot_filename s = snapshot_filename s' \<and>
     commandline_package_root s = commandline_package_root s' \<and>
     commandline_packages_file s = commandline_packages_file s' \<and>
     compile_all s = compile_all s' \<and>
     gen_precompiled_snapshot s = gen_precompiled_snapshot s' \<and>
     run_precompiled_snapshot s = run_precompiled_snapshot s' \<and>
     precompiled_snapshot_directory s = precompiled_snapshot_directory s' \<and>
     do_vm_shutdown s = do_vm_shutdown s' \<and>
     isolate_snapshot_buffer s = isolate_snapshot_buffer s'"
  using config_fields [of s s'] by simp

lemma config_updates [simp]:
  "config (s\<lparr>trace := t\<rparr>) = config s"
  "config (s\<lparr>stderr_log := l\<rparr>) = config s"
  by (simp_all add: config_def)

lemma steadyD:
  "steady m \<Longrightarrow> config (snd (m s)) = config s"
  "steady m \<Longrightarrow> config s = config s' \<Longrightarrow> fst (m s) = fst (m s')"
  unfolding steady_def by blast+

lemma steady_return [intro!, simp]: "steady (return x)"
  by (simp add: steady_def return_def)

lemma steady_emit [intro!, simp]: "steady (emit es)"
  by (simp add: steady_def emit_def)

lemma steady_print_err [intro!, simp]: "steady (print_err msg)"
  by (simp add: steady_def print_err_def PrintErr_def)

lemma steady_Platform_Exit [intro!, simp]: "steady (Platform_Exit c)"
  by (simp add: steady_def Platform_Exit_def)

lemma steady_stop [intro!, simp]: "steady (abort a)" "steady (undefined_behaviour u)"
  by (simp_all add: steady_def abort_def undefined_behaviour_def)

lemma andthen_cases:
  "andthen m f s =
     (case fst (m s) of
        Returns x \<Rightarrow> f x (snd (m s))
      | Exits n \<Rightarrow> (Exits n, snd (m s))
      | Aborts a \<Rightarrow> (Aborts a, snd (m s))
      | Undefined u \<Rightarrow> (Undefined u, snd (m s)))"
  by (cases "m s") (simp add: andthen_def split: outcome.splits)

lemma steady_andthen [intro!]:
  assumes "steady m" "\<And>x. steady (f x)"
  shows "steady (andthen m f)"
  unfolding steady_def
proof (intro conjI allI impI)
  fix s
  show "config (snd (andthen m f s)) = config s"
    using steadyD(1) [OF assms(1), of s] steadyD(1) [OF assms(2), of _ "snd (m s)"]
    by (cases "fst (m s)") (simp_all add: andthen_cases)
next
  fix s s' assume c: "config s = config s'"
  have r: "fst (m s') = fst (m s)" using steadyD(2) [OF assms(1) c] by simp
  have c1: "config (snd (m s)) = config (snd (m s'))"
    using steadyD(1) [OF assms(1)] c by simp
  show "fst (andthen m f s) = fst (andthen m f s')"
    using steadyD(2) [OF assms(2) c1] r
    by (cases "fst (m s)") (simp_all add: andthen_cases)
qed

lemma steady_seq [intro!]: "steady m \<Longrightarrow> steady k \<Longrightarrow> steady (seq m k)"
  by (simp add: seq_def steady_andthen)

lemma steady_whenever [intro!]: "steady m \<Longrightarrow> steady (whenever c m)"
  by (simp add: whenever_def)

lemma steady_with_state:
  assumes "\<And>s0. steady (F s0)" "\<And>s s'. config s = config s' \<Longrightarrow> F s = F s'"
  shows "steady (with_state F)"
  unfolding steady_def with_state_def
proof (intro conjI allI impI)
  fix s show "config (snd (F s s)) = config s"
    by (rule steadyD(1) [OF assms(1)])
next
  fix s s' assume c: "config s = config s'"
  have "F s = F s'" by (rule assms(2) [OF c])
  then show "fst (F s s) = fst (F s' s')"
    using steadyD(2) [OF assms(1) c, of s'] by simp
qed

lemma steady_cleanup [intro!, simp]: "steady (cleanup p)"
  by (auto simp: cleanup_def split: option.splits)

lemma steady_stop_event_handler [intro!, simp]: "steady stop_event_handler"
  unfolding stop_event_handler_def
  by (rule steady_with_state) (auto dest: config_fields)

lemma steady_ErrorExit [intro!, simp]: "steady (ErrorExit p c msg)"
  unfolding ErrorExit_def by auto

lemma steady_WriteSnapshotFile [intro!, simp]: "steady (WriteSnapshotFile b p d f m buf)"
  unfolding WriteSnapshotFile_def by (auto simp: Let_def)

lemma steady_GenerateScriptSnapshot [intro!, simp]: "steady (GenerateScriptSnapshot b p run)"
  unfolding GenerateScriptSnapshot_def
  by (auto simp: Let_def intro!: steady_with_state dest: config_fields)

lemma steady_GenerateFullSnapshot [intro!, simp]: "steady (GenerateFullSnapshot b p run)"
  unfolding GenerateFullSnapshot_def
  by (auto simp: Let_def intro!: steady_with_state dest: config_fields)

lemma steady_CHECK_RESULT_setup [intro!]: "steady k \<Longrightarrow> steady (CHECK_RESULT_setup r k)"
  unfolding CHECK_RESULT_setup_def by auto

lemma steady_make_runnable [intro!, simp]: "steady (make_runnable run)"
  unfolding make_runnable_def by auto

lemma steady_setup_io_library [intro!, simp]: "steady (setup_io_library run)"
  unfolding setup_io_library_def by auto

lemma steady_load_script_phase [intro!, simp]: "steady (load_script_phase run)"
  unfolding load_script_phase_def
  by (rule steady_with_state) (auto dest: config_fields)

lemma steady_package_root_phase [intro!, simp]: "steady (package_root_phase run)"
  unfolding package_root_phase_def by auto

lemma steady_prepare_phase [intro!, simp]: "steady (prepare_phase run)"
  unfolding prepare_phase_def
  by (rule steady_with_state) (auto dest: config_fields)

lemma steady_service_isolate_phase [intro!, simp]: "steady (service_isolate_phase run)"
  unfolding service_isolate_phase_def
  by (rule steady_with_state) (auto simp: Let_def dest: config_fields)

lemma steady_CreateIsolateAndSetupHelper [intro!, simp]:
  "steady (CreateIsolateAndSetupHelper b p run uri root cfg)"
  unfolding CreateIsolateAndSetupHelper_def
  by (rule steady_with_state) (auto dest: config_fields split: option.splits)

lemma steady_CHECK_RESULT_run [intro!]: "steady k \<Longrightarrow> steady (CHECK_RESULT_run p r k)"
  unfolding CHECK_RESULT_run_def by auto

lemma steady_shutdown_isolate [intro!, simp]: "steady shutdown_isolate"
  unfolding shutdown_isolate_def by auto

lemma steady_after_RunLoop [intro!, simp]: "steady (after_RunLoop b p run r)"
  unfolding after_RunLoop_def
  by (rule steady_with_state) (auto dest: config_fields)

lemma steady_run_main_phase [intro!, simp]: "steady (run_main_phase b p run script)"
  unfolding run_main_phase_def by auto

lemma steady_precompiled_snapshot_phase [intro!, simp]:
  "steady (precompiled_snapshot_phase b p run)"
  unfolding precompiled_snapshot_phase_def
  by (auto simp: Let_def intro!: steady_with_state dest: config_fields)

lemma steady_precompile_phase [intro!, simp]: "steady (precompile_phase b p run script)"
  unfolding precompile_phase_def
  by (rule steady_with_state) (auto simp: Let_def dest: config_fields)

lemma steady_compile_all_phase [intro!, simp]: "steady (compile_all_phase b p run script)"
  unfolding compile_all_phase_def
  by (rule steady_with_state) (auto dest: config_fields)

lemma steady_root_library_phase [intro!, simp]: "steady (root_library_phase b p run script)"
  unfolding root_library_phase_def
  by (rule steady_with_state) (auto dest: config_fields)

lemma steady_isolate_result:
  "steady (case isolate of
            No_Isolate error exit_code \<Rightarrow>
              if exit_code = kRestartRequestExitCode then return True
              else
                (case error of
                   None \<Rightarrow> undefined_behaviour ''error is NULL''
                 | Some e \<Rightarrow>
                     seq (print_err (e @ ''\<newline>''))
                    (seq (emit [Engine_Call ''Process::TerminateExitCodeHandler''])
                    (seq (cleanup p)
                    (seq stop_event_handler
                      (Platform_Exit (if exit_code \<noteq> 0 then exit_code else kErrorExitCode))))))
          | Isolate \<Rightarrow>
              seq (emit [Dart_EnterIsolate, Dart_EnterScope])
                (with_state (\<lambda>s.
                   if generate_script_snapshot s
                   then seq (GenerateScriptSnapshot b p run) shutdown_isolate
                   else root_library_phase b p run script)))"
proof -
  have inner: "steady (with_state (\<lambda>s. if generate_script_snapshot s
                   then seq (GenerateScriptSnapshot b p run) shutdown_isolate
                   else root_library_phase b p run script))"
    by (rule steady_with_state) (auto dest: config_fields(1))
  show ?thesis
    using inner by (cases isolate) (auto split: option.splits)
qed

lemma steady_RunMainIsolate: "steady (RunMainIsolate b p run script)"
  unfolding RunMainIsolate_def
proof (rule steady_with_state, goal_cases)
  case (1 s0)
  show ?case
    by (intro steady_andthen steady_CreateIsolateAndSetupHelper steady_isolate_result)
next
  case (2 s s')
  show ?case
    using config_fields(5,6) [OF 2] by simp
qed

lemma counts_append [simp]:
  "creations (xs @ ys) = creations xs + creations ys"
  "shutdowns (xs @ ys) = shutdowns xs + shutdowns ys"
  by (simp_all add: creations_def shutdowns_def)

lemma counts_Cons [simp]:
  "creations [] = 0" "shutdowns [] = 0"
  "creations (e # es) = (case e of Dart_CreateIsolate _ \<Rightarrow> 1 | _ \<Rightarrow> 0) + creations es"
  "shutdowns (e # es) = (if e = Dart_ShutdownIsolate then 1 else 0) + shutdowns es"
  by (simp_all add: creations_def shutdowns_def split: event.splits)

lemmas action_defs = seq_def andthen_def emit_def return_def print_err_def PrintErr_def
  Platform_Exit_def whenever_def with_state_def abort_def undefined_behaviour_def

lemma seq_cases:
  "seq m k s =
     (case fst (m s) of
        Returns _ \<Rightarrow> k (snd (m s))
      | Exits n \<Rightarrow> (Exits n, snd (m s))
      | Aborts a \<Rightarrow> (Aborts a, snd (m s))
      | Undefined u \<Rightarrow> (Undefined u, snd (m s)))"
  by (cases "m s") (simp add: seq_def andthen_def split: outcome.splits)

lemma emit_simps [simp]:
  "fst (emit es s) = Returns ()" "trace (snd (emit es s)) = trace s @ es"
  by (simp_all add: emit_def)

lemma ErrorExit_exits [simp]: "fst (ErrorExit p c msg s) = Exits c"
  by (simp add: ErrorExit_def cleanup_def stop_event_handler_def action_defs split: option.splits)

lemma quiet_emit: "creations es = 0 \<Longrightarrow> shutdowns es = 0 \<Longrightarrow> quiet (emit es)"
  by (simp add: quiet_def)

lemma quiet_return [simp]: "quiet (return ())"
  by (simp add: quiet_def return_def)

lemma quiet_ErrorExit [simp]: "quiet (ErrorExit p kErrorExitCode msg)"
  by (simp add: quiet_def kErrorExitCode_def)

lemma quiet_abort [simp]: "quiet (abort a)" "quiet (undefined_behaviour u)"
  by (simp_all add: quiet_def abort_def undefined_behaviour_def)

lemma quiet_seq: "quiet m \<Longrightarrow> quiet k \<Longrightarrow> quiet (seq m k)"
  unfolding quiet_def
proof
  fix s
  assume m: "\<forall>s. (\<forall>x. fst (m s) = Returns x \<longrightarrow>
        creations (trace (snd (m s))) = creations (trace s) \<and>
        shutdowns (trace (snd (m s))) = shutdowns (trace s)) \<and>
     (\<forall>c. fst (m s) = Exits c \<longrightarrow> c = 255)"
    and k: "\<forall>s. (\<forall>x. fst (k s) = Returns x \<longrightarrow>
        creations (trace (snd (k s))) = creations (trace s) \<and>
        shutdowns (trace (snd (k s))) = shutdowns (trace s)) \<and>
     (\<forall>c. fst (k s) = Exits c \<longrightarrow> c = 255)"
  show "(\<forall>x. fst (seq m k s) = Returns x \<longrightarrow>
        creations (trace (snd (seq m k s))) = creations (trace s) \<and>
        shutdowns (trace (snd (seq m k s))) = shutdowns (trace s)) \<and>
     (\<forall>c. fst (seq m k s) = Exits c \<longrightarrow> c = 255)"
    using m [rule_format, of s] k [rule_format, of "snd (m s)"]
    by (cases "fst (m s)") (auto simp: seq_cases)
qed

lemma quiet_with_state: "(\<And>s0. quiet (F s0)) \<Longrightarrow> quiet (with_state F)"
  unfolding quiet_def with_state_def by blast

lemma quiet_whenever: "quiet m \<Longrightarrow> quiet (whenever c m)"
  by (simp add: whenever_def)

lemma quiet_WriteSnapshotFile [simp]: "quiet (WriteSnapshotFile b p d f mg buf)"
  unfolding WriteSnapshotFile_def
  by (auto simp: Let_def intro!: quiet_seq quiet_emit quiet_whenever)

lemma quiet_GenerateScriptSnapshot [simp]: "quiet (GenerateScriptSnapshot b p run)"
  unfolding GenerateScriptSnapshot_def
  by (auto simp: Let_def intro!: quiet_seq quiet_emit quiet_with_state)

lemma quiet_GenerateFullSnapshot [simp]: "quiet (GenerateFullSnapshot b p run)"
  unfolding GenerateFullSnapshot_def
  by (auto simp: Let_def intro!: quiet_seq quiet_emit quiet_with_state)

lemma quiet_print_err [simp]: "quiet (print_err msg)"
  by (simp add: quiet_def print_err_def PrintErr_def)

lemma ends_shutdown_isolate [simp]: "ends shutdown_isolate"
  by (simp add: ends_def shutdown_isolate_def seq_cases return_def)

lemma ends_return_after_shutdown:
  "ends (seq (emit [Dart_ExitScope, Dart_ShutdownIsolate]) (return x))"
  by (simp add: ends_def seq_cases return_def)

lemma ends_ErrorExit:
  "c = kCompilationErrorExitCode \<or> c = kErrorExitCode \<Longrightarrow> ends (ErrorExit p c msg)"
  by (auto simp: ends_def kErrorExitCode_def kCompilationErrorExitCode_def)

lemma ends_Platform_Exit [simp]: "ends (Platform_Exit kErrorExitCode)"
  by (simp add: ends_def Platform_Exit_def kErrorExitCode_def)

lemma ends_stop [simp]: "ends (abort a)" "ends (undefined_behaviour u)"
  by (simp_all add: ends_def abort_def undefined_behaviour_def)

lemma ends_seq: "quiet m \<Longrightarrow> ends k \<Longrightarrow> ends (seq m k)"
  unfolding ends_def
proof
  fix s
  assume m: "quiet m"
    and k: "\<forall>s. (\<forall>x. fst (k s) = Returns x \<longrightarrow>
        creations (trace (snd (k s))) = creations (trace s) \<and>
        shutdowns (trace (snd (k s))) = Suc (shutdowns (trace s))) \<and>
     (\<forall>c. fst (k s) = Exits c \<longrightarrow> c = 254 \<or> c = 255)"
  show "(\<forall>x. fst (seq m k s) = Returns x \<longrightarrow>
        creations (trace (snd (seq m k s))) = creations (trace s) \<and>
        shutdowns (trace (snd (seq m k s))) = Suc (shutdowns (trace s))) \<and>
     (\<forall>c. fst (seq m k s) = Exits c \<longrightarrow> c = 254 \<or> c = 255)"
    using m [unfolded quiet_def, rule_format, of s] k [rule_format, of "snd (m s)"]
    by (cases "fst (m s)") (auto simp: seq_cases)
qed

lemma ends_with_state: "(\<And>s0. ends (F s0)) \<Longrightarrow> ends (with_state F)"
  unfolding ends_def with_state_def by blast

lemma ends_CHECK_RESULT_run: "ends k \<Longrightarrow> ends (CHECK_RESULT_run p r k)"
  unfolding CHECK_RESULT_run_def
  by (auto intro!: ends_return_after_shutdown ends_ErrorExit)

lemma ends_after_RunLoop [simp]: "ends (after_RunLoop b p run r)"
  unfolding after_RunLoop_def
  by (auto intro!: ends_with_state ends_seq ends_CHECK_RESULT_run)

lemma ends_run_main_phase [simp]: "ends (run_main_phase b p run script)"
  unfolding run_main_phase_def
  by (auto intro!: ends_seq ends_CHECK_RESULT_run ends_ErrorExit quiet_emit)

lemma ends_precompiled_snapshot_phase [simp]: "ends (precompiled_snapshot_phase b p run)"
  unfolding precompiled_snapshot_phase_def
  by (auto simp: Let_def intro!: ends_with_state ends_seq ends_CHECK_RESULT_run quiet_emit)

lemma ends_precompile_phase [simp]: "ends (precompile_phase b p run script)"
  unfolding precompile_phase_def
  by (auto simp: Let_def intro!: ends_with_state ends_seq ends_CHECK_RESULT_run quiet_emit)

lemma ends_compile_all_phase [simp]: "ends (compile_all_phase b p run script)"
  unfolding compile_all_phase_def
  by (auto intro!: ends_with_state ends_seq ends_CHECK_RESULT_run quiet_emit)

lemma ends_root_library_phase [simp]: "ends (root_library_phase b p run script)"
  unfolding root_library_phase_def
  by (auto intro!: ends_with_state ends_seq quiet_emit)

lemma ends_entered:
  "ends (seq (emit [Dart_EnterIsolate, Dart_EnterScope])
           (with_state (\<lambda>s.
              if generate_script_snapshot s
              then seq (GenerateScriptSnapshot b p run) shutdown_isolate
              else root_library_phase b p run script)))"
  by (auto intro!: ends_with_state ends_seq quiet_emit)

lemma sets_up_return [simp]: "sets_up (return Isolate)" "sets_up (return (No_Isolate e 0))"
  by (simp_all add: sets_up_def return_def)

lemma sets_up_abort [simp]: "sets_up (abort a)"
  by (simp add: sets_up_def abort_def)

lemma sets_up_seq_emit:
  "creations es = 0 \<Longrightarrow> shutdowns es = 0 \<Longrightarrow> sets_up k \<Longrightarrow> sets_up (seq (emit es) k)"
  unfolding sets_up_def by (simp add: seq_cases)

lemma sets_up_seq_whenever:
  "creations es = 0 \<Longrightarrow> shutdowns es = 0 \<Longrightarrow> sets_up k \<Longrightarrow>
     sets_up (seq (whenever c (emit es)) k)"
  unfolding sets_up_def by (simp add: seq_cases whenever_def return_def)

lemma sets_up_with_state: "(\<And>s0. sets_up (F s0)) \<Longrightarrow> sets_up (with_state F)"
  unfolding sets_up_def with_state_def by blast

lemma sets_up_CHECK: "sets_up k \<Longrightarrow> sets_up (CHECK_RESULT_setup r k)"
  unfolding CHECK_RESULT_setup_def
  by (auto simp: sets_up_def seq_cases return_def kCompilationErrorExitCode_def
      kApiErrorExitCode_def kRestartRequestExitCode_def kErrorExitCode_def)

lemma sets_up_make_runnable [simp]: "sets_up (make_runnable run)"
  unfolding make_runnable_def
  by (auto simp: sets_up_def seq_cases return_def)

lemma sets_up_setup_io_library [simp]: "sets_up (setup_io_library run)"
  unfolding setup_io_library_def
  by (auto intro!: sets_up_seq_emit sets_up_CHECK)

lemma sets_up_load_script_phase [simp]: "sets_up (load_script_phase run)"
  unfolding load_script_phase_def
  by (auto intro!: sets_up_with_state sets_up_seq_emit sets_up_seq_whenever sets_up_CHECK)

lemma sets_up_package_root_phase [simp]: "sets_up (package_root_phase run)"
  unfolding package_root_phase_def
  by (auto intro!: sets_up_seq_emit sets_up_CHECK)

lemma sets_up_prepare_phase [simp]: "sets_up (prepare_phase run)"
  unfolding prepare_phase_def
  by (auto intro!: sets_up_with_state sets_up_seq_emit sets_up_CHECK)

lemma sets_up_service_isolate_phase [simp]: "sets_up (service_isolate_phase run)"
  unfolding service_isolate_phase_def
  by (auto simp: Let_def intro!: sets_up_with_state sets_up_seq_emit sets_up_CHECK)

lemma sets_up_created:
  "sets_up
     (seq (emit [Dart_EnterScope])
       (seq (whenever c
               (emit [Engine_Call ''Builtin::SetNativeResolver'',
                      Engine_Call ''Builtin::SetNativeResolver'']))
       (seq (emit [Engine_Call ''Dart_SetLibraryTagHandler''])
       (CHECK_RESULT_setup (on_SetLibraryTagHandler run)
         (if DART_PRODUCT_BINARY b then
            (if DEBUG b \<and> on_IsServiceIsolate run
             then abort ''!Dart_IsServiceIsolate(isolate)''
             else prepare_phase run)
          else if on_IsServiceIsolate run then service_isolate_phase run
          else prepare_phase run)))))"
  by (auto intro!: sets_up_seq_emit sets_up_seq_whenever sets_up_CHECK)

text \<open>One call of \<^verbatim>\<open>CreateIsolateAndSetupHelper\<close>.\<close>

lemma helper_counts:
  fixes s :: state and b p run uri root cfg
  defines "r \<equiv> CreateIsolateAndSetupHelper b p run uri root cfg s"
  shows "(fst r = Returns Isolate \<longrightarrow>
            creations (trace (snd r)) = Suc (creations (trace s)) \<and>
            shutdowns (trace (snd r)) = shutdowns (trace s))
       \<and> (\<forall>e c. fst r = Returns (No_Isolate e c) \<longrightarrow>
            (c = 0 \<or> c = 253 \<or> c = 254 \<or> c = 255 \<or> c = 1000) \<and>
            (c = 1000 \<longrightarrow> creations (trace (snd r)) = Suc (creations (trace s)) \<and>
                           shutdowns (trace (snd r)) = Suc (shutdowns (trace s))))
       \<and> (\<forall>c. fst r \<noteq> Exits c)"
proof -
  let ?k = "seq (emit [Dart_EnterScope])
       (seq (whenever (isolate_snapshot_buffer s \<noteq> None)
               (emit [Engine_Call ''Builtin::SetNativeResolver'',
                      Engine_Call ''Builtin::SetNativeResolver'']))
       (seq (emit [Engine_Call ''Dart_SetLibraryTagHandler''])
       (CHECK_RESULT_setup (on_SetLibraryTagHandler run)
         (if DART_PRODUCT_BINARY b then
            (if DEBUG b \<and> on_IsServiceIsolate run
             then abort ''!Dart_IsServiceIsolate(isolate)''
             else prepare_phase run)
          else if on_IsServiceIsolate run then service_isolate_phase run
          else prepare_phase run))))"
  let ?s1 = "s\<lparr>trace := trace s @ [Dart_CreateIsolate uri]\<rparr>"
  let ?early = "DART_PRODUCT_BINARY b \<and> uri = DART_VM_SERVICE_ISOLATE_NAME p \<or>
                run_full_snapshot s \<and> uri = DART_VM_SERVICE_ISOLATE_NAME p"
  have k: "sets_up ?k" by (rule sets_up_created)
  note k1 = k [unfolded sets_up_def, rule_format, of ?s1]
  consider (early) ?early
    | (failed) e where "\<not> ?early" "on_CreateIsolate run = Some e"
    | (created) "\<not> ?early" "on_CreateIsolate run = None"
    by (cases "on_CreateIsolate run") auto
  then show ?thesis
  proof cases
    case early
    then have "r = (Returns (No_Isolate None 0), s)"
      by (auto simp: r_def CreateIsolateAndSetupHelper_def with_state_def return_def)
    then show ?thesis by simp
  next
    case failed
    then have "r = (Returns (No_Isolate (Some e) 0), ?s1)"
      by (auto simp: r_def CreateIsolateAndSetupHelper_def with_state_def return_def
          seq_def [of "emit [Dart_CreateIsolate uri]"] andthen_def emit_def)
    then show ?thesis by simp
  next
    case created
    then have "r = ?k ?s1"
      by (auto simp: r_def CreateIsolateAndSetupHelper_def with_state_def
          seq_def [of "emit [Dart_CreateIsolate uri]"] andthen_def emit_def)
    then show ?thesis using k1 by simp
  qed
qed

text \<open>One call of \<^verbatim>\<open>RunMainIsolate\<close>: when it returns, it has created one isolate and shut
  one down; when it ends the process, the code is 253, 254 or 255.\<close>

lemma RunMainIsolate_counts:
  fixes s :: state and b p run script
  defines "r \<equiv> RunMainIsolate b p run script s"
  shows "(\<forall>x. fst r = Returns x \<longrightarrow>
            creations (trace (snd r)) = Suc (creations (trace s)) \<and>
            shutdowns (trace (snd r)) = Suc (shutdowns (trace s)))
       \<and> (\<forall>c. fst r = Exits c \<longrightarrow> c = 253 \<or> c = 254 \<or> c = 255)"
proof -
  let ?h = "CreateIsolateAndSetupHelper b p run script
              (commandline_package_root s) (commandline_packages_file s)"
  let ?s1 = "snd (?h s)"
  let ?enter = "seq (emit [Dart_EnterIsolate, Dart_EnterScope])
           (with_state (\<lambda>s.
              if generate_script_snapshot s
              then seq (GenerateScriptSnapshot b p run) shutdown_isolate
              else root_library_phase b p run script))"
  let ?report = "\<lambda>e c. seq (print_err (e @ ''\<newline>''))
                    (seq (emit [Engine_Call ''Process::TerminateExitCodeHandler''])
                    (seq (cleanup p)
                    (seq stop_event_handler
                      (Platform_Exit (if c \<noteq> 0 then c else kErrorExitCode)))))"
  note h = helper_counts [of b p run script "commandline_package_root s"
      "commandline_packages_file s" s]
  note e = ends_entered [of b p run script, unfolded ends_def, rule_format, of ?s1]
  have r: "r = andthen ?h (\<lambda>isolate.
          case isolate of
            No_Isolate error exit_code \<Rightarrow>
              if exit_code = kRestartRequestExitCode then return True
              else (case error of None \<Rightarrow> undefined_behaviour ''error is NULL''
                    | Some e \<Rightarrow> ?report e exit_code)
          | Isolate \<Rightarrow> ?enter) s"
    by (simp add: r_def RunMainIsolate_def with_state_def)
  have exits: "fst (?report e c s') = Exits (if c \<noteq> 0 then c else kErrorExitCode)" for e c s'
    by (simp add: seq_def andthen_def print_err_def emit_def cleanup_def stop_event_handler_def
        with_state_def whenever_def return_def Platform_Exit_def split: option.splits)
  show ?thesis
  proof (cases "fst (?h s)")
    case (Returns isolate)
    show ?thesis
    proof (cases isolate)
      case Isolate
      then have "r = ?enter ?s1" using Returns by (simp add: r andthen_cases)
      then show ?thesis using e h Returns Isolate by simp
    next
      case (No_Isolate err c)
      show ?thesis
      proof (cases "c = kRestartRequestExitCode")
        case True
        then have "r = (Returns True, ?s1)"
          using Returns No_Isolate by (simp add: r andthen_cases return_def)
        then show ?thesis
          using h Returns No_Isolate True by (simp add: kRestartRequestExitCode_def)
      next
        case False
        show ?thesis
        proof (cases err)
          case None
          then have "r = (Undefined ''error is NULL'', ?s1)"
            using Returns No_Isolate False
            by (simp add: r andthen_cases undefined_behaviour_def)
          then show ?thesis by simp
        next
          case (Some e)
          then have "r = ?report e c ?s1"
            using Returns No_Isolate False by (simp add: r andthen_cases)
          then have "fst r = Exits (if c \<noteq> 0 then c else kErrorExitCode)"
            using exits [of e c ?s1] by simp
          moreover have "c = 0 \<or> c = 253 \<or> c = 254 \<or> c = 255"
            using h Returns No_Isolate False by (auto simp: kRestartRequestExitCode_def)
          ultimately show ?thesis
            by (auto simp: kErrorExitCode_def)
        qed
      qed
    qed
  next
    case (Exits c)
    then show ?thesis using h by simp
  next
    case (Aborts a)
    then show ?thesis by (simp add: r andthen_cases)
  next
    case (Undefined u)
    then show ?thesis by (simp add: r andthen_cases)
  qed
qed

lemma quiet_andthen: "quiet m \<Longrightarrow> (\<And>x. quiet (f x)) \<Longrightarrow> quiet (andthen m f)"
  unfolding quiet_def
proof
  fix s
  assume m: "\<forall>s. (\<forall>x. fst (m s) = Returns x \<longrightarrow>
        creations (trace (snd (m s))) = creations (trace s) \<and>
        shutdowns (trace (snd (m s))) = shutdowns (trace s)) \<and>
     (\<forall>c. fst (m s) = Exits c \<longrightarrow> c = 255)"
    and k: "\<And>x. \<forall>s. (\<forall>xa. fst (f x s) = Returns xa \<longrightarrow>
        creations (trace (snd (f x s))) = creations (trace s) \<and>
        shutdowns (trace (snd (f x s))) = shutdowns (trace s)) \<and>
     (\<forall>c. fst (f x s) = Exits c \<longrightarrow> c = 255)"
  show "(\<forall>x. fst (andthen m f s) = Returns x \<longrightarrow>
        creations (trace (snd (andthen m f s))) = creations (trace s) \<and>
        shutdowns (trace (snd (andthen m f s))) = shutdowns (trace s)) \<and>
     (\<forall>c. fst (andthen m f s) = Exits c \<longrightarrow> c = 255)"
    using m [rule_format, of s] k [rule_format, of _ "snd (m s)"]
    by (cases "fst (m s)") (auto simp: andthen_cases)
qed

lemma quiet_modify: "(\<And>s. trace (f s) = trace s) \<Longrightarrow> quiet (modify f)"
  by (simp add: quiet_def modify_def)

lemma quiet_Platform_Exit [simp]: "quiet (Platform_Exit kErrorExitCode)"
  by (simp add: quiet_def Platform_Exit_def kErrorExitCode_def)

lemma quiet_return_any [simp]: "quiet (return x)"
  by (simp add: quiet_def return_def)

lemma quiet_stop_event_handler [simp]: "quiet stop_event_handler"
  unfolding stop_event_handler_def
  by (auto intro!: quiet_with_state quiet_whenever quiet_emit)

lemma quiet_ReadSnapshotFile [simp]: "quiet (ReadSnapshotFile p d f)"
  unfolding ReadSnapshotFile_def
  by (auto simp: Let_def intro!: quiet_seq split: option.splits prod.splits)

lemma quiet_LoadLibrarySymbol [simp]: "quiet (LoadLibrarySymbol p d l y)"
  unfolding LoadLibrarySymbol_def
  by (auto simp: Let_def intro!: quiet_seq split: option.splits)

lemma quiet_read_snapshots [simp]: "quiet (read_snapshots p)"
  unfolding read_snapshots_def
  by (auto simp: Let_def intro!: quiet_with_state quiet_andthen quiet_seq quiet_modify)

lemma quiet_startup [simp]: "quiet (startup b p)"
  unfolding startup_def
  by (auto simp: AddArgument_def
      intro!: quiet_with_state quiet_seq quiet_emit quiet_modify split: option.splits)

lemma finish_exits: "fst (finish p s) = Exits (GlobalExitCode p)"
  by (simp add: finish_def seq_def andthen_def emit_def cleanup_def stop_event_handler_def
      with_state_def whenever_def return_def print_err_def Platform_Exit_def split: option.splits)

lemma parse_failed_exits: "fst (parse_failed s) = Exits 0 \<or> fst (parse_failed s) = Exits 255"
  by (simp add: parse_failed_def with_state_def seq_def andthen_def emit_def Platform_Exit_def
      kErrorExitCode_def)

text \<open>The loop, while the engine asks for a restart.\<close>

lemma restart_loop_restarts:
  assumes "\<forall>r \<in> set rs. fst (RunMainIsolate b p r script s) = Returns True"
  shows "\<exists>s'. config s' = config s
           \<and> creations (trace s') = creations (trace s) + length rs
           \<and> shutdowns (trace s') = shutdowns (trace s) + length rs
           \<and> restart_loop b p script (rs @ others) s =
               (fst (restart_loop b p script others s'),
                length rs + fst (snd (restart_loop b p script others s')),
                snd (snd (restart_loop b p script others s')))"
  using assms
proof (induction rs arbitrary: s)
  case Nil
  show ?case by (rule exI [of _ s]) simp
next
  case (Cons r rs)
  obtain s1 where run: "RunMainIsolate b p r script s = (Returns True, s1)"
    using Cons.prems by (cases "RunMainIsolate b p r script s") simp
  let ?s2 = "PrintErr ''Restarting VM\<newline>'' s1"
  have c2: "config ?s2 = config s"
    using steadyD(1) [OF steady_RunMainIsolate, of b p r script s] run
    by (simp add: PrintErr_def)
  have counts: "creations (trace ?s2) = Suc (creations (trace s))"
    "shutdowns (trace ?s2) = Suc (shutdowns (trace s))"
    using RunMainIsolate_counts [of b p r script s] run by (auto simp: PrintErr_def)
  have "\<forall>r \<in> set rs. fst (RunMainIsolate b p r script ?s2) = Returns True"
    using Cons.prems steadyD(2) [OF steady_RunMainIsolate c2] by simp
  from Cons.IH [OF this] obtain s' where s':
    "config s' = config ?s2"
    "creations (trace s') = creations (trace ?s2) + length rs"
    "shutdowns (trace s') = shutdowns (trace ?s2) + length rs"
    "restart_loop b p script (rs @ others) ?s2 =
               (fst (restart_loop b p script others s'),
                length rs + fst (snd (restart_loop b p script others s')),
                snd (snd (restart_loop b p script others s')))"
    by blast
  show ?case
    using s' c2 counts
    by (intro exI [of _ s']) (simp add: run Let_def)
qed

lemma restart_loop_completes:
  assumes "fst (RunMainIsolate b p r script s) = Returns False"
  shows "restart_loop b p script (r # others) s =
           (Some (Returns ()), 1, snd (RunMainIsolate b p r script s))"
  using assms by (cases "RunMainIsolate b p r script s") simp

lemma restart_loop_exit_codes:
  "fst (restart_loop b p script runs s) = Some (Exits c) \<Longrightarrow> c = 253 \<or> c = 254 \<or> c = 255"
proof (induction runs arbitrary: s)
  case Nil
  then show ?case by simp
next
  case (Cons r runs)
  obtain out s1 where run: "RunMainIsolate b p r script s = (out, s1)"
    by (cases "RunMainIsolate b p r script s")
  show ?case
  proof (cases out)
    case (Returns x)
    then show ?thesis
      using Cons run by (cases x) (auto simp: Let_def)
  next
    case (Exits n)
    then show ?thesis
      using Cons.prems run RunMainIsolate_counts [of b p r script s] by simp
  qed (use Cons.prems run in simp_all)
qed

lemma finish_counts:
  "creations (trace (snd (finish p s))) = creations (trace s)"
  "shutdowns (trace (snd (finish p s))) = shutdowns (trace s)"
  by (simp_all add: finish_def seq_def andthen_def emit_def cleanup_def stop_event_handler_def
      with_state_def whenever_def return_def print_err_def PrintErr_def Platform_Exit_def
      split: option.splits)

lemma main_exit_codes:
  assumes "fst (main b p argv runs s0) = Some (Exits c)"
  shows "c = 0 \<or> c = 253 \<or> c = 254 \<or> c = 255 \<or> c = GlobalExitCode p"
proof -
  let ?s3 = "snd (ParseArguments b argv (main_prologue p s0))"
  show ?thesis
  proof (cases "fault ?s3")
    case (Some f)
    then show ?thesis using assms by (cases f) (simp_all add: main_def Let_def)
  next
    case None
    show ?thesis
    proof (cases "fst (ParseArguments b argv (main_prologue p s0)) < 0")
      case True
      then show ?thesis
        using assms None parse_failed_exits [of ?s3] by (auto simp: main_def Let_def)
    next
      case False
      obtain out s4 where st: "startup b p ?s3 = (out, s4)" by (cases "startup b p ?s3")
      show ?thesis
      proof (cases out)
        case (Returns u)
        obtain e n s5 where lp: "restart_loop b p (the (script_name s4)) runs s4 = (e, n, s5)"
          by (cases "restart_loop b p (the (script_name s4)) runs s4")
        show ?thesis
        proof (cases "\<exists>u. e = Some (Returns u)")
          case True
          then show ?thesis
            using assms None False st Returns lp finish_exits [of p s5]
            by (auto simp: main_def Let_def)
        next
          case False
          then have "fst (main b p argv runs s0) = e"
            using None \<open>\<not> fst (ParseArguments b argv (main_prologue p s0)) < 0\<close> st Returns lp
            by (cases e; cases "the e") (auto simp: main_def Let_def)
          then show ?thesis
            using assms lp restart_loop_exit_codes [of b p "the (script_name s4)" runs s4 c]
            by auto
        qed
      next
        case (Exits n)
        then have "n = 255"
          using quiet_startup [of b p, unfolded quiet_def, rule_format, of ?s3] st by simp
        then show ?thesis
          using assms None False st Exits by (simp add: main_def Let_def)
      qed (use assms None False st in \<open>simp_all add: main_def Let_def\<close>)
    qed
  qed
qed

text \<open>
  C1, as the code has it. Let \<^verbatim>\<open>ParseArguments\<close> succeed and \<^verbatim>\<open>main\<close> reach its loop. If
  \<^verbatim>\<open>RunMainIsolate\<close> returns \<^verbatim>\<open>true\<close> (a restart) for each of the first \<open>N\<close> bootstraps and
  \<^verbatim>\<open>false\<close> for the next one, then \<^verbatim>\<open>main\<close> calls it \<open>N + 1\<close> times, each call creates one
  isolate and shuts one down, and the process ends with \<^verbatim>\<open>Process::GlobalExitCode()\<close>.
  The code of a restart request is never handed to \<^verbatim>\<open>Platform::Exit\<close> by the file itself:
  whatever the arguments and the engine do, the exit code is 0, 253, 254, 255 or
  \<^verbatim>\<open>Process::GlobalExitCode()\<close>.
\<close>

theorem C1_restart_then_complete:
  fixes b p argv s0 rs r' others
  defines "s3 \<equiv> snd (ParseArguments b argv (main_prologue p s0))"
    and "s \<equiv> snd (startup b p (snd (ParseArguments b argv (main_prologue p s0))))"
  assumes "fst (ParseArguments b argv (main_prologue p s0)) = 0"
    and "fault s3 = None"
    and "fst (startup b p s3) = Returns ()"
    and "\<forall>r \<in> set rs. fst (RunMainIsolate b p r (the (script_name s)) s) = Returns True"
    and "fst (RunMainIsolate b p r' (the (script_name s)) s) = Returns False"
  shows "fst (main b p argv (rs @ r' # others) s0) = Some (Exits (GlobalExitCode p))
       \<and> fst (snd (main b p argv (rs @ r' # others) s0)) = length rs + 1
       \<and> creations (trace (snd (snd (main b p argv (rs @ r' # others) s0)))) =
           creations (trace s) + (length rs + 1)
       \<and> shutdowns (trace (snd (snd (main b p argv (rs @ r' # others) s0)))) =
           shutdowns (trace s) + (length rs + 1)
       \<and> (\<forall>c. fst (main b p argv' runs' s0') = Some (Exits c) \<longrightarrow>
            c = 0 \<or> c = 253 \<or> c = 254 \<or> c = 255 \<or> c = GlobalExitCode p)"
proof -
  let ?script = "the (script_name s)"
  obtain s' where s':
    "config s' = config s"
    "creations (trace s') = creations (trace s) + length rs"
    "shutdowns (trace s') = shutdowns (trace s) + length rs"
    "restart_loop b p ?script (rs @ r' # others) s =
       (fst (restart_loop b p ?script (r' # others) s'),
        length rs + fst (snd (restart_loop b p ?script (r' # others) s')),
        snd (snd (restart_loop b p ?script (r' # others) s')))"
    using restart_loop_restarts [OF assms(6), of "r' # others"] by blast
  let ?s5 = "snd (RunMainIsolate b p r' ?script s')"
  have last: "fst (RunMainIsolate b p r' ?script s') = Returns False"
    using assms(7) steadyD(2) [OF steady_RunMainIsolate s'(1)] by simp
  have loop: "restart_loop b p ?script (rs @ r' # others) s =
                (Some (Returns ()), length rs + 1, ?s5)"
    unfolding s'(4) restart_loop_completes [OF last] by simp
  have counts: "creations (trace ?s5) = Suc (creations (trace s'))"
    "shutdowns (trace ?s5) = Suc (shutdowns (trace s'))"
    using RunMainIsolate_counts [of b p r' ?script s'] last by auto
  have st: "startup b p s3 = (Returns (), s)"
    using assms(5) by (cases "startup b p s3") (simp add: s_def s3_def)
  have m: "main b p argv (rs @ r' # others) s0 =
             (Some (fst (finish p ?s5)), length rs + 1, snd (finish p ?s5))"
    using assms(3,4) st loop
    by (simp add: main_def Let_def s3_def [symmetric])
  show ?thesis
    using m finish_exits [of p ?s5] finish_counts [of p ?s5] counts s'(2,3)
      main_exit_codes [of b p argv' runs' s0']
    by simp
qed

text \<open>Two restarts, one while the script runs and one while it loads, then a run that
  completes.\<close>

lemma restart_example:
  "fst (ParseArguments dart [''dart'', ''script.dart'']
          (main_prologue example_platform (initial_state None (Some [1, 2, 3])))) = 0"
  "fault example_parsed = None"
  "fst (startup dart example_platform example_parsed) = Returns ()"
  "fst (RunMainIsolate dart example_platform (normal_run\<lparr>on_RunLoop_main := restart_request\<rparr>)
          (the (script_name example_started)) example_started) = Returns True"
  "fst (RunMainIsolate dart example_platform (normal_run\<lparr>on_LoadScript := restart_request\<rparr>)
          (the (script_name example_started)) example_started) = Returns True"
  "fst (RunMainIsolate dart example_platform normal_run
          (the (script_name example_started)) example_started) = Returns False"
  by code_simp+

lemma example_exit_code: "GlobalExitCode example_platform = 0"
  by (simp add: example_platform_def)

theorem C1_restart_then_complete_witness:
  "fst (main dart example_platform [''dart'', ''script.dart'']
          ([normal_run\<lparr>on_RunLoop_main := restart_request\<rparr>,
            normal_run\<lparr>on_LoadScript := restart_request\<rparr>] @ normal_run # [])
          (initial_state None (Some [1, 2, 3]))) = Some (Exits 0)
   \<and> fst (snd (main dart example_platform [''dart'', ''script.dart'']
          ([normal_run\<lparr>on_RunLoop_main := restart_request\<rparr>,
            normal_run\<lparr>on_LoadScript := restart_request\<rparr>] @ normal_run # [])
          (initial_state None (Some [1, 2, 3])))) = 3"
proof -
  note t = C1_restart_then_complete [of dart "[''dart'', ''script.dart'']" example_platform
      "initial_state None (Some [1, 2, 3])"
      "[normal_run\<lparr>on_RunLoop_main := restart_request\<rparr>,
        normal_run\<lparr>on_LoadScript := restart_request\<rparr>]" normal_run "[]"]
  have "fst (main dart example_platform [''dart'', ''script.dart'']
          ([normal_run\<lparr>on_RunLoop_main := restart_request\<rparr>,
            normal_run\<lparr>on_LoadScript := restart_request\<rparr>] @ normal_run # [])
          (initial_state None (Some [1, 2, 3]))) = Some (Exits (GlobalExitCode example_platform))
     \<and> fst (snd (main dart example_platform [''dart'', ''script.dart'']
          ([normal_run\<lparr>on_RunLoop_main := restart_request\<rparr>,
            normal_run\<lparr>on_LoadScript := restart_request\<rparr>] @ normal_run # [])
          (initial_state None (Some [1, 2, 3])))) =
         length [normal_run\<lparr>on_RunLoop_main := restart_request\<rparr>,
                 normal_run\<lparr>on_LoadScript := restart_request\<rparr>] + 1"
    using restart_example
    by (intro conjI t [THEN conjunct1] t [THEN conjunct2, THEN conjunct1])
       (simp_all add: example_started_def example_parsed_def)
  then show ?thesis by (simp add: example_exit_code)
qed

text \<open>
  C1 as stated fails: after one restart and a run that completes, the process ends with
  the exit code the program has set, here 7, not with 0.
\<close>

theorem C1_counterexample:
  "fst (main dart (example_platform\<lparr>GlobalExitCode := 7\<rparr>) [''dart'', ''script.dart'']
          [normal_run\<lparr>on_RunLoop_main := restart_request\<rparr>, normal_run]
          (initial_state None (Some [1, 2, 3]))) = Some (Exits 7)
   \<and> fst (snd (main dart (example_platform\<lparr>GlobalExitCode := 7\<rparr>) [''dart'', ''script.dart'']
          [normal_run\<lparr>on_RunLoop_main := restart_request\<rparr>, normal_run]
          (initial_state None (Some [1, 2, 3])))) = 2"
  by code_simp

subsection \<open>The snapshot files\<close>

lemma WriteSnapshotFile_returns:
  assumes "fst (WriteSnapshotFile b p dir n magic buf s) = Returns x"
  shows "File_Open_ok p (qualify dir n) \<and> WriteFully_ok p (qualify dir n) buf \<and>
         snd (WriteSnapshotFile b p dir n magic buf s) =
           s\<lparr>trace := trace s @ File_Open (qualify dir n) #
                (if magic then [File_Write (qualify dir n) (magic_number p)] else []) @
                [File_Write (qualify dir n) buf, File_Close (qualify dir n)]\<rparr>"
  using assms
  by (simp add: WriteSnapshotFile_def Let_def seq_cases whenever_def abort_def
      undefined_behaviour_def return_def emit_def split: if_splits)

lemma WriteSnapshotFile_succeeds:
  assumes "File_Open_ok p (qualify dir n)" and "WriteFully_ok p (qualify dir n) buf"
  shows "fst (WriteSnapshotFile b p dir n magic buf s) = Returns ()"
  using assms
  by (simp add: WriteSnapshotFile_def Let_def seq_cases whenever_def return_def emit_def)

lemma qualify_None [simp]: "qualify None n = n" "qualify (Some []) n = n"
  by (simp_all add: qualify_def)

lemma qualify_inj [simp]: "qualify dir n = qualify dir n' \<longleftrightarrow> n = n'"
  by (simp add: qualify_def split: option.splits)

lemma GenerateScriptSnapshot_returns:
  assumes f: "snapshot_filename s = Some base"
    and r: "fst (GenerateScriptSnapshot b p run s) = Returns x"
  shows "trace (snd (GenerateScriptSnapshot b p run s)) =
           trace s @ [Engine_Call ''Dart_CreateScriptSnapshot'', File_Open base,
                      File_Write base (magic_number p),
                      File_Write base (snd (on_CreateScriptSnapshot run)), File_Close base]"
proof -
  let ?s1 = "snd (emit [Engine_Call ''Dart_CreateScriptSnapshot''] s)"
  let ?w = "WriteSnapshotFile b p None base True (snd (on_CreateScriptSnapshot run))"
  have ok: "\<not> Dart_IsError (fst (on_CreateScriptSnapshot run))"
    using r by (auto simp: GenerateScriptSnapshot_def seq_cases Let_def)
  have f1: "snapshot_filename ?s1 = Some base"
    using f by (simp add: emit_def)
  have eq: "GenerateScriptSnapshot b p run s = ?w ?s1"
    using ok f1 by (simp add: GenerateScriptSnapshot_def seq_cases Let_def with_state_def)
  from r have "fst (?w ?s1) = Returns x" by (simp add: eq)
  from WriteSnapshotFile_returns [OF this] show ?thesis
    by (simp add: eq)
qed

lemma GenerateFullSnapshot_returns:
  assumes f: "snapshot_filename s = Some base"
    and r: "fst (GenerateFullSnapshot b p run s) = Returns x"
  shows "trace (snd (GenerateFullSnapshot b p run s)) =
           trace s @ [Engine_Call ''Dart_CreateSnapshot'',
                      File_Open (base @ ''.vmisolate''),
                      File_Write (base @ ''.vmisolate'') (fst (snd (on_CreateSnapshot run))),
                      File_Close (base @ ''.vmisolate''),
                      File_Open (base @ ''.isolate''),
                      File_Write (base @ ''.isolate'') (snd (snd (on_CreateSnapshot run))),
                      File_Close (base @ ''.isolate'')]"
proof -
  let ?s1 = "snd (emit [Engine_Call ''Dart_CreateSnapshot''] s)"
  let ?w1 = "WriteSnapshotFile b p None (base @ ''.vmisolate'') False (fst (snd (on_CreateSnapshot run)))"
  let ?w2 = "WriteSnapshotFile b p None (base @ ''.isolate'') False (snd (snd (on_CreateSnapshot run)))"
  have ok: "\<not> Dart_IsError (fst (on_CreateSnapshot run))"
    using r by (auto simp: GenerateFullSnapshot_def seq_cases Let_def)
  have f1: "snapshot_filename ?s1 = Some base"
    using f by (simp add: emit_def)
  have eq: "GenerateFullSnapshot b p run s = seq ?w1 ?w2 ?s1"
    using ok f1
    by (simp add: GenerateFullSnapshot_def seq_cases [of "emit es" for es] Let_def with_state_def
        ComputeSnapshotFilenames_def kVMIsolateSuffix_def kIsolateSuffix_def)
  from r have r1: "fst (seq ?w1 ?w2 ?s1) = Returns x" by (simp add: eq)
  then obtain y where w1: "fst (?w1 ?s1) = Returns y"
    by (cases "fst (?w1 ?s1)") (simp_all add: seq_cases)
  from r1 w1 have w2: "fst (?w2 (snd (?w1 ?s1))) = Returns x"
    by (simp add: seq_cases)
  from WriteSnapshotFile_returns [OF w1] WriteSnapshotFile_returns [OF w2] w1 show ?thesis
    by (simp add: eq seq_cases)
qed

lemma precompiled_snapshot_phase_returns:
  assumes d: "precompiled_snapshot_directory s = dir"
    and r: "fst (precompiled_snapshot_phase b p run s) = Returns False"
  shows "trace (snd (precompiled_snapshot_phase b p run s)) =
           trace s @ [Engine_Call ''Dart_CreatePrecompiledSnapshot'',
                      File_Open (qualify dir ''precompiled.vmisolate''),
                      File_Write (qualify dir ''precompiled.vmisolate'')
                        (fst (snd (on_CreatePrecompiledSnapshot run))),
                      File_Close (qualify dir ''precompiled.vmisolate''),
                      File_Open (qualify dir ''precompiled.isolate''),
                      File_Write (qualify dir ''precompiled.isolate'')
                        (fst (snd (snd (on_CreatePrecompiledSnapshot run)))),
                      File_Close (qualify dir ''precompiled.isolate''),
                      File_Open (qualify dir ''precompiled.S''),
                      File_Write (qualify dir ''precompiled.S'')
                        (snd (snd (snd (on_CreatePrecompiledSnapshot run)))),
                      File_Close (qualify dir ''precompiled.S''),
                      Dart_ExitScope, Dart_ShutdownIsolate]"
proof -
  let ?s1 = "snd (emit [Engine_Call ''Dart_CreatePrecompiledSnapshot''] s)"
  let ?w1 = "WriteSnapshotFile b p dir ''precompiled.vmisolate'' False
               (fst (snd (on_CreatePrecompiledSnapshot run)))"
  let ?w2 = "WriteSnapshotFile b p dir ''precompiled.isolate'' False
               (fst (snd (snd (on_CreatePrecompiledSnapshot run))))"
  let ?w3 = "WriteSnapshotFile b p dir ''precompiled.S'' False
               (snd (snd (snd (on_CreatePrecompiledSnapshot run))))"
  have ok: "\<not> Dart_IsError (fst (on_CreatePrecompiledSnapshot run))"
    using r
    by (auto simp: precompiled_snapshot_phase_def seq_cases [of "emit es" for es] Let_def
        CHECK_RESULT_run_def return_def split: if_splits)
  have d1: "precompiled_snapshot_directory ?s1 = dir"
    using d by (simp add: emit_def)
  have eq: "precompiled_snapshot_phase b p run s = seq ?w1 (seq ?w2 (seq ?w3 shutdown_isolate)) ?s1"
    using ok d1
    by (simp add: precompiled_snapshot_phase_def seq_cases [of "emit es" for es] Let_def
        with_state_def CHECK_RESULT_run_def kPrecompiledVmIsolateName_def
        kPrecompiledIsolateName_def kPrecompiledInstructionsName_def)
  from r have r1: "fst (seq ?w1 (seq ?w2 (seq ?w3 shutdown_isolate)) ?s1) = Returns False"
    by (simp add: eq)
  then obtain y1 where w1: "fst (?w1 ?s1) = Returns y1"
    by (cases "fst (?w1 ?s1)") (simp_all add: seq_cases [of ?w1])
  let ?s2 = "snd (?w1 ?s1)"
  from r1 w1 have r2: "fst (seq ?w2 (seq ?w3 shutdown_isolate) ?s2) = Returns False"
    by (simp add: seq_cases [of ?w1])
  then obtain y2 where w2: "fst (?w2 ?s2) = Returns y2"
    by (cases "fst (?w2 ?s2)") (simp_all add: seq_cases [of ?w2])
  let ?s3 = "snd (?w2 ?s2)"
  from r2 w2 have r3: "fst (seq ?w3 shutdown_isolate ?s3) = Returns False"
    by (simp add: seq_cases [of ?w2])
  then obtain y3 where w3: "fst (?w3 ?s3) = Returns y3"
    by (cases "fst (?w3 ?s3)") (simp_all add: seq_cases [of ?w3])
  have tr: "trace (snd (precompiled_snapshot_phase b p run s)) =
              trace (snd (?w3 ?s3)) @ [Dart_ExitScope, Dart_ShutdownIsolate]"
    using w1 w2 w3
    by (simp add: eq seq_cases [of ?w1] seq_cases [of ?w2] seq_cases [of ?w3]
        shutdown_isolate_def seq_cases [of "emit es" for es] return_def)
  from WriteSnapshotFile_returns [OF w1] WriteSnapshotFile_returns [OF w2]
    WriteSnapshotFile_returns [OF w3] show ?thesis
    by (simp add: tr)
qed

lemma written_fresh:
  "written f (tr @ File_Open f # es) = foldl (file_step f) [] es"
  by (simp add: written_def file_step_def)

lemma written_other:
  "\<forall>e \<in> set es. file_step f c e = c \<Longrightarrow> foldl (file_step f) c es = c"
  by (induction es) simp_all

text \<open>
  C6. When \<^verbatim>\<open>GenerateScriptSnapshot\<close> returns, it has opened the snapshot file of the command
  line and written the magic number of \<^verbatim>\<open>DartUtils::WriteMagicNumber\<close> and then the one buffer
  of the engine: the file holds the magic number followed by the buffer, so that with a
  magic number of four bytes the buffer starts at the fifth byte. When
  \<^verbatim>\<open>GenerateFullSnapshot\<close> returns, it has written the two buffers of the engine, each alone,
  to \<^verbatim>\<open><base>.vmisolate\<close> and \<^verbatim>\<open><base>.isolate\<close>, where \<^verbatim>\<open><base>\<close> is the snapshot file name of the
  command line. When the precompiled snapshot is generated and \<^verbatim>\<open>RunMainIsolate\<close> goes on to
  its end, the three buffers of the engine have been written, each alone, to
  \<^verbatim>\<open>precompiled.vmisolate\<close>, \<^verbatim>\<open>precompiled.isolate\<close> and \<^verbatim>\<open>precompiled.S\<close>; these names are taken
  as they are when the option names no directory, and inside that directory otherwise.
\<close>

theorem C6_snapshot_formats:
  "(snapshot_filename s = Some base \<and> fst (GenerateScriptSnapshot b p run s) = Returns () \<longrightarrow>
      trace (snd (GenerateScriptSnapshot b p run s)) =
        trace s @ [Engine_Call ''Dart_CreateScriptSnapshot'', File_Open base,
                   File_Write base (magic_number p),
                   File_Write base (snd (on_CreateScriptSnapshot run)), File_Close base] \<and>
      written base (trace (snd (GenerateScriptSnapshot b p run s))) =
        magic_number p @ snd (on_CreateScriptSnapshot run) \<and>
      (length (magic_number p) = 4 \<longrightarrow>
         take 4 (written base (trace (snd (GenerateScriptSnapshot b p run s)))) = magic_number p \<and>
         drop 4 (written base (trace (snd (GenerateScriptSnapshot b p run s)))) =
           snd (on_CreateScriptSnapshot run)))
 \<and> (snapshot_filename s = Some base \<and> fst (GenerateFullSnapshot b p run s) = Returns () \<longrightarrow>
      trace (snd (GenerateFullSnapshot b p run s)) =
        trace s @ [Engine_Call ''Dart_CreateSnapshot'',
                   File_Open (base @ ''.vmisolate''),
                   File_Write (base @ ''.vmisolate'') (fst (snd (on_CreateSnapshot run))),
                   File_Close (base @ ''.vmisolate''),
                   File_Open (base @ ''.isolate''),
                   File_Write (base @ ''.isolate'') (snd (snd (on_CreateSnapshot run))),
                   File_Close (base @ ''.isolate'')] \<and>
      written (base @ ''.vmisolate'') (trace (snd (GenerateFullSnapshot b p run s))) =
        fst (snd (on_CreateSnapshot run)) \<and>
      written (base @ ''.isolate'') (trace (snd (GenerateFullSnapshot b p run s))) =
        snd (snd (on_CreateSnapshot run)))
 \<and> (precompiled_snapshot_directory s = dir \<and>
     fst (precompiled_snapshot_phase b p run s) = Returns False \<longrightarrow>
      trace (snd (precompiled_snapshot_phase b p run s)) =
        trace s @ [Engine_Call ''Dart_CreatePrecompiledSnapshot'',
                   File_Open (qualify dir ''precompiled.vmisolate''),
                   File_Write (qualify dir ''precompiled.vmisolate'')
                     (fst (snd (on_CreatePrecompiledSnapshot run))),
                   File_Close (qualify dir ''precompiled.vmisolate''),
                   File_Open (qualify dir ''precompiled.isolate''),
                   File_Write (qualify dir ''precompiled.isolate'')
                     (fst (snd (snd (on_CreatePrecompiledSnapshot run)))),
                   File_Close (qualify dir ''precompiled.isolate''),
                   File_Open (qualify dir ''precompiled.S''),
                   File_Write (qualify dir ''precompiled.S'')
                     (snd (snd (snd (on_CreatePrecompiledSnapshot run)))),
                   File_Close (qualify dir ''precompiled.S''),
                   Dart_ExitScope, Dart_ShutdownIsolate] \<and>
      written (qualify dir ''precompiled.vmisolate'')
          (trace (snd (precompiled_snapshot_phase b p run s))) =
        fst (snd (on_CreatePrecompiledSnapshot run)) \<and>
      written (qualify dir ''precompiled.isolate'')
          (trace (snd (precompiled_snapshot_phase b p run s))) =
        fst (snd (snd (on_CreatePrecompiledSnapshot run))) \<and>
      written (qualify dir ''precompiled.S'')
          (trace (snd (precompiled_snapshot_phase b p run s))) =
        snd (snd (snd (on_CreatePrecompiledSnapshot run))))
 \<and> (\<forall>n. qualify None n = n \<and> qualify (Some []) n = n \<and>
          (\<forall>d. d \<noteq> [] \<longrightarrow> qualify (Some d) n = d @ ''/'' @ n))"
proof (intro conjI impI allI)
  assume a: "snapshot_filename s = Some base \<and> fst (GenerateScriptSnapshot b p run s) = Returns ()"
  note t = GenerateScriptSnapshot_returns [OF conjunct1 [OF a] conjunct2 [OF a]]
  show "trace (snd (GenerateScriptSnapshot b p run s)) =
        trace s @ [Engine_Call ''Dart_CreateScriptSnapshot'', File_Open base,
                   File_Write base (magic_number p),
                   File_Write base (snd (on_CreateScriptSnapshot run)), File_Close base]"
    by (rule t)
  show w: "written base (trace (snd (GenerateScriptSnapshot b p run s))) =
        magic_number p @ snd (on_CreateScriptSnapshot run)"
    by (simp add: t written_def file_step_def)
  assume "length (magic_number p) = 4"
  then show "take 4 (written base (trace (snd (GenerateScriptSnapshot b p run s)))) = magic_number p"
    and "drop 4 (written base (trace (snd (GenerateScriptSnapshot b p run s)))) =
           snd (on_CreateScriptSnapshot run)"
    by (simp_all add: w)
next
  assume a: "snapshot_filename s = Some base \<and> fst (GenerateFullSnapshot b p run s) = Returns ()"
  note t = GenerateFullSnapshot_returns [OF conjunct1 [OF a] conjunct2 [OF a]]
  show "trace (snd (GenerateFullSnapshot b p run s)) =
        trace s @ [Engine_Call ''Dart_CreateSnapshot'',
                   File_Open (base @ ''.vmisolate''),
                   File_Write (base @ ''.vmisolate'') (fst (snd (on_CreateSnapshot run))),
                   File_Close (base @ ''.vmisolate''),
                   File_Open (base @ ''.isolate''),
                   File_Write (base @ ''.isolate'') (snd (snd (on_CreateSnapshot run))),
                   File_Close (base @ ''.isolate'')]"
    by (rule t)
  show "written (base @ ''.vmisolate'') (trace (snd (GenerateFullSnapshot b p run s))) =
        fst (snd (on_CreateSnapshot run))"
    by (simp add: t written_def file_step_def)
  show "written (base @ ''.isolate'') (trace (snd (GenerateFullSnapshot b p run s))) =
        snd (snd (on_CreateSnapshot run))"
    by (simp add: t written_def file_step_def)
next
  assume a: "precompiled_snapshot_directory s = dir \<and>
     fst (precompiled_snapshot_phase b p run s) = Returns False"
  note t = precompiled_snapshot_phase_returns [OF conjunct1 [OF a] conjunct2 [OF a]]
  show "trace (snd (precompiled_snapshot_phase b p run s)) =
        trace s @ [Engine_Call ''Dart_CreatePrecompiledSnapshot'',
                   File_Open (qualify dir ''precompiled.vmisolate''),
                   File_Write (qualify dir ''precompiled.vmisolate'')
                     (fst (snd (on_CreatePrecompiledSnapshot run))),
                   File_Close (qualify dir ''precompiled.vmisolate''),
                   File_Open (qualify dir ''precompiled.isolate''),
                   File_Write (qualify dir ''precompiled.isolate'')
                     (fst (snd (snd (on_CreatePrecompiledSnapshot run)))),
                   File_Close (qualify dir ''precompiled.isolate''),
                   File_Open (qualify dir ''precompiled.S''),
                   File_Write (qualify dir ''precompiled.S'')
                     (snd (snd (snd (on_CreatePrecompiledSnapshot run)))),
                   File_Close (qualify dir ''precompiled.S''),
                   Dart_ExitScope, Dart_ShutdownIsolate]"
    by (rule t)
  show "written (qualify dir ''precompiled.vmisolate'')
          (trace (snd (precompiled_snapshot_phase b p run s))) =
        fst (snd (on_CreatePrecompiledSnapshot run))"
    by (simp add: t written_def file_step_def)
  show "written (qualify dir ''precompiled.isolate'')
          (trace (snd (precompiled_snapshot_phase b p run s))) =
        fst (snd (snd (on_CreatePrecompiledSnapshot run)))"
    by (simp add: t written_def file_step_def)
  show "written (qualify dir ''precompiled.S'')
          (trace (snd (precompiled_snapshot_phase b p run s))) =
        snd (snd (snd (on_CreatePrecompiledSnapshot run)))"
    by (simp add: t written_def file_step_def)
next
  fix n d
  show "qualify None n = n" "qualify (Some []) n = n" by simp_all
  assume "d \<noteq> ([] :: string)"
  then show "qualify (Some d) n = d @ ''/'' @ n" by (simp add: qualify_def)
qed

lemma snapshot_examples:
  "snapshot_filename script_snapshot_example = Some ''out.snapshot''"
  "generate_script_snapshot script_snapshot_example"
  "trace script_snapshot_example = []"
  "fst (GenerateScriptSnapshot dart example_platform normal_run script_snapshot_example) = Returns ()"
  "snapshot_filename full_snapshot_example = Some ''app''"
  "generate_full_snapshot_after_run full_snapshot_example"
  "trace full_snapshot_example = []"
  "fst (GenerateFullSnapshot dart_bootstrap example_platform normal_run full_snapshot_example) = Returns ()"
  "precompiled_snapshot_directory precompiled_snapshot_example = Some ''out''"
  "gen_precompiled_snapshot precompiled_snapshot_example"
  "trace precompiled_snapshot_example = []"
  "fst (precompiled_snapshot_phase dart_bootstrap example_platform normal_run
          precompiled_snapshot_example) = Returns False"
  by code_simp+

lemma example_fields:
  "magic_number example_platform = [0xf5, 0xf5, 0xdc, 0xdc]"
  "on_CreateScriptSnapshot normal_run = (ok_handle, [10, 11, 12])"
  "on_CreatePrecompiledSnapshot normal_run = (ok_handle, [20, 21], [22, 23], [24, 25])"
  "on_CreateSnapshot normal_run = (ok_handle, [30, 31], [32, 33])"
  by (simp_all add: example_platform_def normal_run_def)

theorem C6_snapshot_formats_witness:
  "written ''out.snapshot''
     (trace (snd (GenerateScriptSnapshot dart example_platform normal_run script_snapshot_example))) =
     [0xf5, 0xf5, 0xdc, 0xdc, 10, 11, 12]
 \<and> trace (snd (GenerateFullSnapshot dart_bootstrap example_platform normal_run
                 full_snapshot_example)) =
     [Engine_Call ''Dart_CreateSnapshot'',
      File_Open ''app.vmisolate'', File_Write ''app.vmisolate'' [30, 31], File_Close ''app.vmisolate'',
      File_Open ''app.isolate'', File_Write ''app.isolate'' [32, 33], File_Close ''app.isolate'']
 \<and> written ''out/precompiled.S''
     (trace (snd (precompiled_snapshot_phase dart_bootstrap example_platform normal_run
                    precompiled_snapshot_example))) = [24, 25]"
proof -
  note a = C6_snapshot_formats [of script_snapshot_example "''out.snapshot''" dart example_platform
      normal_run "Some ''out''"]
  note b = C6_snapshot_formats [of full_snapshot_example "''app''" dart_bootstrap example_platform
      normal_run "Some ''out''"]
  note c = C6_snapshot_formats [of precompiled_snapshot_example "''app''" dart_bootstrap
      example_platform normal_run "Some ''out''"]
  from a have "written ''out.snapshot''
     (trace (snd (GenerateScriptSnapshot dart example_platform normal_run script_snapshot_example))) =
     [0xf5, 0xf5, 0xdc, 0xdc, 10, 11, 12]"
    by (simp add: snapshot_examples example_fields written_def file_step_def)
  moreover from b have "trace (snd (GenerateFullSnapshot dart_bootstrap example_platform normal_run
                 full_snapshot_example)) =
     [Engine_Call ''Dart_CreateSnapshot'',
      File_Open ''app.vmisolate'', File_Write ''app.vmisolate'' [30, 31], File_Close ''app.vmisolate'',
      File_Open ''app.isolate'', File_Write ''app.isolate'' [32, 33], File_Close ''app.isolate'']"
    by (simp add: snapshot_examples example_fields written_def file_step_def)
  moreover from c have "written ''out/precompiled.S''
     (trace (snd (precompiled_snapshot_phase dart_bootstrap example_platform normal_run
                    precompiled_snapshot_example))) = [24, 25]"
    by (simp add: snapshot_examples example_fields qualify_def written_def file_step_def)
  ultimately show ?thesis by simp
qed

lemma addsD: "adds P m \<Longrightarrow> \<exists>es. trace (snd (m s)) = trace s @ es \<and> list_all P es"
  by (simp add: adds_def)

lemma adds_emit: "list_all P es \<Longrightarrow> adds P (emit es)"
  by (simp add: adds_def)

lemma adds_nothing [simp]:
  "adds P (return x)" "adds P (print_err msg)" "adds P (Platform_Exit c)" "adds P (abort a)"
  "adds P (undefined_behaviour u)"
  by (simp_all add: adds_def action_defs)

lemma adds_andthen:
  assumes m: "adds P m" and f: "\<And>x. adds P (f x)"
  shows "adds P (andthen m f)"
  unfolding adds_def
proof
  fix s
  from addsD [OF m, of s] obtain es where es: "trace (snd (m s)) = trace s @ es" "list_all P es"
    by blast
  show "\<exists>es. trace (snd (andthen m f s)) = trace s @ es \<and> list_all P es"
  proof (cases "fst (m s)")
    case (Returns x)
    from addsD [OF f, of x "snd (m s)"] obtain es'
      where es': "trace (snd (f x (snd (m s)))) = trace (snd (m s)) @ es'" "list_all P es'"
      by blast
    have "andthen m f s = f x (snd (m s))"
      using Returns by (cases "m s") (simp add: andthen_def)
    with es es' have "trace (snd (andthen m f s)) = trace s @ (es @ es') \<and> list_all P (es @ es')"
      by simp
    then show ?thesis by blast
  next
    case (Exits n)
    then have "snd (andthen m f s) = snd (m s)" by (cases "m s") (simp add: andthen_def)
    with es show ?thesis by auto
  next
    case (Aborts a)
    then have "snd (andthen m f s) = snd (m s)" by (cases "m s") (simp add: andthen_def)
    with es show ?thesis by auto
  next
    case (Undefined u)
    then have "snd (andthen m f s) = snd (m s)" by (cases "m s") (simp add: andthen_def)
    with es show ?thesis by auto
  qed
qed

lemma adds_seq: "adds P m \<Longrightarrow> adds P k \<Longrightarrow> adds P (seq m k)"
  by (simp add: seq_def adds_andthen)

lemma adds_with_state: "(\<And>s. adds P (f s)) \<Longrightarrow> adds P (with_state f)"
  by (simp add: adds_def with_state_def)

lemma adds_whenever: "adds P m \<Longrightarrow> adds P (whenever c m)"
  by (simp add: whenever_def)

lemma adds_cleanup: "P Dart_Cleanup \<Longrightarrow> adds P (cleanup p)"
  by (auto simp: cleanup_def intro!: adds_seq adds_emit split: option.splits)

lemma adds_stop_event_handler: "P (Engine_Call ''EventHandler::Stop'') \<Longrightarrow> adds P stop_event_handler"
  by (auto simp: stop_event_handler_def intro!: adds_with_state adds_whenever adds_emit)

lemma adds_ErrorExit:
  assumes "P Dart_ExitScope" "P Dart_ShutdownIsolate" "P Dart_Cleanup"
    "P (Engine_Call ''Process::TerminateExitCodeHandler'')" "P (Engine_Call ''EventHandler::Stop'')"
  shows "adds P (ErrorExit p c msg)"
  unfolding ErrorExit_def
  by (intro adds_seq adds_emit adds_cleanup adds_stop_event_handler adds_nothing) (simp_all add: assms)

lemma adds_CHECK_RESULT_run:
  assumes "P Dart_ExitScope" "P Dart_ShutdownIsolate" "P Dart_Cleanup"
    "P (Engine_Call ''Process::TerminateExitCodeHandler'')" "P (Engine_Call ''EventHandler::Stop'')"
    and k: "adds P k"
  shows "adds P (CHECK_RESULT_run p result k)"
  using k by (simp add: CHECK_RESULT_run_def adds_ErrorExit assms adds_seq adds_emit)

lemma adds_shutdown_isolate:
  "P Dart_ExitScope \<Longrightarrow> P Dart_ShutdownIsolate \<Longrightarrow> adds P shutdown_isolate"
  by (simp add: shutdown_isolate_def adds_seq adds_emit)

text \<open>The end of a bootstrap after the message loop: it serialises nothing and touches no file.\<close>

lemma adds_end_of_run:
  "adds (\<lambda>e. \<not> file_event e \<and> e \<noteq> Engine_Call ''Dart_CreateSnapshot'')
     (CHECK_RESULT_run p result shutdown_isolate)"
  by (intro adds_CHECK_RESULT_run adds_shutdown_isolate) (simp_all add: file_event_def)

lemma adds_WriteSnapshotFile:
  "adds (\<lambda>e. e \<noteq> Engine_Call ''Dart_CreateSnapshot'') (WriteSnapshotFile b p dir n magic buf)"
  by (simp add: WriteSnapshotFile_def Let_def adds_seq adds_emit adds_whenever adds_ErrorExit)

lemma seq_assoc: "seq (seq a k) c = seq a (seq k c)"
  by (rule ext) (simp add: seq_def andthen_def split: prod.splits outcome.splits)

lemma list_all_count_0: "list_all (\<lambda>e. e \<noteq> x) es \<Longrightarrow> count_list es x = 0"
  by (induction es) auto

lemma list_all_no_file_events: "list_all (\<lambda>e. \<not> file_event e) es \<Longrightarrow> filter file_event es = []"
  by (induction es) auto

lemma GenerateFullSnapshot_succeeds:
  assumes "snapshot_filename s = Some base"
    and "\<not> Dart_IsError (fst (on_CreateSnapshot run))"
    and "File_Open_ok p (base @ ''.vmisolate'')"
    and "WriteFully_ok p (base @ ''.vmisolate'') (fst (snd (on_CreateSnapshot run)))"
    and "File_Open_ok p (base @ ''.isolate'')"
    and "WriteFully_ok p (base @ ''.isolate'') (snd (snd (on_CreateSnapshot run)))"
  shows "fst (GenerateFullSnapshot b p run s) = Returns ()"
proof -
  let ?s1 = "snd (emit [Engine_Call ''Dart_CreateSnapshot''] s)"
  let ?w1 = "WriteSnapshotFile b p None (base @ ''.vmisolate'') False (fst (snd (on_CreateSnapshot run)))"
  let ?w2 = "WriteSnapshotFile b p None (base @ ''.isolate'') False (snd (snd (on_CreateSnapshot run)))"
  have f1: "snapshot_filename ?s1 = Some base"
    using assms(1) by (simp add: emit_def)
  have eq: "GenerateFullSnapshot b p run s = seq ?w1 ?w2 ?s1"
    using assms(2) f1
    by (simp add: GenerateFullSnapshot_def seq_cases [of "emit es" for es] Let_def with_state_def
        ComputeSnapshotFilenames_def kVMIsolateSuffix_def kIsolateSuffix_def)
  have w1: "fst (?w1 ?s1) = Returns ()"
    using assms(3,4) by (simp add: WriteSnapshotFile_succeeds)
  have w2: "fst (?w2 (snd (?w1 ?s1))) = Returns ()"
    using assms(5,6) by (simp add: WriteSnapshotFile_succeeds)
  show ?thesis
    by (simp add: eq seq_cases [of ?w1] w1 w2)
qed

lemma after_serialisation:
  assumes k: "adds (\<lambda>e. e \<noteq> Engine_Call ''Dart_CreateSnapshot'') k"
  shows "serialisations (trace (snd (seq (GenerateFullSnapshot b p run) k s))) =
         Suc (serialisations (trace s))"
proof -
  define body where "body =
    (let result = fst (on_CreateSnapshot run);
         vm_isolate_buffer = fst (snd (on_CreateSnapshot run));
         isolate_buffer = snd (snd (on_CreateSnapshot run)) in
     if Dart_IsError result then ErrorExit p kErrorExitCode (Dart_GetError result @ ''\<newline>'')
     else with_state (\<lambda>s.
       (let names = ComputeSnapshotFilenames (the (snapshot_filename s)) in
        seq (WriteSnapshotFile b p None (fst names) False vm_isolate_buffer)
            (WriteSnapshotFile b p None (snd names) False isolate_buffer))))"
  have g: "GenerateFullSnapshot b p run = seq (emit [Engine_Call ''Dart_CreateSnapshot'']) body"
    by (simp add: GenerateFullSnapshot_def body_def)
  have "adds (\<lambda>e. e \<noteq> Engine_Call ''Dart_CreateSnapshot'') body"
    by (simp add: body_def Let_def adds_ErrorExit adds_with_state adds_seq adds_WriteSnapshotFile)
  from this k have "adds (\<lambda>e. e \<noteq> Engine_Call ''Dart_CreateSnapshot'') (seq body k)"
    by (rule adds_seq)
  from addsD [OF this, of "snd (emit [Engine_Call ''Dart_CreateSnapshot''] s)"]
  obtain es where es:
    "trace (snd (seq body k (snd (emit [Engine_Call ''Dart_CreateSnapshot''] s)))) =
       trace (snd (emit [Engine_Call ''Dart_CreateSnapshot''] s)) @ es"
    "list_all (\<lambda>e. e \<noteq> Engine_Call ''Dart_CreateSnapshot'') es"
    by blast
  have "seq (GenerateFullSnapshot b p run) k s =
        seq body k (snd (emit [Engine_Call ''Dart_CreateSnapshot''] s))"
    by (simp add: g seq_assoc seq_cases [of "emit es" for es])
  with es show ?thesis
    by (simp add: serialisations_def list_all_count_0)
qed

lemma end_of_run_events:
  "serialisations (trace (snd (CHECK_RESULT_run p result shutdown_isolate s))) =
     serialisations (trace s)"
  "file_events (trace (snd (CHECK_RESULT_run p result shutdown_isolate s))) = file_events (trace s)"
proof -
  from addsD [OF adds_end_of_run, of p result s] obtain es
    where es: "trace (snd (CHECK_RESULT_run p result shutdown_isolate s)) = trace s @ es"
      "list_all (\<lambda>e. \<not> file_event e \<and> e \<noteq> Engine_Call ''Dart_CreateSnapshot'') es"
    by blast
  from es(2) have "list_all (\<lambda>e. e \<noteq> Engine_Call ''Dart_CreateSnapshot'') es"
    and "list_all (\<lambda>e. \<not> file_event e) es"
    by (simp_all add: list_all_iff)
  with es(1) show
    "serialisations (trace (snd (CHECK_RESULT_run p result shutdown_isolate s))) =
       serialisations (trace s)"
    "file_events (trace (snd (CHECK_RESULT_run p result shutdown_isolate s))) = file_events (trace s)"
    by (simp_all add: serialisations_def file_events_def list_all_count_0 list_all_no_file_events)
qed

text \<open>
  C5, as the code has it. With \<^verbatim>\<open>generate_full_snapshot_after_run\<close> set, what follows the
  return of \<^verbatim>\<open>Dart_RunLoop\<close> asks the engine for a full snapshot, once, if and only if the
  result of the loop is neither a compilation error nor a restart request. When the result
  is one of the two, no file is touched. When it is neither, and the engine reports no
  error for the snapshot, and both files can be opened and written in full, the two
  snapshot files are written, and no other file.
\<close>

theorem C5_full_snapshot_after_run:
  assumes mode: "generate_full_snapshot_after_run s"
  shows "serialisations (trace (snd (after_RunLoop b p run result s))) =
           serialisations (trace s) +
           (if \<not> Dart_IsCompilationError result \<and> \<not> Dart_IsVMRestartRequest result then 1 else 0)
       \<and> (Dart_IsCompilationError result \<or> Dart_IsVMRestartRequest result \<longrightarrow>
            file_events (trace (snd (after_RunLoop b p run result s))) = file_events (trace s))
       \<and> (\<not> Dart_IsCompilationError result \<and> \<not> Dart_IsVMRestartRequest result \<and>
          snapshot_filename s = Some base \<and>
          \<not> Dart_IsError (fst (on_CreateSnapshot run)) \<and>
          File_Open_ok p (base @ ''.vmisolate'') \<and>
          WriteFully_ok p (base @ ''.vmisolate'') (fst (snd (on_CreateSnapshot run))) \<and>
          File_Open_ok p (base @ ''.isolate'') \<and>
          WriteFully_ok p (base @ ''.isolate'') (snd (snd (on_CreateSnapshot run))) \<longrightarrow>
            file_events (trace (snd (after_RunLoop b p run result s))) =
              file_events (trace s) @
              [File_Open (base @ ''.vmisolate''),
               File_Write (base @ ''.vmisolate'') (fst (snd (on_CreateSnapshot run))),
               File_Close (base @ ''.vmisolate''),
               File_Open (base @ ''.isolate''),
               File_Write (base @ ''.isolate'') (snd (snd (on_CreateSnapshot run))),
               File_Close (base @ ''.isolate'')])"
proof (cases "\<not> Dart_IsCompilationError result \<and> \<not> Dart_IsVMRestartRequest result")
  case False
  then have "after_RunLoop b p run result s = CHECK_RESULT_run p result shutdown_isolate s"
    using mode by (auto simp: after_RunLoop_def with_state_def seq_cases return_def)
  with False show ?thesis
    by (auto simp: end_of_run_events)
next
  case True
  have eq: "after_RunLoop b p run result s =
            seq (GenerateFullSnapshot b p run) (CHECK_RESULT_run p result shutdown_isolate) s"
    using True mode by (simp add: after_RunLoop_def with_state_def)
  have "adds (\<lambda>e. e \<noteq> Engine_Call ''Dart_CreateSnapshot'')
          (CHECK_RESULT_run p result shutdown_isolate)"
    by (intro adds_CHECK_RESULT_run adds_shutdown_isolate) simp_all
  from after_serialisation [OF this] have one:
    "serialisations (trace (snd (after_RunLoop b p run result s))) = Suc (serialisations (trace s))"
    by (simp add: eq)
  have files: "file_events (trace (snd (after_RunLoop b p run result s))) =
              file_events (trace s) @
              [File_Open (base @ ''.vmisolate''),
               File_Write (base @ ''.vmisolate'') (fst (snd (on_CreateSnapshot run))),
               File_Close (base @ ''.vmisolate''),
               File_Open (base @ ''.isolate''),
               File_Write (base @ ''.isolate'') (snd (snd (on_CreateSnapshot run))),
               File_Close (base @ ''.isolate'')]"
    if f: "snapshot_filename s = Some base"
      and ok: "\<not> Dart_IsError (fst (on_CreateSnapshot run))"
        "File_Open_ok p (base @ ''.vmisolate'')"
        "WriteFully_ok p (base @ ''.vmisolate'') (fst (snd (on_CreateSnapshot run)))"
        "File_Open_ok p (base @ ''.isolate'')"
        "WriteFully_ok p (base @ ''.isolate'') (snd (snd (on_CreateSnapshot run)))"
  proof -
    have r: "fst (GenerateFullSnapshot b p run s) = Returns ()"
      using f ok by (rule GenerateFullSnapshot_succeeds)
    have "after_RunLoop b p run result s =
          CHECK_RESULT_run p result shutdown_isolate (snd (GenerateFullSnapshot b p run s))"
      by (simp add: eq seq_cases [of "GenerateFullSnapshot b p run"] r)
    then have "file_events (trace (snd (after_RunLoop b p run result s))) =
               file_events (trace (snd (GenerateFullSnapshot b p run s)))"
      by (simp add: end_of_run_events)
    then show ?thesis
      by (simp add: GenerateFullSnapshot_returns [OF f r] file_events_def file_event_def)
  qed
  from True one files show ?thesis
    by simp
qed

lemma full_snapshot_after_run_example:
  "generate_full_snapshot_after_run full_snapshot_example"
  "snapshot_filename full_snapshot_example = Some ''app''"
  "trace full_snapshot_example = []"
  by code_simp+

theorem C5_full_snapshot_after_run_witness:
  "file_events (trace (snd (after_RunLoop dart_bootstrap example_platform normal_run ok_handle
                              full_snapshot_example))) =
     [File_Open ''app.vmisolate'', File_Write ''app.vmisolate'' [30, 31], File_Close ''app.vmisolate'',
      File_Open ''app.isolate'', File_Write ''app.isolate'' [32, 33], File_Close ''app.isolate'']
 \<and> serialisations (trace (snd (after_RunLoop dart_bootstrap example_platform normal_run ok_handle
                              full_snapshot_example))) = 1
 \<and> file_events (trace (snd (after_RunLoop dart_bootstrap example_platform normal_run
                              compilation_error full_snapshot_example))) = []
 \<and> serialisations (trace (snd (after_RunLoop dart_bootstrap example_platform normal_run
                              restart_request full_snapshot_example))) = 0"
proof -
  have fields: "File_Open_ok example_platform = (\<lambda>_. True)"
    "WriteFully_ok example_platform = (\<lambda>_ _. True)"
    "\<not> Dart_IsError ok_handle" "\<not> Dart_IsCompilationError ok_handle"
    "\<not> Dart_IsVMRestartRequest ok_handle"
    "Dart_IsCompilationError compilation_error" "Dart_IsVMRestartRequest restart_request"
    by (simp_all add: example_platform_def ok_handle_def compilation_error_def restart_request_def)
  note ex = full_snapshot_after_run_example
  from C5_full_snapshot_after_run [OF ex(1), of dart_bootstrap example_platform normal_run
      ok_handle "''app''"]
  have a: "file_events (trace (snd (after_RunLoop dart_bootstrap example_platform normal_run ok_handle
                              full_snapshot_example))) =
     [File_Open ''app.vmisolate'', File_Write ''app.vmisolate'' [30, 31], File_Close ''app.vmisolate'',
      File_Open ''app.isolate'', File_Write ''app.isolate'' [32, 33], File_Close ''app.isolate'']"
    and b: "serialisations (trace (snd (after_RunLoop dart_bootstrap example_platform normal_run ok_handle
                              full_snapshot_example))) = 1"
    by (simp_all add: ex fields example_fields file_events_def serialisations_def)
  from C5_full_snapshot_after_run [OF ex(1), of dart_bootstrap example_platform normal_run
      compilation_error "''app''"]
  have c: "file_events (trace (snd (after_RunLoop dart_bootstrap example_platform normal_run
                              compilation_error full_snapshot_example))) = []"
    by (simp add: ex fields file_events_def)
  from C5_full_snapshot_after_run [OF ex(1), of dart_bootstrap example_platform normal_run
      restart_request "''app''"]
  have d: "serialisations (trace (snd (after_RunLoop dart_bootstrap example_platform normal_run
                              restart_request full_snapshot_example))) = 0"
    by (simp add: ex fields serialisations_def)
  from a b c d show ?thesis by simp
qed

text \<open>
  C5 as stated fails: the result of the loop is neither a compilation error nor a restart
  request, and no snapshot file is written, because \<^verbatim>\<open>Dart_CreateSnapshot\<close> reports an error
  and the process ends with the exit code 255.
\<close>

theorem C5_counterexample:
  "generate_full_snapshot_after_run full_snapshot_example
 \<and> \<not> Dart_IsCompilationError ok_handle \<and> \<not> Dart_IsVMRestartRequest ok_handle
 \<and> file_events (trace (snd (after_RunLoop dart_bootstrap example_platform
       (normal_run\<lparr>on_CreateSnapshot :=
          (ok_handle\<lparr>Dart_IsError := True, Dart_IsApiError := True,
                      Dart_GetError := ''Isolate has unfinished work''\<rparr>, [], [])\<rparr>)
       ok_handle full_snapshot_example))) = []
 \<and> fst (after_RunLoop dart_bootstrap example_platform
       (normal_run\<lparr>on_CreateSnapshot :=
          (ok_handle\<lparr>Dart_IsError := True, Dart_IsApiError := True,
                      Dart_GetError := ''Isolate has unfinished work''\<rparr>, [], [])\<rparr>)
       ok_handle full_snapshot_example) = Exits 255"
  by code_simp

subsection \<open>Failures of the snapshot files\<close>

text \<open>
  C4. \<^verbatim>\<open>WriteSnapshotFile\<close> ends the process with the exit code 255 when the file is not
  written in full, and so do \<^verbatim>\<open>ReadSnapshotFile\<close> when the file cannot be opened or read and
  \<^verbatim>\<open>LoadLibrarySymbol\<close> when the library or the symbol is missing. When the file cannot be
  opened for writing, \<^verbatim>\<open>WriteSnapshotFile\<close> has only \<^verbatim>\<open>ASSERT(file != NULL)\<close>: a \<open>DEBUG\<close>
  build stops at the assertion, and any other build calls \<^verbatim>\<open>WriteFully\<close> on the null pointer.
\<close>

theorem C4_snapshot_file_failures:
  "(\<not> File_Open_ok p (qualify dir n) \<longrightarrow>
      WriteSnapshotFile b p dir n magic buf s =
        ((if DEBUG b then Aborts ''file != NULL'' else Undefined ''file is NULL''), s))
 \<and> (File_Open_ok p (qualify dir n) \<and> \<not> WriteFully_ok p (qualify dir n) buf \<longrightarrow>
      fst (WriteSnapshotFile b p dir n magic buf s) = Exits 255)
 \<and> (\<not> OpenFile_ok p (qualify dir n) \<longrightarrow> fst (ReadSnapshotFile p dir n s) = Exits 255)
 \<and> (OpenFile_ok p (qualify dir n) \<and>
     (fst (ReadFile p (qualify dir n)) = None \<or> snd (ReadFile p (qualify dir n)) = - 1) \<longrightarrow>
      fst (ReadSnapshotFile p dir n s) = Exits 255)
 \<and> (\<not> LoadExtensionLibrary_ok p (qualify dir lib) \<or>
     ResolveSymbol p (qualify dir lib) symname = None \<longrightarrow>
      fst (LoadLibrarySymbol p dir lib symname s) = Exits 255)"
proof (intro conjI impI)
  assume "\<not> File_Open_ok p (qualify dir n)"
  then show "WriteSnapshotFile b p dir n magic buf s =
        ((if DEBUG b then Aborts ''file != NULL'' else Undefined ''file is NULL''), s)"
    by (simp add: WriteSnapshotFile_def abort_def undefined_behaviour_def)
next
  assume "File_Open_ok p (qualify dir n) \<and> \<not> WriteFully_ok p (qualify dir n) buf"
  then show "fst (WriteSnapshotFile b p dir n magic buf s) = Exits 255"
    by (simp add: WriteSnapshotFile_def Let_def seq_cases whenever_def return_def
        kErrorExitCode_def)
next
  assume "\<not> OpenFile_ok p (qualify dir n)"
  then show "fst (ReadSnapshotFile p dir n s) = Exits 255"
    by (simp add: ReadSnapshotFile_def action_defs kErrorExitCode_def)
next
  assume "OpenFile_ok p (qualify dir n) \<and>
     (fst (ReadFile p (qualify dir n)) = None \<or> snd (ReadFile p (qualify dir n)) = - 1)"
  then show "fst (ReadSnapshotFile p dir n s) = Exits 255"
    by (cases "ReadFile p (qualify dir n)")
       (auto simp: ReadSnapshotFile_def Let_def action_defs kErrorExitCode_def split: option.splits)
next
  assume "\<not> LoadExtensionLibrary_ok p (qualify dir lib) \<or>
     ResolveSymbol p (qualify dir lib) symname = None"
  then show "fst (LoadLibrarySymbol p dir lib symname s) = Exits 255"
    by (auto simp: LoadLibrarySymbol_def Let_def action_defs kErrorExitCode_def split: option.splits)
qed

theorem C4_snapshot_file_failures_witness:
  "WriteSnapshotFile dart (example_platform\<lparr>File_Open_ok := \<lambda>f. f \<noteq> ''/nonexistent/out.snapshot''\<rparr>)
     None ''/nonexistent/out.snapshot'' True [10, 11, 12] script_snapshot_example =
     (Undefined ''file is NULL'', script_snapshot_example)
 \<and> fst (ReadSnapshotFile (example_platform\<lparr>OpenFile_ok := \<lambda>f. f \<noteq> ''/nonexistent/out.snapshot''\<rparr>)
     None ''/nonexistent/out.snapshot'' script_snapshot_example) = Exits 255"
  using C4_snapshot_file_failures [of
      "example_platform\<lparr>File_Open_ok := \<lambda>f. f \<noteq> ''/nonexistent/out.snapshot''\<rparr>"
      None "''/nonexistent/out.snapshot''" dart True "[10, 11, 12]" script_snapshot_example]
    C4_snapshot_file_failures [of
      "example_platform\<lparr>OpenFile_ok := \<lambda>f. f \<noteq> ''/nonexistent/out.snapshot''\<rparr>"
      None "''/nonexistent/out.snapshot''" dart True "[10, 11, 12]" script_snapshot_example]
  by (simp add: dart_def)

subsection \<open>The progress of \<^verbatim>\<open>inflate\<close>\<close>










end
